theory Spec2Isabelle
  imports Complex_Main
begin

section \<open>The expression node\<close>

text \<open>
  The enumeration \<open>ASTNodeType_t\<close> is declared in a header that is not among the sources
  at hand. The reader and the writer compare its values with \<open><\<close> and \<open>\<le>\<close> and
  index the table \<open>MATHML_FUNCTIONS\<close> with \<open>type - AST_FUNCTION_ABS\<close>, so the
  enumerators are integers here. The operators carry their character codes, the other
  enumerators count up from 256 in the order that \<open>MATHML_FUNCTIONS\<close> fixes for the
  functions; \<open>AST_UNKNOWN\<close> follows every enumerator of the core.
\<close>

type_synonym ASTNodeType_t = int

abbreviation AST_PLUS :: ASTNodeType_t where "AST_PLUS \<equiv> 43"
abbreviation AST_MINUS :: ASTNodeType_t where "AST_MINUS \<equiv> 45"
abbreviation AST_TIMES :: ASTNodeType_t where "AST_TIMES \<equiv> 42"
abbreviation AST_DIVIDE :: ASTNodeType_t where "AST_DIVIDE \<equiv> 47"
abbreviation AST_POWER :: ASTNodeType_t where "AST_POWER \<equiv> 94"
abbreviation AST_INTEGER :: ASTNodeType_t where "AST_INTEGER \<equiv> 256"
abbreviation AST_REAL :: ASTNodeType_t where "AST_REAL \<equiv> 257"
abbreviation AST_REAL_E :: ASTNodeType_t where "AST_REAL_E \<equiv> 258"
abbreviation AST_RATIONAL :: ASTNodeType_t where "AST_RATIONAL \<equiv> 259"
abbreviation AST_NAME :: ASTNodeType_t where "AST_NAME \<equiv> 260"
abbreviation AST_NAME_AVOGADRO :: ASTNodeType_t where "AST_NAME_AVOGADRO \<equiv> 261"
abbreviation AST_NAME_TIME :: ASTNodeType_t where "AST_NAME_TIME \<equiv> 262"
abbreviation AST_CONSTANT_E :: ASTNodeType_t where "AST_CONSTANT_E \<equiv> 263"
abbreviation AST_CONSTANT_FALSE :: ASTNodeType_t where "AST_CONSTANT_FALSE \<equiv> 264"
abbreviation AST_CONSTANT_PI :: ASTNodeType_t where "AST_CONSTANT_PI \<equiv> 265"
abbreviation AST_CONSTANT_TRUE :: ASTNodeType_t where "AST_CONSTANT_TRUE \<equiv> 266"
abbreviation AST_LAMBDA :: ASTNodeType_t where "AST_LAMBDA \<equiv> 267"
abbreviation AST_FUNCTION :: ASTNodeType_t where "AST_FUNCTION \<equiv> 268"
abbreviation AST_FUNCTION_ABS :: ASTNodeType_t where "AST_FUNCTION_ABS \<equiv> 269"
abbreviation AST_FUNCTION_ARCCOS :: ASTNodeType_t where "AST_FUNCTION_ARCCOS \<equiv> 270"
abbreviation AST_FUNCTION_ARCCOSH :: ASTNodeType_t where "AST_FUNCTION_ARCCOSH \<equiv> 271"
abbreviation AST_FUNCTION_ARCCOT :: ASTNodeType_t where "AST_FUNCTION_ARCCOT \<equiv> 272"
abbreviation AST_FUNCTION_ARCCOTH :: ASTNodeType_t where "AST_FUNCTION_ARCCOTH \<equiv> 273"
abbreviation AST_FUNCTION_ARCCSC :: ASTNodeType_t where "AST_FUNCTION_ARCCSC \<equiv> 274"
abbreviation AST_FUNCTION_ARCCSCH :: ASTNodeType_t where "AST_FUNCTION_ARCCSCH \<equiv> 275"
abbreviation AST_FUNCTION_ARCSEC :: ASTNodeType_t where "AST_FUNCTION_ARCSEC \<equiv> 276"
abbreviation AST_FUNCTION_ARCSECH :: ASTNodeType_t where "AST_FUNCTION_ARCSECH \<equiv> 277"
abbreviation AST_FUNCTION_ARCSIN :: ASTNodeType_t where "AST_FUNCTION_ARCSIN \<equiv> 278"
abbreviation AST_FUNCTION_ARCSINH :: ASTNodeType_t where "AST_FUNCTION_ARCSINH \<equiv> 279"
abbreviation AST_FUNCTION_ARCTAN :: ASTNodeType_t where "AST_FUNCTION_ARCTAN \<equiv> 280"
abbreviation AST_FUNCTION_ARCTANH :: ASTNodeType_t where "AST_FUNCTION_ARCTANH \<equiv> 281"
abbreviation AST_FUNCTION_CEILING :: ASTNodeType_t where "AST_FUNCTION_CEILING \<equiv> 282"
abbreviation AST_FUNCTION_COS :: ASTNodeType_t where "AST_FUNCTION_COS \<equiv> 283"
abbreviation AST_FUNCTION_COSH :: ASTNodeType_t where "AST_FUNCTION_COSH \<equiv> 284"
abbreviation AST_FUNCTION_COT :: ASTNodeType_t where "AST_FUNCTION_COT \<equiv> 285"
abbreviation AST_FUNCTION_COTH :: ASTNodeType_t where "AST_FUNCTION_COTH \<equiv> 286"
abbreviation AST_FUNCTION_CSC :: ASTNodeType_t where "AST_FUNCTION_CSC \<equiv> 287"
abbreviation AST_FUNCTION_CSCH :: ASTNodeType_t where "AST_FUNCTION_CSCH \<equiv> 288"
abbreviation AST_FUNCTION_DELAY :: ASTNodeType_t where "AST_FUNCTION_DELAY \<equiv> 289"
abbreviation AST_FUNCTION_EXP :: ASTNodeType_t where "AST_FUNCTION_EXP \<equiv> 290"
abbreviation AST_FUNCTION_FACTORIAL :: ASTNodeType_t where "AST_FUNCTION_FACTORIAL \<equiv> 291"
abbreviation AST_FUNCTION_FLOOR :: ASTNodeType_t where "AST_FUNCTION_FLOOR \<equiv> 292"
abbreviation AST_FUNCTION_LN :: ASTNodeType_t where "AST_FUNCTION_LN \<equiv> 293"
abbreviation AST_FUNCTION_LOG :: ASTNodeType_t where "AST_FUNCTION_LOG \<equiv> 294"
abbreviation AST_FUNCTION_PIECEWISE :: ASTNodeType_t where "AST_FUNCTION_PIECEWISE \<equiv> 295"
abbreviation AST_FUNCTION_POWER :: ASTNodeType_t where "AST_FUNCTION_POWER \<equiv> 296"
abbreviation AST_FUNCTION_ROOT :: ASTNodeType_t where "AST_FUNCTION_ROOT \<equiv> 297"
abbreviation AST_FUNCTION_SEC :: ASTNodeType_t where "AST_FUNCTION_SEC \<equiv> 298"
abbreviation AST_FUNCTION_SECH :: ASTNodeType_t where "AST_FUNCTION_SECH \<equiv> 299"
abbreviation AST_FUNCTION_SIN :: ASTNodeType_t where "AST_FUNCTION_SIN \<equiv> 300"
abbreviation AST_FUNCTION_SINH :: ASTNodeType_t where "AST_FUNCTION_SINH \<equiv> 301"
abbreviation AST_FUNCTION_TAN :: ASTNodeType_t where "AST_FUNCTION_TAN \<equiv> 302"
abbreviation AST_FUNCTION_TANH :: ASTNodeType_t where "AST_FUNCTION_TANH \<equiv> 303"
abbreviation AST_LOGICAL_AND :: ASTNodeType_t where "AST_LOGICAL_AND \<equiv> 304"
abbreviation AST_LOGICAL_NOT :: ASTNodeType_t where "AST_LOGICAL_NOT \<equiv> 305"
abbreviation AST_LOGICAL_OR :: ASTNodeType_t where "AST_LOGICAL_OR \<equiv> 306"
abbreviation AST_LOGICAL_XOR :: ASTNodeType_t where "AST_LOGICAL_XOR \<equiv> 307"
abbreviation AST_RELATIONAL_EQ :: ASTNodeType_t where "AST_RELATIONAL_EQ \<equiv> 308"
abbreviation AST_RELATIONAL_GEQ :: ASTNodeType_t where "AST_RELATIONAL_GEQ \<equiv> 309"
abbreviation AST_RELATIONAL_GT :: ASTNodeType_t where "AST_RELATIONAL_GT \<equiv> 310"
abbreviation AST_RELATIONAL_LEQ :: ASTNodeType_t where "AST_RELATIONAL_LEQ \<equiv> 311"
abbreviation AST_RELATIONAL_LT :: ASTNodeType_t where "AST_RELATIONAL_LT \<equiv> 312"
abbreviation AST_RELATIONAL_NEQ :: ASTNodeType_t where "AST_RELATIONAL_NEQ \<equiv> 313"
abbreviation AST_END_OF_CORE :: ASTNodeType_t where "AST_END_OF_CORE \<equiv> 315"
abbreviation AST_FUNCTION_RATE_OF :: ASTNodeType_t where "AST_FUNCTION_RATE_OF \<equiv> 323"
abbreviation AST_CSYMBOL_FUNCTION :: ASTNodeType_t where "AST_CSYMBOL_FUNCTION \<equiv> 400"
abbreviation AST_UNKNOWN :: ASTNodeType_t where "AST_UNKNOWN \<equiv> 1000"

text \<open>
  A C \<open>double\<close>. A finite value is the exact number its decimal text denotes (the rounding
  to 53 bits of mantissa and the overflow of a finite text to an infinity are not
  modelled); the infinities and NaN are values of their own.
\<close>

datatype double = Finite rat | PosInf | NegInf | NaN

type_synonym XMLAttributes = "(string \<times> string) list"

text \<open>
  Modelled from the spec: the class \<open>ASTNode\<close> (its source file is not at hand), after
  the data model of the specification: a kind, an ordered sequence of owned children, the
  numeric payload (an integer or numerator, a denominator, a double or mantissa, an
  exponent), an optional name, an optional definition URL (kept as the attribute set it
  was read from), the units, id, class and style strings, the bvar flag, the semantics
  flag and the opaque annotation subtrees (each kept as the tokens it was read from).
\<close>

record XMLToken =
  tName :: string
  tPrefix :: string
  tAttributes :: XMLAttributes
  tIsStart :: bool
  tIsEnd :: bool
  tIsText :: bool
  tCharacters :: string

type_synonym XMLNode = "XMLToken list"

record ASTNodeData =
  mType :: ASTNodeType_t
  mInteger :: int
  mReal :: double
  mDenominator :: int
  mExponent :: int
  mName :: "string option"
  mDefinitionURL :: "XMLAttributes option"
  mUnits :: string
  mId :: string
  mClass :: string
  mStyle :: string
  mIsBvar :: bool
  mSemanticsFlag :: bool
  mSemanticsAnnotations :: "XMLNode list"

datatype ASTNode = ASTNode (dat: ASTNodeData) (mChildren: "ASTNode list")

text \<open>\<open>new ASTNode\<close>: an unknown node with no children.\<close>

definition newASTNode :: ASTNode where
  "newASTNode = ASTNode \<lparr> mType = AST_UNKNOWN, mInteger = 0, mReal = Finite 0,
     mDenominator = 1, mExponent = 0, mName = None, mDefinitionURL = None,
     mUnits = [], mId = [], mClass = [], mStyle = [], mIsBvar = False,
     mSemanticsFlag = False, mSemanticsAnnotations = [] \<rparr> []"

definition getType :: "ASTNode \<Rightarrow> ASTNodeType_t" where
  "getType node = mType (dat node)"

definition getNumChildren :: "ASTNode \<Rightarrow> nat" where
  "getNumChildren node = length (mChildren node)"

definition upd :: "(ASTNodeData \<Rightarrow> ASTNodeData) \<Rightarrow> ASTNode \<Rightarrow> ASTNode" where
  "upd f node = ASTNode (f (dat node)) (mChildren node)"

definition isInteger :: "ASTNode \<Rightarrow> bool" where
  "isInteger node = (getType node = AST_INTEGER)"

definition isReal :: "ASTNode \<Rightarrow> bool" where
  "isReal node = (getType node = AST_REAL \<or> getType node = AST_REAL_E
     \<or> getType node = AST_RATIONAL)"

definition isRational :: "ASTNode \<Rightarrow> bool" where
  "isRational node = (getType node = AST_RATIONAL)"

definition isNumber :: "ASTNode \<Rightarrow> bool" where
  "isNumber node = (isInteger node \<or> isReal node)"

definition isOperator :: "ASTNode \<Rightarrow> bool" where
  "isOperator node = (getType node = AST_PLUS \<or> getType node = AST_MINUS
     \<or> getType node = AST_TIMES \<or> getType node = AST_DIVIDE \<or> getType node = AST_POWER)"

definition isName :: "ASTNode \<Rightarrow> bool" where
  "isName node = (getType node = AST_NAME \<or> getType node = AST_NAME_AVOGADRO
     \<or> getType node = AST_NAME_TIME)"

definition isConstant :: "ASTNode \<Rightarrow> bool" where
  "isConstant node = (getType node = AST_CONSTANT_E \<or> getType node = AST_CONSTANT_FALSE
     \<or> getType node = AST_CONSTANT_PI \<or> getType node = AST_CONSTANT_TRUE)"

definition isLambda :: "ASTNode \<Rightarrow> bool" where
  "isLambda node = (getType node = AST_LAMBDA)"

definition isPiecewise :: "ASTNode \<Rightarrow> bool" where
  "isPiecewise node = (getType node = AST_FUNCTION_PIECEWISE)"

definition isUnknown :: "ASTNode \<Rightarrow> bool" where
  "isUnknown node = (getType node = AST_UNKNOWN)"

text \<open>
  \<open>setType\<close>: the payload of an operator or a number is reset; a type that cannot carry a
  name (an operator or a number) drops the name.
\<close>

definition setType :: "ASTNodeType_t \<Rightarrow> ASTNode \<Rightarrow> ASTNode" where
  "setType t node =
     (if getType node = t then node
      else let node1 = (if isOperator node \<or> isNumber node
                        then upd (\<lambda>d. d\<lparr>mInteger := 0, mReal := Finite 0,
                                          mExponent := 0, mDenominator := 1\<rparr>) node
                        else node)
           in if t = AST_PLUS \<or> t = AST_MINUS \<or> t = AST_TIMES \<or> t = AST_DIVIDE
                 \<or> t = AST_POWER \<or> (AST_INTEGER \<le> t \<and> t \<le> AST_RATIONAL)
              then upd (\<lambda>d. d\<lparr>mType := t, mName := None\<rparr>) node1
              else upd (\<lambda>d. d\<lparr>mType := t\<rparr>) node1)"

text \<open>The four overloads of \<open>setValue\<close>.\<close>

definition setValue_int :: "int \<Rightarrow> ASTNode \<Rightarrow> ASTNode" where
  "setValue_int v node = upd (\<lambda>d. d\<lparr>mInteger := v\<rparr>) (setType AST_INTEGER node)"

definition setValue_double :: "double \<Rightarrow> ASTNode \<Rightarrow> ASTNode" where
  "setValue_double v node = upd (\<lambda>d. d\<lparr>mReal := v\<rparr>) (setType AST_REAL node)"

definition setValue_rational :: "int \<Rightarrow> int \<Rightarrow> ASTNode \<Rightarrow> ASTNode" where
  "setValue_rational n d node =
     upd (\<lambda>x. x\<lparr>mInteger := n, mDenominator := d\<rparr>) (setType AST_RATIONAL node)"

definition setValue_e :: "double \<Rightarrow> int \<Rightarrow> ASTNode \<Rightarrow> ASTNode" where
  "setValue_e m e node =
     upd (\<lambda>d. d\<lparr>mReal := m, mExponent := e\<rparr>) (setType AST_REAL_E node)"

text \<open>
  \<open>SyntaxChecker::isValidInternalUnitSId\<close>: the empty string, or a letter or underscore
  followed by letters, digits and underscores.
\<close>

definition isLetter :: "char \<Rightarrow> bool" where
  "isLetter c = (let n = (of_char c :: nat)
                 in (97 \<le> n \<and> n \<le> 122) \<or> (65 \<le> n \<and> n \<le> 90))"

definition isDigit :: "char \<Rightarrow> bool" where
  "isDigit c = (let n = (of_char c :: nat) in 48 \<le> n \<and> n \<le> 57)"

definition isValidInternalUnitSId :: "string \<Rightarrow> bool" where
  "isValidInternalUnitSId s =
     (case s of [] \<Rightarrow> True
      | c # cs \<Rightarrow> (isLetter c \<or> c = CHR ''_'')
          \<and> list_all (\<lambda>x. isLetter x \<or> isDigit x \<or> x = CHR ''_'') cs)"

text \<open>\<open>setUnits\<close> is refused on a node that is not a number and on an ill-formed id.\<close>

definition setUnits :: "string \<Rightarrow> ASTNode \<Rightarrow> ASTNode" where
  "setUnits u node =
     (if \<not> isNumber node then node
      else if \<not> isValidInternalUnitSId u then node
      else upd (\<lambda>d. d\<lparr>mUnits := u\<rparr>) node)"

definition getUnits :: "ASTNode \<Rightarrow> string" where
  "getUnits node = mUnits (dat node)"

definition prependChild :: "ASTNode \<Rightarrow> ASTNode \<Rightarrow> ASTNode" where
  "prependChild child node = ASTNode (dat node) (child # mChildren node)"

definition addChild :: "ASTNode \<Rightarrow> ASTNode \<Rightarrow> ASTNode" where
  "addChild child node = ASTNode (dat node) (mChildren node @ [child])"

section \<open>The reader\<close>

text \<open>
  \<open>checkFunctionArgs\<close>: a log or a root with a single argument gets its default first
  argument, \<open>log(x) -> log(10, x)\<close> and \<open>root(x) -> root(2, x)\<close>.
\<close>

definition checkFunctionArgs :: "ASTNode \<Rightarrow> ASTNode" where
  "checkFunctionArgs node =
     (if getNumChildren node = 1 then
        (if getType node = AST_FUNCTION_LOG then
           prependChild (setUnits ''dimensionless'' (setValue_int 10 newASTNode)) node
         else if getType node = AST_FUNCTION_ROOT then
           prependChild (setUnits ''dimensionless'' (setValue_int 2 newASTNode)) node
         else node)
      else node)"

text \<open>
  \<open>reduceBinary\<close>: a node that holds two children hands them to a new node of its own
  type (\<open>swapChildren\<close>), which becomes its only child (\<open>prependChild\<close>).
\<close>

definition reduceBinary :: "ASTNode \<Rightarrow> ASTNode" where
  "reduceBinary node =
     (if getNumChildren node = 2 then
        (let op = ASTNode (dat (setType (getType node) newASTNode)) (mChildren node)
         in prependChild op (ASTNode (dat node) []))
      else node)"


text \<open>The remaining setters and queries of the node that the reader and the writer call.\<close>

definition unsetUnits :: "ASTNode \<Rightarrow> ASTNode" where
  "unsetUnits node = upd (\<lambda>d. d\<lparr>mUnits := []\<rparr>) node"

text \<open>\<open>setName\<close> turns an operator, a number or an unknown node into a plain name.\<close>

definition setName :: "string \<Rightarrow> ASTNode \<Rightarrow> ASTNode" where
  "setName name node =
     (let node1 = unsetUnits node;
          node2 = (if isOperator node1 \<or> isNumber node1 \<or> isUnknown node1
                   then upd (\<lambda>d. d\<lparr>mType := AST_NAME\<rparr>) node1 else node1)
      in upd (\<lambda>d. d\<lparr>mName := Some name\<rparr>) node2)"

definition getName :: "ASTNode \<Rightarrow> string option" where
  "getName node = mName (dat node)"

definition setId :: "string \<Rightarrow> ASTNode \<Rightarrow> ASTNode" where
  "setId v node = upd (\<lambda>d. d\<lparr>mId := v\<rparr>) node"

definition setClass :: "string \<Rightarrow> ASTNode \<Rightarrow> ASTNode" where
  "setClass v node = upd (\<lambda>d. d\<lparr>mClass := v\<rparr>) node"

definition setStyle :: "string \<Rightarrow> ASTNode \<Rightarrow> ASTNode" where
  "setStyle v node = upd (\<lambda>d. d\<lparr>mStyle := v\<rparr>) node"

definition setBvar :: "ASTNode \<Rightarrow> ASTNode" where
  "setBvar node = upd (\<lambda>d. d\<lparr>mIsBvar := True\<rparr>) node"

definition isBvar :: "ASTNode \<Rightarrow> bool" where
  "isBvar node = mIsBvar (dat node)"

definition setSemanticsFlag :: "ASTNode \<Rightarrow> ASTNode" where
  "setSemanticsFlag node = upd (\<lambda>d. d\<lparr>mSemanticsFlag := True\<rparr>) node"

definition getSemanticsFlag :: "ASTNode \<Rightarrow> bool" where
  "getSemanticsFlag node = mSemanticsFlag (dat node)"

definition addSemanticsAnnotation :: "XMLNode \<Rightarrow> ASTNode \<Rightarrow> ASTNode" where
  "addSemanticsAnnotation a node =
     upd (\<lambda>d. d\<lparr>mSemanticsAnnotations := mSemanticsAnnotations d @ [a]\<rparr>) node"

text \<open>
  \<open>setDefinitionURL\<close> has two overloads: one takes the URL, one takes a whole attribute
  set and keeps a copy of it.
\<close>

definition setDefinitionURL_string :: "string \<Rightarrow> ASTNode \<Rightarrow> ASTNode" where
  "setDefinitionURL_string url node =
     upd (\<lambda>d. d\<lparr>mDefinitionURL := Some [(''definitionURL'', url)]\<rparr>) node"

definition setDefinitionURL_attributes :: "XMLAttributes \<Rightarrow> ASTNode \<Rightarrow> ASTNode" where
  "setDefinitionURL_attributes atts node = upd (\<lambda>d. d\<lparr>mDefinitionURL := Some atts\<rparr>) node"

definition getDefinitionURL :: "ASTNode \<Rightarrow> XMLAttributes option" where
  "getDefinitionURL node = mDefinitionURL (dat node)"

definition readInto :: "XMLAttributes \<Rightarrow> string \<Rightarrow> string \<Rightarrow> string" where
  "readInto atts name dflt = (case map_of atts name of Some v \<Rightarrow> v | None \<Rightarrow> dflt)"

definition hasAttribute :: "XMLAttributes \<Rightarrow> string \<Rightarrow> bool" where
  "hasAttribute atts name = (map_of atts name \<noteq> None)"

definition getDefinitionURLString :: "ASTNode \<Rightarrow> string" where
  "getDefinitionURLString node =
     (case mDefinitionURL (dat node) of None \<Rightarrow> [] | Some atts \<Rightarrow> readInto atts ''definitionURL'' [])"

text \<open>
  \<open>getReal\<close>: the value of a real node; an e-notation node is mantissa times ten to the
  exponent, a rational node is the quotient, computed in doubles (so a zero denominator
  gives an infinity or NaN).
\<close>

definition getReal :: "ASTNode \<Rightarrow> double" where
  "getReal node =
     (if getType node = AST_REAL_E then
        (case mReal (dat node) of
           Finite m \<Rightarrow> Finite (if 0 \<le> mExponent (dat node)
                              then m * 10 ^ nat (mExponent (dat node))
                              else m / 10 ^ nat (- mExponent (dat node)))
         | x \<Rightarrow> x)
      else if getType node = AST_RATIONAL then
        (if mDenominator (dat node) = 0 then
           (if mInteger (dat node) > 0 then PosInf
            else if mInteger (dat node) < 0 then NegInf else NaN)
         else Finite (of_int (mInteger (dat node)) / of_int (mDenominator (dat node))))
      else mReal (dat node))"

definition isInfinity :: "ASTNode \<Rightarrow> bool" where
  "isInfinity node = (isReal node \<and> getReal node = PosInf)"

definition isNegInfinity :: "ASTNode \<Rightarrow> bool" where
  "isNegInfinity node = (isReal node \<and> getReal node = NegInf)"

definition isNaN :: "ASTNode \<Rightarrow> bool" where
  "isNaN node = (isReal node \<and> getReal node = NaN)"

definition getLeftChild :: "ASTNode \<Rightarrow> ASTNode option" where
  "getLeftChild node = (case mChildren node of [] \<Rightarrow> None | c # _ \<Rightarrow> Some c)"

text \<open>\<open>getRightChild\<close> is the last child of a node with more than one child.\<close>

definition getRightChild :: "ASTNode \<Rightarrow> ASTNode option" where
  "getRightChild node =
     (if getNumChildren node > 1 then Some (last (mChildren node)) else None)"

definition getChild :: "ASTNode \<Rightarrow> nat \<Rightarrow> ASTNode option" where
  "getChild node n = (if n < getNumChildren node then Some (mChildren node ! n) else None)"

fun hasUnits :: "ASTNode \<Rightarrow> bool" where
  "hasUnits (ASTNode d cs) = (mUnits d \<noteq> [] \<or> list_ex hasUnits cs)"

section \<open>The token stream\<close>

text \<open>
  Modelled from the spec: the input stream (its source is not at hand), as the
  specification describes its interface: peek at the next token, consume the next token,
  test whether a token is the matching end tag of a start tag, skip whitespace-only text
  tokens, skip past the end of a subtree, and read attribute values by name; it supplies
  the namespace context (level and version) and the error sink. A token is a start tag, an
  end tag, both at once (an element without content) or text; past the last token the
  stream hands out an empty end-of-file token and is no longer good. Namespace URIs are
  taken to agree everywhere; the log keeps the code of every diagnostic posted, in order.
\<close>

record SBMLNamespaces =
  nsLevel :: nat
  nsVersion :: nat

datatype SBMLErrorCode_t =
    InvalidMathElement
  | DisallowedMathMLSymbol
  | DisallowedMathMLEncodingUse
  | DisallowedDefinitionURLUse
  | BadCsymbolDefinitionURLValue
  | DisallowedMathTypeAttributeUse
  | DisallowedMathTypeAttributeValue
  | OpsNeedCorrectNumberOfArgs
  | DisallowedMathUnitsUse
  | InvalidUnitIdSyntax
  | BadMathML
  | FailedMathMLReadOfDouble
  | FailedMathMLReadOfInteger
  | FailedMathMLReadOfExponential
  | FailedMathMLReadOfRational
  | BadMathMLNodeType
  | InvalidMathMLAttribute
  | XMLParserError int

text \<open>
  The numeric ids of the codes (an \<open>unsigned int\<close>, kept as an integer);
  \<open>XMLParserError\<close> stands for what the XML parser logs.
\<close>

fun errorId :: "SBMLErrorCode_t \<Rightarrow> int" where
  "errorId InvalidMathElement = 10201"
| "errorId DisallowedMathMLSymbol = 10202"
| "errorId DisallowedMathMLEncodingUse = 10203"
| "errorId DisallowedDefinitionURLUse = 10204"
| "errorId BadCsymbolDefinitionURLValue = 10205"
| "errorId DisallowedMathTypeAttributeUse = 10206"
| "errorId DisallowedMathTypeAttributeValue = 10207"
| "errorId OpsNeedCorrectNumberOfArgs = 10218"
| "errorId DisallowedMathUnitsUse = 10220"
| "errorId InvalidUnitIdSyntax = 10311"
| "errorId BadMathML = 99219"
| "errorId FailedMathMLReadOfDouble = 99220"
| "errorId FailedMathMLReadOfInteger = 99221"
| "errorId FailedMathMLReadOfExponential = 99222"
| "errorId FailedMathMLReadOfRational = 99223"
| "errorId BadMathMLNodeType = 99224"
| "errorId InvalidMathMLAttribute = 99225"
| "errorId (XMLParserError n) = n"

record XMLInputStream =
  tokens :: "XMLToken list"
  errorLog :: "SBMLErrorCode_t list"
  sbmlNamespaces :: "SBMLNamespaces option"

definition eofToken :: XMLToken where
  "eofToken = \<lparr> tName = [], tPrefix = [], tAttributes = [], tIsStart = False,
     tIsEnd = False, tIsText = False, tCharacters = [] \<rparr>"

definition isGood :: "XMLInputStream \<Rightarrow> bool" where
  "isGood stream = (tokens stream \<noteq> [])"

definition peek :: "XMLInputStream \<Rightarrow> XMLToken" where
  "peek stream = (case tokens stream of [] \<Rightarrow> eofToken | t # _ \<Rightarrow> t)"

definition consume :: "XMLInputStream \<Rightarrow> XMLInputStream" where
  "consume stream = stream\<lparr>tokens := tl (tokens stream)\<rparr>"

text \<open>\<open>stream.next()\<close> is \<open>peek\<close> for the token and \<open>consume\<close> for the stream.\<close>

definition isEndFor :: "XMLToken \<Rightarrow> XMLToken \<Rightarrow> bool" where
  "isEndFor t element = (tIsEnd t \<and> \<not> tIsStart t \<and> tIsStart element \<and> tName element = tName t)"

definition isSpace :: "char \<Rightarrow> bool" where
  "isSpace c = (c = CHR '' '' \<or> c = CHR 0x09 \<or> c = CHR 0x0D \<or> c = CHR 0x0A)"

definition isWhiteSpaceText :: "XMLToken \<Rightarrow> bool" where
  "isWhiteSpaceText t = (tIsText t \<and> list_all isSpace (tCharacters t))"

definition skipText :: "XMLInputStream \<Rightarrow> XMLInputStream" where
  "skipText stream = stream\<lparr>tokens := dropWhile isWhiteSpaceText (tokens stream)\<rparr>"

text \<open>The loop \<open>while (stream.peek().isText()) stream.next()\<close> of the reader.\<close>

definition skipAllText :: "XMLInputStream \<Rightarrow> XMLInputStream" where
  "skipAllText stream = stream\<lparr>tokens := dropWhile tIsText (tokens stream)\<rparr>"

definition skipPastEnd :: "XMLToken \<Rightarrow> XMLInputStream \<Rightarrow> XMLInputStream" where
  "skipPastEnd element stream =
     (if tIsEnd element then stream
      else stream\<lparr>tokens := tl (dropWhile (\<lambda>t. \<not> isEndFor t element) (tokens stream))\<rparr>)"

definition logError :: "SBMLErrorCode_t \<Rightarrow> XMLInputStream \<Rightarrow> XMLInputStream" where
  "logError code stream = stream\<lparr>errorLog := errorLog stream @ [code]\<rparr>"

text \<open>\<open>SBMLErrorLog::contains\<close> and \<open>getNumErrors\<close>.\<close>

definition contains :: "SBMLErrorCode_t list \<Rightarrow> int \<Rightarrow> bool" where
  "contains elog n = list_ex (\<lambda>e. errorId e = n) elog"

definition getNumErrors :: "SBMLErrorCode_t list \<Rightarrow> nat" where
  "getNumErrors elog = length elog"


section \<open>Reading numbers and names\<close>

text \<open>
  What the reader and the writer take from outside these sources: the content of the
  process-wide definition-URL registry (a table from csymbol URLs to kinds) with the flag
  that its core entries have been added; the sizes in bytes of the C types \<open>int\<close> and
  \<open>long\<close> of the build; the text that stream insertion with the precision
  \<open>LIBSBML_DOUBLE_PRECISION\<close> gives for a double; the namespace URI of a level and
  version; and the XML parser, which turns a text into its tokens and the errors it logs
  for it.
\<close>

record Globals =
  definitionURLs :: "(string \<times> ASTNodeType_t) list"
  coreDefinitionsAdded :: bool
  sizeof_int :: nat
  sizeof_long :: nat
  formatDouble :: "double \<Rightarrow> string"
  getSBMLNamespaceURI :: "nat \<Rightarrow> nat \<Rightarrow> string"
  parseXML :: "string \<Rightarrow> XMLToken list \<times> SBMLErrorCode_t list"

text \<open>\<open>DefinitionURLRegistry::getType\<close>: the kind registered for a URL, else unknown.\<close>

definition registry_getType :: "Globals \<Rightarrow> string \<Rightarrow> ASTNodeType_t" where
  "registry_getType g url =
     (case map_of (definitionURLs g) url of Some t \<Rightarrow> t | None \<Rightarrow> AST_UNKNOWN)"

definition URL_TIME :: string where
  "URL_TIME = ''http://www.sbml.org/sbml/symbols/time''"

definition URL_DELAY :: string where
  "URL_DELAY = ''http://www.sbml.org/sbml/symbols/delay''"

definition URL_AVOGADRO :: string where
  "URL_AVOGADRO = ''http://www.sbml.org/sbml/symbols/avogadro''"

text \<open>
  Modelled from the spec: the registry after \<open>setSBMLDefinitionURLs\<close> with no extension
  registered. The specification has the registry map the time, delay and avogadro URLs to
  their kinds.
\<close>

definition sbmlDefinitions :: "(string \<times> ASTNodeType_t) list" where
  "sbmlDefinitions = [(URL_TIME, AST_NAME_TIME), (URL_DELAY, AST_FUNCTION_DELAY),
     (URL_AVOGADRO, AST_NAME_AVOGADRO)]"

abbreviation SBML_INT_MAX :: int where "SBML_INT_MAX \<equiv> 2147483647"
abbreviation SBML_INT_MIN :: int where "SBML_INT_MIN \<equiv> - 2147483647 - 1"

text \<open>
  Formatted extraction \<open>is >> value\<close> from a string stream, for a signed integer type of
  the given size: leading white space is skipped, then an optional sign and the longest
  run of digits is read. No digit sets the fail bit and stores 0; a number out of the
  range of the type sets the fail bit and stores the nearest bound. The result is the
  value stored and the fail bit.
\<close>

definition isStreamSpace :: "char \<Rightarrow> bool" where
  "isStreamSpace c = (c = CHR '' '' \<or> c = CHR 0x09 \<or> c = CHR 0x0A \<or> c = CHR 0x0B
     \<or> c = CHR 0x0C \<or> c = CHR 0x0D)"

definition digitValue :: "char \<Rightarrow> int" where
  "digitValue c = of_char c - 48"

definition decimalValue :: "string \<Rightarrow> int" where
  "decimalValue ds = foldl (\<lambda>a c. 10 * a + digitValue c) 0 ds"

definition isNegative :: "string \<Rightarrow> bool" where
  "isNegative s = (case s of [] \<Rightarrow> False | c # _ \<Rightarrow> c = CHR ''-'')"

definition dropSign :: "string \<Rightarrow> string" where
  "dropSign s = (case s of [] \<Rightarrow> []
                 | c # r \<Rightarrow> if c = CHR ''-'' \<or> c = CHR ''+'' then r else s)"

definition typeMax :: "nat \<Rightarrow> int" where
  "typeMax bytes = 2 ^ (8 * bytes - 1) - 1"

definition typeMin :: "nat \<Rightarrow> int" where
  "typeMin bytes = - (2 ^ (8 * bytes - 1))"

definition extractInteger :: "nat \<Rightarrow> string \<Rightarrow> int \<times> bool" where
  "extractInteger bytes text =
     (let s = dropWhile isStreamSpace text;
          ds = takeWhile isDigit (dropSign s);
          v = (if isNegative s then - decimalValue ds else decimalValue ds)
      in if ds = [] then (0, True)
         else if v > typeMax bytes then (typeMax bytes, True)
         else if v < typeMin bytes then (typeMin bytes, True)
         else (v, False))"

text \<open>
  The same for a \<open>double\<close>: an optional sign, digits with an optional fraction, and an
  optional exponent. No digit, or an exponent mark without digits, sets the fail bit and
  stores 0.
\<close>

definition scaleDecimal :: "int \<Rightarrow> int \<Rightarrow> rat" where
  "scaleDecimal m e = (if 0 \<le> e then of_int m * 10 ^ nat e else of_int m / 10 ^ nat (- e))"

definition extractDouble :: "string \<Rightarrow> double \<times> bool" where
  "extractDouble text =
     (let s = dropWhile isStreamSpace text;
          s1 = dropSign s;
          ip = takeWhile isDigit s1;
          r1 = dropWhile isDigit s1;
          fp = (case r1 of [] \<Rightarrow> [] | c # r \<Rightarrow> if c = CHR ''.'' then takeWhile isDigit r else []);
          r2 = (case r1 of [] \<Rightarrow> [] | c # r \<Rightarrow> if c = CHR ''.'' then dropWhile isDigit r else r1);
          m = (if isNegative s then - decimalValue (ip @ fp) else decimalValue (ip @ fp));
          hasExp = (case r2 of [] \<Rightarrow> False | c # _ \<Rightarrow> c = CHR ''e'' \<or> c = CHR ''E'');
          es = tl r2;
          ed = takeWhile isDigit (dropSign es);
          e = (if isNegative es then - decimalValue ed else decimalValue ed)
      in if ip = [] \<and> fp = [] then (Finite 0, True)
         else if hasExp then
           (if ed = [] then (Finite 0, True)
            else (Finite (scaleDecimal m (e - int (length fp))), False))
         else (Finite (scaleDecimal m (- int (length fp))), False))"

text \<open>\<open>trim\<close>: the string without the white space at its beginning and end.\<close>

definition trim :: "string \<Rightarrow> string" where
  "trim s = rev (dropWhile isSpace (rev (dropWhile isSpace s)))"

definition isValidCSymbol :: "SBMLNamespaces option \<Rightarrow> ASTNodeType_t \<Rightarrow> bool" where
  "isValidCSymbol sbmlns type =
     (case sbmlns of None \<Rightarrow> True
      | Some ns \<Rightarrow>
          if nsLevel ns < 2 then False
          else if nsLevel ns < 3 \<and> (type = AST_NAME_AVOGADRO \<or> type = AST_FUNCTION_RATE_OF)
          then False
          else True)"

text \<open>
  \<open>setTypeCI\<close>, for a \<open>ci\<close> or \<open>csymbol\<close> element: the kind from the definition URL,
  then the name from the text that follows.
\<close>

definition setTypeCI :: "Globals \<Rightarrow> ASTNode \<Rightarrow> XMLToken \<Rightarrow> XMLInputStream
    \<Rightarrow> ASTNode \<times> XMLInputStream" where
  "setTypeCI g node element stream =
     (let (node1, stream1) =
        (if tName element = ''csymbol'' then
           (let url = readInto (tAttributes element) ''definitionURL'' [];
                type = registry_getType g url
            in if sbmlNamespaces stream = None \<and> type = AST_UNKNOWN then
                 (setDefinitionURL_string url (setType AST_CSYMBOL_FUNCTION node), stream)
               else if type = AST_UNKNOWN \<or> \<not> isValidCSymbol (sbmlNamespaces stream) type then
                 (node, logError BadCsymbolDefinitionURLValue stream)
               else
                 (if type = AST_CSYMBOL_FUNCTION \<or> type > AST_UNKNOWN
                  then setDefinitionURL_string url (setType type node)
                  else setType type node, stream))
         else if tName element = ''ci'' then
           (if hasAttribute (tAttributes element) ''definitionURL''
            then setDefinitionURL_attributes (tAttributes element) node
            else node, stream)
         else (node, stream));
          name = trim (tCharacters (peek stream1))
      in (setName name node1, consume stream1))"

text \<open>\<open>setTypeCN\<close>, for a \<open>cn\<close> element: the number from the text that follows.\<close>

definition setTypeCN :: "Globals \<Rightarrow> ASTNode \<Rightarrow> XMLToken \<Rightarrow> XMLInputStream
    \<Rightarrow> ASTNode \<times> XMLInputStream" where
  "setTypeCN g node element stream =
     (let type = readInto (tAttributes element) ''type'' ''real'';
          units = readInto (tAttributes element) ''units'' [];
          stream0 = (if \<not> isValidInternalUnitSId units
                     then logError InvalidUnitIdSyntax stream else stream);
          (node1, stream1) =
            (if type = ''real'' then
               (let (value, failed) = extractDouble (tCharacters (peek stream0));
                    s1 = consume stream0;
                    n1 = setValue_double value node
                in (n1, if failed \<or> isInfinity n1 \<or> isNegInfinity n1
                        then logError FailedMathMLReadOfDouble s1 else s1))
             else if type = ''integer'' then
               (let (value, failed) = extractInteger (sizeof_int g) (tCharacters (peek stream0));
                    s1 = consume stream0;
                    s2 = (if failed then logError FailedMathMLReadOfInteger s1
                          else if sizeof_int g > 4
                                  \<and> (value > SBML_INT_MAX \<or> value < SBML_INT_MIN)
                          then logError FailedMathMLReadOfInteger s1
                          else s1)
                in (setValue_int value node, s2))
             else if type = ''e-notation'' then
               (let (mantissa, mfailed) = extractDouble (tCharacters (peek stream0));
                    s1 = consume stream0;
                    hasSep = (tName (peek s1) = ''sep'');
                    (exponent, efailed) =
                       (if hasSep
                        then extractInteger (sizeof_long g) (tCharacters (peek (consume s1)))
                        else (0, False));
                    s2 = (if hasSep then consume (consume s1) else s1);
                    n1 = setValue_e mantissa exponent node
                in (n1, if mfailed \<or> efailed \<or> isInfinity n1 \<or> isNegInfinity n1
                        then logError FailedMathMLReadOfExponential s2 else s2))
             else if type = ''rational'' then
               (let (numerator, nfailed) =
                       extractInteger (sizeof_int g) (tCharacters (peek stream0));
                    s1 = consume stream0;
                    hasSep = (tName (peek s1) = ''sep'');
                    (denominator, dfailed) =
                       (if hasSep
                        then extractInteger (sizeof_int g) (tCharacters (peek (consume s1)))
                        else (1, False));
                    s2 = (if hasSep then consume (consume s1) else s1);
                    s3 = (if nfailed \<or> dfailed then logError FailedMathMLReadOfRational s2
                          else if sizeof_int g > 4
                                  \<and> ((numerator > SBML_INT_MAX \<or> numerator < SBML_INT_MIN)
                                     \<or> (denominator > SBML_INT_MAX \<or> denominator < SBML_INT_MIN))
                          then logError FailedMathMLReadOfRational s2
                          else s2)
                in (setValue_rational numerator denominator node, s3))
             else (node, logError DisallowedMathTypeAttributeValue stream0))
      in (if units \<noteq> [] then setUnits units node1 else node1, stream1))"

text \<open>
  The static tables of element names and of the kinds they stand for, index by index.
\<close>

definition MATHML_ELEMENTS :: "string list" where
  "MATHML_ELEMENTS = [''abs'', ''and'', ''annotation'', ''annotation-xml'', ''apply'',
     ''arccos'', ''arccosh'', ''arccot'', ''arccoth'', ''arccsc'', ''arccsch'', ''arcsec'',
     ''arcsech'', ''arcsin'', ''arcsinh'', ''arctan'', ''arctanh'', ''bvar'', ''ceiling'',
     ''ci'', ''cn'', ''cos'', ''cosh'', ''cot'', ''coth'', ''csc'', ''csch'', ''csymbol'',
     ''degree'', ''divide'', ''eq'', ''exp'', ''exponentiale'', ''factorial'', ''false'',
     ''floor'', ''geq'', ''gt'', ''infinity'', ''lambda'', ''leq'', ''ln'', ''log'',
     ''logbase'', ''lt'', ''math'', ''minus'', ''neq'', ''not'', ''notanumber'', ''or'',
     ''otherwise'', ''pi'', ''piece'', ''piecewise'', ''plus'', ''power'', ''root'', ''sec'',
     ''sech'', ''semantics'', ''sep'', ''sin'', ''sinh'', ''tan'', ''tanh'', ''times'',
     ''true'', ''xor'']"

definition MATHML_TYPES :: "ASTNodeType_t list" where
  "MATHML_TYPES = [AST_FUNCTION_ABS, AST_LOGICAL_AND, AST_UNKNOWN, AST_UNKNOWN, AST_FUNCTION,
     AST_FUNCTION_ARCCOS, AST_FUNCTION_ARCCOSH, AST_FUNCTION_ARCCOT, AST_FUNCTION_ARCCOTH,
     AST_FUNCTION_ARCCSC, AST_FUNCTION_ARCCSCH, AST_FUNCTION_ARCSEC, AST_FUNCTION_ARCSECH,
     AST_FUNCTION_ARCSIN, AST_FUNCTION_ARCSINH, AST_FUNCTION_ARCTAN, AST_FUNCTION_ARCTANH,
     AST_UNKNOWN, AST_FUNCTION_CEILING, AST_NAME, AST_CSYMBOL_FUNCTION, AST_FUNCTION_COS,
     AST_FUNCTION_COSH, AST_FUNCTION_COT, AST_FUNCTION_COTH, AST_FUNCTION_CSC,
     AST_FUNCTION_CSCH, AST_NAME, AST_UNKNOWN, AST_DIVIDE, AST_RELATIONAL_EQ,
     AST_FUNCTION_EXP, AST_CONSTANT_E, AST_FUNCTION_FACTORIAL, AST_CONSTANT_FALSE,
     AST_FUNCTION_FLOOR, AST_RELATIONAL_GEQ, AST_RELATIONAL_GT, AST_REAL, AST_LAMBDA,
     AST_RELATIONAL_LEQ, AST_FUNCTION_LN, AST_FUNCTION_LOG, AST_UNKNOWN, AST_RELATIONAL_LT,
     AST_UNKNOWN, AST_MINUS, AST_RELATIONAL_NEQ, AST_LOGICAL_NOT, AST_REAL, AST_LOGICAL_OR,
     AST_UNKNOWN, AST_CONSTANT_PI, AST_UNKNOWN, AST_FUNCTION_PIECEWISE, AST_PLUS,
     AST_FUNCTION_POWER, AST_FUNCTION_ROOT, AST_FUNCTION_SEC, AST_FUNCTION_SECH, AST_UNKNOWN,
     AST_UNKNOWN, AST_FUNCTION_SIN, AST_FUNCTION_SINH, AST_FUNCTION_TAN, AST_FUNCTION_TANH,
     AST_TIMES, AST_CONSTANT_TRUE, AST_LOGICAL_XOR]"

text \<open>
  Modelled from the spec: \<open>util_bsearchStringsI\<close> (its source is not at hand), the
  case-insensitive binary search over the sorted name table; it answers the index of the
  name, or the size of the table when the name is not in it. Every name in the table is
  in lower case, so the name looked up is lowered and compared with the entries.
\<close>

definition toLower :: "char \<Rightarrow> char" where
  "toLower c =
     (case map_of (zip ''ABCDEFGHIJKLMNOPQRSTUVWXYZ'' ''abcdefghijklmnopqrstuvwxyz'') c of
        Some l \<Rightarrow> l | None \<Rightarrow> c)"

fun indexOf :: "string list \<Rightarrow> string \<Rightarrow> nat" where
  "indexOf [] x = 0"
| "indexOf (y # ys) x = (if y = x then 0 else Suc (indexOf ys x))"

definition util_bsearchStringsI :: "string list \<Rightarrow> string \<Rightarrow> nat" where
  "util_bsearchStringsI table name = indexOf table (map toLower name)"

text \<open>
  \<open>setTypeOther\<close>, for every other element: the kind the table gives. No extension is
  registered, so a name outside the table leaves the node as it is.
\<close>

definition setTypeOther :: "ASTNode \<Rightarrow> XMLToken \<Rightarrow> ASTNode" where
  "setTypeOther node element =
     (let index = util_bsearchStringsI MATHML_ELEMENTS (tName element);
          found = (index < length MATHML_ELEMENTS)
      in if found then setType (MATHML_TYPES ! index) node else node)"

text \<open>The reader's \<open>setType\<close>, which sets the kind of a node from a MathML element.\<close>

definition setType_element :: "Globals \<Rightarrow> ASTNode \<Rightarrow> XMLToken \<Rightarrow> XMLInputStream
    \<Rightarrow> ASTNode \<times> XMLInputStream" where
  "setType_element g node element stream =
     (let name = tName element
      in if name = ''ci'' \<or> name = ''csymbol'' then setTypeCI g node element stream
         else if name = ''cn'' then setTypeCN g node element stream
         else if name = ''notanumber'' then (setValue_double NaN node, stream)
         else if name = ''infinity'' then (setValue_double PosInf node, stream)
         else (setTypeOther node element, stream))"

definition isMathMLNodeTag :: "string \<Rightarrow> bool" where
  "isMathMLNodeTag name =
     (name = ''apply'' \<or> name = ''cn'' \<or> name = ''ci'' \<or> name = ''csymbol''
      \<or> name = ''true'' \<or> name = ''false'' \<or> name = ''notanumber'' \<or> name = ''pi''
      \<or> name = ''infinity'' \<or> name = ''exponentiale'' \<or> name = ''semantics''
      \<or> name = ''piecewise'')"


section \<open>The recursive reader\<close>

text \<open>
  The static \<open>readMathML\<close> is split along its own control flow: the parts that do not
  recurse are definitions of their own, and the recursion ties them together below.

  First the case of an empty \<open>math\<close> element: the end tag of \<open>math\<close> is next. Its prefix is
  checked, and \<open>skipPastEnd\<close> of an end tag consumes nothing.
\<close>

definition readMathML_mathEnd :: "XMLInputStream \<Rightarrow> string \<Rightarrow> XMLInputStream" where
  "readMathML_mathEnd stream reqd_prefix =
     (let stream1 = (if reqd_prefix \<noteq> [] \<and> tPrefix (peek stream) \<noteq> reqd_prefix
                     then logError InvalidMathElement stream else stream)
      in skipPastEnd (peek stream1) stream1)"

definition getLevel :: "XMLInputStream \<Rightarrow> nat" where
  "getLevel stream = (case sbmlNamespaces stream of None \<Rightarrow> 3 | Some ns \<Rightarrow> nsLevel ns)"

definition getVersion :: "XMLInputStream \<Rightarrow> nat" where
  "getVersion stream = (case sbmlNamespaces stream of None \<Rightarrow> 2 | Some ns \<Rightarrow> nsVersion ns)"

definition logIf :: "bool \<Rightarrow> SBMLErrorCode_t \<Rightarrow> XMLInputStream \<Rightarrow> XMLInputStream" where
  "logIf b code stream = (if b then logError code stream else stream)"

text \<open>
  The checks on the element just consumed: it must be a known element (no extension is
  registered), carry the required prefix, and use the attributes \<open>type\<close>, \<open>encoding\<close>,
  \<open>definitionURL\<close> and \<open>units\<close> only where they are allowed; \<open>id\<close>, \<open>class\<close> and \<open>style\<close>
  are copied to the node.
\<close>

definition readMathML_element :: "ASTNode \<Rightarrow> XMLToken \<Rightarrow> XMLInputStream \<Rightarrow> string
    \<Rightarrow> ASTNode \<times> XMLInputStream" where
  "readMathML_element node elem stream reqd_prefix =
     (let level = getLevel stream;
          version = getVersion stream;
          name = tName elem;
          found = (util_bsearchStringsI MATHML_ELEMENTS name < length MATHML_ELEMENTS);
          s1 = logIf (\<not> found) DisallowedMathMLSymbol stream;
          s2 = logIf (reqd_prefix \<noteq> [] \<and> tPrefix elem \<noteq> reqd_prefix) InvalidMathElement s1;
          encoding = readInto (tAttributes elem) ''encoding'' [];
          type = readInto (tAttributes elem) ''type'' [];
          url = readInto (tAttributes elem) ''definitionURL'' [];
          units = readInto (tAttributes elem) ''units'' [];
          id = readInto (tAttributes elem) ''id'' [];
          className = readInto (tAttributes elem) ''class'' [];
          style = readInto (tAttributes elem) ''style'' [];
          n1 = (if id \<noteq> [] then setId id node else node);
          n2 = (if className \<noteq> [] then setClass className n1 else n1);
          n3 = (if style \<noteq> [] then setStyle style n2 else n2);
          s3 = logIf (type \<noteq> [] \<and> name \<noteq> ''cn'') DisallowedMathTypeAttributeUse s2;
          s4 = logIf (encoding \<noteq> [] \<and> name \<noteq> ''csymbol'') DisallowedMathMLEncodingUse s3;
          s5 = (if url \<noteq> [] then
                  (if level > 2 then
                     logIf (name \<noteq> ''csymbol'' \<and> name \<noteq> ''semantics'' \<and> name \<noteq> ''ci'')
                       DisallowedDefinitionURLUse s4
                   else if level = 2 \<and> version = 5 then
                     logIf (name \<noteq> ''csymbol'' \<and> name \<noteq> ''semantics'' \<and> name \<noteq> ''ci'')
                       DisallowedDefinitionURLUse s4
                   else
                     logIf (name \<noteq> ''csymbol'' \<and> name \<noteq> ''semantics'')
                       DisallowedDefinitionURLUse s4)
                else s4);
          s6 = (if units \<noteq> [] then
                  (if level > 2 then logIf (name \<noteq> ''cn'') DisallowedMathUnitsUse s5
                   else logError InvalidMathMLAttribute s5)
                else s5)
      in (n3, s6))"

text \<open>
  After the start tag of an \<open>apply\<close>: a wrapper element that cannot be an operator is
  reported before the head is read.
\<close>

definition readMathML_applyNext :: "XMLInputStream \<Rightarrow> XMLInputStream" where
  "readMathML_applyNext stream =
     (let s1 = skipText stream;
          nextName = tName (peek s1)
      in logIf (nextName = ''bvar'' \<or> nextName = ''piece'' \<or> nextName = ''otherwise''
                \<or> nextName = ''logbase'' \<or> nextName = ''degree''
                \<or> nextName = ''lambda'' \<or> nextName = ''semantics'') BadMathML s1)"

text \<open>
  After the head of an \<open>apply\<close> has been read into the node: a bare name becomes a
  function call; a number, a constant or a piecewise as the head is reported and the
  reader returns at once (the flag answered is true).
\<close>

definition readMathML_applyHead :: "ASTNode \<Rightarrow> XMLInputStream
    \<Rightarrow> bool \<times> ASTNode \<times> XMLInputStream" where
  "readMathML_applyHead node stream =
     (let node1 = (if isName node then setType AST_FUNCTION node else node)
      in if isNumber node1 then (True, node1, logError BadMathML stream)
         else if getType node1 = AST_CONSTANT_TRUE \<or> getType node1 = AST_CONSTANT_FALSE
                 \<or> getType node1 = AST_CONSTANT_PI \<or> getType node1 = AST_CONSTANT_E
         then (True, node1, logError BadMathML stream)
         else if getType node1 = AST_FUNCTION_PIECEWISE
         then (True, node1, logError BadMathML stream)
         else (False, node1, stream))"

text \<open>
  In the loop over the children, after a child has been read: the check of what follows a
  \<open>bvar\<close> of a lambda; a \<open>math\<close> tag next ends the loop without the child (the flag
  answered is true); otherwise the child is added, the number of children of a \<open>piece\<close>
  or before an \<open>otherwise\<close> is checked, and the end tag of a \<open>piece\<close> is consumed.
\<close>

definition readMathML_afterChild :: "XMLToken \<Rightarrow> ASTNode \<Rightarrow> ASTNode \<Rightarrow> bool \<Rightarrow> XMLInputStream
    \<Rightarrow> bool \<times> ASTNode \<times> XMLInputStream" where
  "readMathML_afterChild elem node child addChildFlag stream =
     (let s1 = skipText stream;
          nextName = tName (peek s1);
          s2 = logIf (tName elem = ''lambda'' \<and> nextName \<noteq> ''lambda'' \<and> nextName \<noteq> ''bvar''
                      \<and> \<not> isMathMLNodeTag nextName) BadMathMLNodeType s1
      in if nextName = ''math'' then (True, node, s2)
         else
           (let node1 = (if addChildFlag then addChild child node else node);
                s3 = (if nextName = ''piece''
                      then logIf (getNumChildren node1 mod 2 \<noteq> 0) OpsNeedCorrectNumberOfArgs s2
                      else if nextName = ''otherwise''
                      then logIf (getNumChildren node1 mod 2 \<noteq> 1) OpsNeedCorrectNumberOfArgs s2
                      else s2);
                s4 = (if nextName = ''piece'' \<and> isGood s3 then consume s3 else s3)
            in (False, node1, s4)))"

text \<open>
  The end of the function: the default argument of log and root, the check that an
  \<open>otherwise\<close> holds one child only, and the skip past the end tag of the element.
\<close>

definition readMathML_finish :: "XMLToken \<Rightarrow> ASTNode \<Rightarrow> XMLInputStream
    \<Rightarrow> ASTNode \<times> XMLInputStream" where
  "readMathML_finish elem node stream =
     (let node1 = checkFunctionArgs node;
          s1 = (if tName elem = ''otherwise''
                then (let s = skipAllText stream
                      in logIf (\<not> isEndFor (peek s) elem) OpsNeedCorrectNumberOfArgs s)
                else stream)
      in (node1, skipPastEnd elem s1))"

text \<open>
  Modelled from the spec: the constructor \<open>XMLNode(stream)\<close> (its source is not at hand),
  which takes one whole subtree off the stream as an opaque annotation: the next token
  and, unless it is an end tag, every token up to its matching end tag.
\<close>

fun takeSubtree :: "nat \<Rightarrow> XMLToken list \<Rightarrow> XMLToken list \<times> XMLToken list" where
  "takeSubtree d [] = ([], [])"
| "takeSubtree d (t # ts) =
     (if tIsStart t \<and> \<not> tIsEnd t then
        (case takeSubtree (Suc d) ts of (a, r) \<Rightarrow> (t # a, r))
      else if tIsEnd t \<and> \<not> tIsStart t then
        (case d of 0 \<Rightarrow> ([t], ts)
         | Suc d' \<Rightarrow> (case takeSubtree d' ts of (a, r) \<Rightarrow> (t # a, r)))
      else (case takeSubtree d ts of (a, r) \<Rightarrow> (t # a, r)))"

definition XMLNode_read :: "XMLInputStream \<Rightarrow> XMLNode \<times> XMLInputStream" where
  "XMLNode_read stream =
     (case tokens stream of [] \<Rightarrow> ([], stream)
      | t # ts \<Rightarrow>
          if tIsEnd t then ([t], stream\<lparr>tokens := ts\<rparr>)
          else (case takeSubtree 0 ts of (a, r) \<Rightarrow> (t # a, stream\<lparr>tokens := r\<rparr>)))"

lemma takeSubtree_length: "length (snd (takeSubtree d ts)) \<le> length ts"
  by (induction d ts rule: takeSubtree.induct) (auto split: prod.split nat.split)

lemma skipPastEnd_length: "length (tokens (skipPastEnd e s)) \<le> length (tokens s)"
proof -
  have "length (tl (dropWhile P xs)) \<le> length xs" for P and xs :: "XMLToken list"
    using length_dropWhile_le [of P xs] by simp
  then show ?thesis by (simp add: skipPastEnd_def)
qed

lemma XMLNode_read_length:
  assumes "tokens s \<noteq> []"
  shows "length (tokens (snd (XMLNode_read s))) < length (tokens s)"
proof (cases "tokens s")
  case Nil
  with assms show ?thesis by simp
next
  case (Cons t ts)
  have "length (snd (takeSubtree 0 ts)) \<le> length ts" by (rule takeSubtree_length)
  then show ?thesis
    using Cons by (auto simp add: XMLNode_read_def split: prod.split)
qed
text \<open>
  The loop over what follows the content of a \<open>semantics\<close> element: a content element
  here is reported and skipped; an \<open>annotation\<close> or \<open>annotation-xml\<close> is attached to
  the node; anything else is consumed.
\<close>

definition readSemantics_step :: "ASTNode \<Rightarrow> XMLInputStream \<Rightarrow> ASTNode \<times> XMLInputStream" where
  "readSemantics_step node stream =
     (let element1 = peek stream;
          s1 = (if isMathMLNodeTag (tName element1) \<and> tIsStart element1
                then skipPastEnd element1 (logError InvalidMathElement stream)
                else stream)
      in if tName (peek s1) = ''annotation'' \<or> tName (peek s1) = ''annotation-xml''
         then (case XMLNode_read s1 of (a, s2) \<Rightarrow> (addSemanticsAnnotation a node, s2))
         else (node, consume s1))"


lemma readSemantics_step_length:
  assumes "tokens s \<noteq> []" and "readSemantics_step n s = (n', s')"
  shows "length (tokens s') < length (tokens s)"
proof -
  define s1 where "s1 = (if isMathMLNodeTag (tName (peek s)) \<and> tIsStart (peek s)
                then skipPastEnd (peek s) (logError InvalidMathElement s) else s)"
  have le: "length (tokens s1) \<le> length (tokens s)"
    using skipPastEnd_length [of "peek s" "logError InvalidMathElement s"]
    by (simp add: s1_def logError_def)
  show ?thesis
  proof (cases "tokens s1 = []")
    case True
    then have "tokens s' = []"
      using assms(2)
      by (auto simp add: readSemantics_step_def Let_def s1_def [symmetric] XMLNode_read_def
          consume_def split: prod.splits if_splits)
    with assms show ?thesis by simp
  next
    case False
    have a: "length (tokens (snd (XMLNode_read s1))) < length (tokens s1)"
      using False by (rule XMLNode_read_length)
    have b: "length (tokens (consume s1)) < length (tokens s1)"
      using False by (simp add: consume_def)
    have "length (tokens s') < length (tokens s1)"
      using a b assms(2)
      by (auto simp add: readSemantics_step_def Let_def s1_def [symmetric]
          split: prod.splits if_splits)
    with le show ?thesis by simp
  qed
qed

function readSemantics :: "XMLToken \<Rightarrow> ASTNode \<Rightarrow> XMLInputStream \<Rightarrow> ASTNode \<times> XMLInputStream"
  where
  "readSemantics elem node stream =
     (if isGood stream \<and> \<not> isEndFor (peek stream) elem
      then (case readSemantics_step node stream of
              (node1, stream1) \<Rightarrow> readSemantics elem node1 stream1)
      else (node, stream))"
  by pat_completeness auto
termination
proof (relation "measure (\<lambda>(elem, node, stream). length (tokens stream))")
  show "wf (measure (\<lambda>(elem, node, stream). length (tokens stream)))" by simp
next
  fix elem :: XMLToken and node stream x y
  assume "isGood stream \<and> \<not> isEndFor (peek stream) elem"
    and "(x, y) = readSemantics_step node stream"
  then have "length (tokens y) < length (tokens stream)"
    using readSemantics_step_length [of stream node x y] by (simp add: isGood_def)
  then show "((elem, x, y), elem, node, stream)
      \<in> measure (\<lambda>(elem, node, stream). length (tokens stream))" by simp
qed

declare readSemantics.simps [simp del]

text \<open>
  The \<open>semantics\<close> element after its content has been read: the flag, the definition URL
  of the wrapper, and the annotations.
\<close>

definition readMathML_semantics :: "XMLToken \<Rightarrow> ASTNode \<Rightarrow> XMLInputStream
    \<Rightarrow> ASTNode \<times> XMLInputStream" where
  "readMathML_semantics elem node stream =
     (let n1 = setSemanticsFlag node;
          n2 = (if hasAttribute (tAttributes elem) ''definitionURL''
                then setDefinitionURL_attributes (tAttributes elem) n1 else n1)
      in readSemantics elem n2 (skipText stream))"

text \<open>
  The recursion. The C++ function calls itself for the head of an \<open>apply\<close>, for the
  content of a wrapper and for every child; the argument \<open>fuel\<close> bounds the depth of
  these calls, and \<open>None\<close> is the answer of a run that would need more. The loop over the
  children is \<open>readChildren\<close>; one round of it spends one unit of fuel as well.
\<close>

fun readMathML_node :: "Globals \<Rightarrow> nat \<Rightarrow> ASTNode \<Rightarrow> XMLInputStream \<Rightarrow> string
      \<Rightarrow> (ASTNode \<times> XMLInputStream) option"
and readChildren :: "Globals \<Rightarrow> nat \<Rightarrow> XMLToken \<Rightarrow> ASTNode \<Rightarrow> XMLInputStream \<Rightarrow> string
      \<Rightarrow> (ASTNode \<times> XMLInputStream) option"
where
  "readMathML_node g 0 node stream reqd_prefix = None"
| "readMathML_node g (Suc fuel) node stream reqd_prefix =
     (let stream1 = skipText stream
      in if tName (peek stream1) = ''math'' \<and> tIsEnd (peek stream1)
         then Some (node, readMathML_mathEnd stream1 reqd_prefix)
         else
          (let elem = peek stream1;
               name = tName elem
           in case readMathML_element node elem (consume stream1) reqd_prefix of
              (node1, stream2) \<Rightarrow>
               if name = ''apply'' \<or> name = ''lambda'' \<or> name = ''piecewise'' then
                 (if name = ''apply'' then
                    (if tIsStart elem \<and> tIsEnd elem then Some (node1, stream2)
                     else if tIsEnd elem then Some (node1, stream2)
                     else
                       (case readMathML_node g fuel node1 (readMathML_applyNext stream2)
                               reqd_prefix of
                          None \<Rightarrow> None
                        | Some (node2, stream3) \<Rightarrow>
                           (case readMathML_applyHead node2 stream3 of
                              (stop, node3, stream4) \<Rightarrow>
                                if stop then Some (node3, stream4)
                                else
                                 (case readChildren g fuel elem node3 stream4 reqd_prefix of
                                    None \<Rightarrow> None
                                  | Some (node4, stream5) \<Rightarrow>
                                      Some (readMathML_finish elem node4 stream5)))))
                  else
                    (case readChildren g fuel elem
                            (setType (if name = ''lambda'' then AST_LAMBDA
                                      else AST_FUNCTION_PIECEWISE) node1)
                            stream2 reqd_prefix of
                       None \<Rightarrow> None
                     | Some (node4, stream5) \<Rightarrow> Some (readMathML_finish elem node4 stream5)))
               else if name = ''bvar'' then
                 (case readMathML_node g fuel (setBvar node1) stream2 reqd_prefix of
                    None \<Rightarrow> None
                  | Some (node2, stream3) \<Rightarrow> Some (readMathML_finish elem node2 stream3))
               else if name = ''degree'' \<or> name = ''logbase'' \<or> name = ''piece''
                       \<or> name = ''otherwise'' then
                 (case readMathML_node g fuel node1 stream2 reqd_prefix of
                    None \<Rightarrow> None
                  | Some (node2, stream3) \<Rightarrow>
                      if name = ''piece'' then Some (node2, stream3)
                      else Some (readMathML_finish elem node2 stream3))
               else if name = ''semantics'' then
                 (case readMathML_node g fuel node1 stream2 reqd_prefix of
                    None \<Rightarrow> None
                  | Some (node2, stream3) \<Rightarrow>
                     (case readMathML_semantics elem node2 stream3 of
                        (node3, stream4) \<Rightarrow> Some (readMathML_finish elem node3 stream4)))
               else
                 (case setType_element g node1 elem stream2 of
                    (node2, stream3) \<Rightarrow> Some (readMathML_finish elem node2 stream3))))"
| "readChildren g 0 elem node stream reqd_prefix = None"
| "readChildren g (Suc fuel) elem node stream reqd_prefix =
     (if isGood stream \<and> \<not> isEndFor (peek stream) elem then
        (let stream1 = skipText stream
         in if isEndFor (peek stream1) elem then Some (node, stream1)
            else
             (let type = getType node;
                  node1 = (if type = AST_PLUS \<or> type = AST_TIMES then reduceBinary node
                           else node)
              in if type = AST_CONSTANT_TRUE \<or> type = AST_CONSTANT_FALSE
                 then Some (node1, stream1)
                 else
                  (let addChildFlag = \<not> (tName (peek stream1) = ''math''
                                          \<and> tIsStart (peek stream1));
                       stream2 = logIf (\<not> addChildFlag) BadMathMLNodeType stream1
                   in case readMathML_node g fuel newASTNode stream2 reqd_prefix of
                        None \<Rightarrow> None
                      | Some (child, stream3) \<Rightarrow>
                         (case readMathML_afterChild elem node1 child addChildFlag stream3 of
                            (stop, node2, stream4) \<Rightarrow>
                              if stop then Some (node2, stream4)
                              else readChildren g fuel elem node2 stream4 reqd_prefix))))
      else Some (node, stream))"

declare readMathML_node.simps [simp del] readChildren.simps [simp del]

section \<open>The writer\<close>

text \<open>
  Modelled from the spec: the output stream (its source is not at hand), as the
  specification describes its interface: start and end element emission, attribute
  emission and raw text emission. What the writer hands to the stream is kept as the
  list of these calls, in order; the layout of the text (indentation, which
  \<open>setAutoIndent\<close> toggles) is the business of the stream and not kept.
\<close>

datatype XMLOutput =
    StartElement string
  | EndElement string
  | StartEndElement string
  | WriteAttribute string string
  | WriteText string
  | WriteXMLNode XMLNode

type_synonym Written = "XMLOutput list option"

text \<open>
  A writer that dereferences a null pointer has no output: \<open>None\<close>. \<open>seqOut\<close> runs
  writers one after the other.
\<close>

fun seqOut :: "Written list \<Rightarrow> Written" where
  "seqOut [] = Some []"
| "seqOut (None # ws) = None"
| "seqOut (Some x # ws) = (case seqOut ws of None \<Rightarrow> None | Some y \<Rightarrow> Some (x @ y))"

definition writeAttributes :: "ASTNode \<Rightarrow> XMLOutput list" where
  "writeAttributes node =
     (if mId (dat node) \<noteq> [] then [WriteAttribute ''id'' (mId (dat node))] else [])
     @ (if mClass (dat node) \<noteq> [] then [WriteAttribute ''class'' (mClass (dat node))] else [])
     @ (if mStyle (dat node) \<noteq> [] then [WriteAttribute ''style'' (mStyle (dat node))] else [])"

definition writeStartEndElement :: "string \<Rightarrow> ASTNode \<Rightarrow> XMLOutput list" where
  "writeStartEndElement name node = [StartElement name] @ writeAttributes node @ [EndElement name]"

text \<open>The text of an integer, as stream insertion writes it.\<close>

fun showNat :: "nat \<Rightarrow> string" where
  "showNat n = (if n < 10 then [char_of (48 + n)]
                else showNat (n div 10) @ [char_of (48 + n mod 10)])"

declare showNat.simps [simp del]

definition showInt :: "int \<Rightarrow> string" where
  "showInt i = (if i < 0 then CHR ''-'' # showNat (nat (- i)) else showNat (nat i))"

definition writeCSymbol :: "ASTNode \<Rightarrow> XMLOutput list" where
  "writeCSymbol node =
     (let type = getType node;
          url = (if type = AST_FUNCTION_DELAY then URL_DELAY
                 else if type = AST_NAME_TIME then URL_TIME
                 else if type = AST_NAME_AVOGADRO then URL_AVOGADRO
                 else getDefinitionURLString node)
      in [StartElement ''csymbol''] @ writeAttributes node
         @ [WriteAttribute ''encoding'' ''text'', WriteAttribute ''definitionURL'' url]
         @ (case getName node of None \<Rightarrow> [] | Some n \<Rightarrow> [WriteText ('' '' @ n @ '' '')])
         @ [EndElement ''csymbol''])"

definition writeCI :: "ASTNode \<Rightarrow> XMLOutput list" where
  "writeCI node =
     (let type = getType node
      in if type = AST_FUNCTION_DELAY \<or> type = AST_NAME_TIME \<or> type = AST_NAME_AVOGADRO
         then writeCSymbol node
         else if type = AST_NAME \<or> type = AST_FUNCTION then
           [StartElement ''ci''] @ writeAttributes node
           @ (case getDefinitionURL node of None \<Rightarrow> []
              | Some atts \<Rightarrow> [WriteAttribute ''definitionURL''
                                (case atts of [] \<Rightarrow> [] | (n, v) # _ \<Rightarrow> v)])
           @ (case getName node of None \<Rightarrow> [] | Some n \<Rightarrow> [WriteText ('' '' @ n @ '' '')])
           @ [EndElement ''ci'']
         else [])"

definition writeENotation_strings :: "string \<Rightarrow> string \<Rightarrow> XMLOutput list" where
  "writeENotation_strings mantissa exponent =
     [WriteAttribute ''type'' ''e-notation'', WriteText ('' '' @ mantissa @ '' ''),
      StartEndElement ''sep'', WriteText ('' '' @ exponent @ '' '')]"

text \<open>
  \<open>find('e')\<close> on the text of a double, and the two parts the text is cut into.
\<close>

definition beforeE :: "string \<Rightarrow> string" where
  "beforeE s = takeWhile (\<lambda>c. c \<noteq> CHR ''e'') s"

definition afterE :: "string \<Rightarrow> string" where
  "afterE s = tl (dropWhile (\<lambda>c. c \<noteq> CHR ''e'') s)"

definition c_strtol :: "Globals \<Rightarrow> string \<Rightarrow> int" where
  "c_strtol g s = fst (extractInteger (sizeof_long g) s)"

definition c_strtod :: "string \<Rightarrow> double" where
  "c_strtod s = fst (extractDouble s)"

definition writeENotation :: "Globals \<Rightarrow> double \<Rightarrow> int \<Rightarrow> XMLOutput list" where
  "writeENotation g mantissa exponent =
     (let value_string = formatDouble g mantissa;
          exponent1 = (if CHR ''e'' \<in> set value_string
                       then exponent + c_strtol g (afterE value_string) else exponent)
      in writeENotation_strings (beforeE value_string) (showInt exponent1))"

definition writeDouble :: "Globals \<Rightarrow> double \<Rightarrow> XMLOutput list" where
  "writeDouble g v =
     (let value_string = formatDouble g v
      in if CHR ''e'' \<notin> set value_string then [WriteText ('' '' @ value_string @ '' '')]
         else writeENotation g (c_strtod (beforeE value_string))
                (c_strtol g (afterE value_string)))"

definition writeCN :: "Globals \<Rightarrow> SBMLNamespaces option \<Rightarrow> ASTNode \<Rightarrow> XMLOutput list" where
  "writeCN g sbmlns node =
     (if isNaN node then writeStartEndElement ''notanumber'' node
      else if \<not> (getType node = AST_REAL_E) \<and> isInfinity node
      then writeStartEndElement ''infinity'' node
      else if isNegInfinity node then
        [StartElement ''apply'', WriteText '' '', StartEndElement ''minus'', WriteText '' '']
        @ writeStartEndElement ''infinity'' node @ [WriteText '' '', EndElement ''apply'']
      else
        [StartElement ''cn''] @ writeAttributes node
        @ (if getUnits node \<noteq> [] then
             (if sbmlns = None \<or> map_option nsLevel sbmlns = Some 3
              then [WriteAttribute ''sbml:units'' (getUnits node)] else [])
           else [])
        @ (if isInteger node then
             [WriteAttribute ''type'' ''integer'',
              WriteText ('' '' @ showInt (mInteger (dat node)) @ '' '')]
           else if isRational node then
             [WriteAttribute ''type'' ''rational'',
              WriteText ('' '' @ showInt (mInteger (dat node)) @ '' ''),
              StartEndElement ''sep'',
              WriteText ('' '' @ showInt (mDenominator (dat node)) @ '' '')]
           else if getType node = AST_REAL_E
           then writeENotation g (mReal (dat node)) (mExponent (dat node))
           else writeDouble g (getReal node))
        @ [EndElement ''cn''])"

definition writeConstant :: "ASTNode \<Rightarrow> XMLOutput list" where
  "writeConstant node =
     (if getType node = AST_CONSTANT_PI then writeStartEndElement ''pi'' node
      else if getType node = AST_CONSTANT_TRUE then writeStartEndElement ''true'' node
      else if getType node = AST_CONSTANT_FALSE then writeStartEndElement ''false'' node
      else if getType node = AST_CONSTANT_E then writeStartEndElement ''exponentiale'' node
      else [])"

definition MATHML_FUNCTIONS :: "string list" where
  "MATHML_FUNCTIONS = [''abs'', ''arccos'', ''arccosh'', ''arccot'', ''arccoth'', ''arccsc'',
     ''arccsch'', ''arcsec'', ''arcsech'', ''arcsin'', ''arcsinh'', ''arctan'', ''arctanh'',
     ''ceiling'', ''cos'', ''cosh'', ''cot'', ''coth'', ''csc'', ''csch'', ''csymbol'', ''exp'',
     ''factorial'', ''floor'', ''ln'', ''log'', ''piecewise'', ''power'', ''root'', ''sec'',
     ''sech'', ''sin'', ''sinh'', ''tan'', ''tanh'', ''and'', ''not'', ''or'', ''xor'', ''eq'',
     ''geq'', ''gt'', ''leq'', ''lt'', ''neq'']"

text \<open>The name of a function in \<open>writeFunction\<close>; no extension is registered.\<close>

definition writeFunction_name :: "ASTNode \<Rightarrow> XMLOutput list" where
  "writeFunction_name node =
     (let type = getType node
      in if type = AST_FUNCTION then writeCI node
         else if type = AST_FUNCTION_DELAY \<or> type = AST_CSYMBOL_FUNCTION then writeCSymbol node
         else
           (let name = (if type \<le> AST_RELATIONAL_NEQ
                        then MATHML_FUNCTIONS ! nat (type - AST_FUNCTION_ABS) else [])
            in writeStartEndElement name node))"

definition writeOperator_name :: "ASTNode \<Rightarrow> XMLOutput list" where
  "writeOperator_name node =
     (if getType node = AST_PLUS then writeStartEndElement ''plus'' node
      else if getType node = AST_TIMES then writeStartEndElement ''times'' node
      else if getType node = AST_MINUS then writeStartEndElement ''minus'' node
      else if getType node = AST_DIVIDE then writeStartEndElement ''divide'' node
      else if getType node = AST_POWER then writeStartEndElement ''power'' node
      else [])"


text \<open>
  The writers of the compound constructs. In the C++ each of them calls \<open>writeNode\<close> on
  children of the node; here the argument \<open>written\<close> holds what \<open>writeNode\<close> writes for
  each child of the node, in the order of the children, and a call of \<open>writeNode\<close> on the
  child at an index is the entry of \<open>written\<close> at that index. The recursion that fills
  \<open>written\<close> is \<open>writeNode\<close> itself, below.
\<close>

definition writeFunctionLog :: "ASTNode \<Rightarrow> Written list \<Rightarrow> Written" where
  "writeFunctionLog node written =
     seqOut
       [if getNumChildren node > 1
        then seqOut [Some [StartElement ''logbase''], hd written, Some [EndElement ''logbase'']]
        else Some [],
        if getRightChild node \<noteq> None then last written else Some []]"

text \<open>
  \<open>writeFunctionRoot\<close> writes the only child of a root without a degree through
  \<open>writeNode(child, stream)\<close>, that is with no namespace context: \<open>written0\<close> holds what
  \<open>writeNode\<close> writes for each child with no namespace context.
\<close>

definition writeFunctionRoot :: "ASTNode \<Rightarrow> Written list \<Rightarrow> Written list \<Rightarrow> Written" where
  "writeFunctionRoot node written written0 =
     seqOut
       [if getNumChildren node > 1
        then seqOut [Some [StartElement ''degree''], hd written, Some [EndElement ''degree'']]
        else if getNumChildren node = 1 then hd written0
        else Some [],
        if getRightChild node \<noteq> None then last written else Some []]"

definition writeFunction :: "ASTNode \<Rightarrow> Written list \<Rightarrow> Written list \<Rightarrow> Written" where
  "writeFunction node written written0 =
     (let type = getType node
      in seqOut
          [Some [StartElement ''apply''],
           if type \<ge> AST_FUNCTION \<and> type < AST_UNKNOWN then
             seqOut
               [Some (writeFunction_name node),
                if type = AST_FUNCTION_LOG then writeFunctionLog node written
                else if type = AST_FUNCTION_ROOT then writeFunctionRoot node written written0
                else seqOut written]
           else Some [],
           Some [EndElement ''apply'']])"

text \<open>
  \<open>writeLambda\<close>. The count of bvars is \<open>getNumChildren() - 1\<close> in unsigned arithmetic; on
  a lambda without children \<open>getChild\<close> answers a null pointer, which is dereferenced.
\<close>

definition writeLambda :: "ASTNode \<Rightarrow> Written list \<Rightarrow> Written" where
  "writeLambda node written =
     (if getNumChildren node = 0 then None
      else
       (let n = getNumChildren node - 1;
            lastIsBvar = isBvar (mChildren node ! n);
            bvars = (if lastIsBvar then n + 1 else n);
            bodyPresent = \<not> lastIsBvar
        in seqOut
            ([Some [StartElement ''lambda'']]
             @ map (\<lambda>w. seqOut [Some [StartElement ''bvar''], w, Some [EndElement ''bvar'']])
                 (take bvars written)
             @ [if bodyPresent then written ! bvars else Some [],
                Some [EndElement ''lambda'']])))"

definition writeOperator :: "ASTNode \<Rightarrow> Written \<Rightarrow> Written" where
  "writeOperator node writtenArgs =
     seqOut [Some ([StartElement ''apply''] @ writeOperator_name node),
             writtenArgs,
             Some [EndElement ''apply'']]"

definition writePiecewise :: "ASTNode \<Rightarrow> Written list \<Rightarrow> Written" where
  "writePiecewise node written =
     (let numChildren = getNumChildren node;
          numPieces = (if numChildren mod 2 \<noteq> 0 then numChildren - 1 else numChildren)
      in seqOut
          ([Some [StartElement ''piecewise'']]
           @ map (\<lambda>k. seqOut [Some [StartElement ''piece''], written ! (2 * k),
                               written ! (2 * k + 1), Some [EndElement ''piece'']])
               [0 ..< numPieces div 2]
           @ [if numPieces < numChildren
              then seqOut [Some [StartElement ''otherwise''], written ! numPieces,
                           Some [EndElement ''otherwise'']]
              else Some [],
              Some [EndElement ''piecewise'']]))"

definition writeSemantics :: "ASTNode \<Rightarrow> Written \<Rightarrow> Written" where
  "writeSemantics node writtenNode =
     seqOut [Some ([StartElement ''semantics''] @ writeAttributes node
                   @ (case getDefinitionURL node of None \<Rightarrow> []
                      | Some atts \<Rightarrow> [WriteAttribute ''definitionURL''
                                        (case atts of [] \<Rightarrow> [] | (n, v) # _ \<Rightarrow> v)])),
             writtenNode,
             Some (map WriteXMLNode (mSemanticsAnnotations (dat node))
                   @ [EndElement ''semantics''])]"

text \<open>
  The chain of tests of \<open>writeNode\<close> after the test for the semantics flag; no extension
  is registered, and an unknown node writes nothing.
\<close>

definition writeNode_dispatch :: "Globals \<Rightarrow> SBMLNamespaces option \<Rightarrow> ASTNode
    \<Rightarrow> Written list \<Rightarrow> Written list \<Rightarrow> Written \<Rightarrow> Written" where
  "writeNode_dispatch g sbmlns node written written0 writtenArgs =
     (if isNumber node then Some (writeCN g sbmlns node)
      else if isName node then Some (writeCI node)
      else if isConstant node then Some (writeConstant node)
      else if isOperator node then writeOperator node writtenArgs
      else if isLambda node then writeLambda node written
      else if isPiecewise node then writePiecewise node written
      else if \<not> isUnknown node then writeFunction node written written0
      else Some [])"

text \<open>
  \<open>writeNode\<close> and \<open>writeOperatorArgs\<close>. The static flag \<open>inSemantics\<close> of the C++ is
  false when the writer is entered, \<open>writeSemantics\<close> sets it for the time it writes the
  node and its children and clears it at its end; so at every call of \<open>writeNode\<close> it has
  the value it had when the enclosing call was entered, or true inside \<open>writeSemantics\<close>,
  and it is an argument here.
\<close>

lemma size_child_le: "c \<in> set cs \<Longrightarrow> size c \<le> size_list size cs"
  for c :: ASTNode
  using size_list_estimation' [of c cs "size c" size] by simp

lemma size_hd_le: "cs \<noteq> [] \<Longrightarrow> size (hd cs) \<le> size_list size cs"
  for cs :: "ASTNode list"
  by (simp add: size_child_le)

lemma size_last_le: "cs \<noteq> [] \<Longrightarrow> size (last cs) \<le> size_list size cs"
  for cs :: "ASTNode list"
  by (simp add: size_child_le)

lemma size_last_le2: "Suc 0 < length cs \<Longrightarrow> size (last cs) \<le> size_list size cs"
  for cs :: "ASTNode list"
  by (rule size_last_le) auto

function writeNode :: "Globals \<Rightarrow> SBMLNamespaces option \<Rightarrow> bool \<Rightarrow> ASTNode \<Rightarrow> Written"
and writeOperatorArgs :: "Globals \<Rightarrow> SBMLNamespaces option \<Rightarrow> bool \<Rightarrow> ASTNode \<Rightarrow> Written"
where
  "writeNode g sbmlns inSemantics (ASTNode d cs) =
     (if mSemanticsFlag d \<and> \<not> inSemantics then
        writeSemantics (ASTNode d cs)
          (writeNode_dispatch g sbmlns (ASTNode d cs)
             (map (writeNode g sbmlns True) cs) (map (writeNode g None True) cs)
             (writeOperatorArgs g sbmlns True (ASTNode d cs)))
      else
        writeNode_dispatch g sbmlns (ASTNode d cs)
          (map (writeNode g sbmlns inSemantics) cs) (map (writeNode g None inSemantics) cs)
          (writeOperatorArgs g sbmlns inSemantics (ASTNode d cs)))"
| "writeOperatorArgs g sbmlns inSemantics (ASTNode d cs) =
     (if mType d = AST_PLUS \<or> mType d = AST_TIMES then
        (if length cs \<le> 2 then
           seqOut
             [if cs \<noteq> [] then
                (if getType (hd cs) = mType d
                 then writeOperatorArgs g sbmlns inSemantics (hd cs)
                 else writeNode g sbmlns inSemantics (hd cs))
              else Some [],
              if length cs > 1 then
                (if getType (last cs) = mType d
                 then writeOperatorArgs g sbmlns inSemantics (last cs)
                 else writeNode g sbmlns inSemantics (last cs))
              else Some []]
         else seqOut (map (writeNode g sbmlns inSemantics) cs))
      else
        seqOut
          [if cs \<noteq> [] then writeNode g sbmlns inSemantics (hd cs) else Some [],
           if length cs > 1 then writeNode g sbmlns inSemantics (last cs) else Some []])"
  by pat_completeness auto
termination
  by (relation "inv_image (less_than <*lex*> less_than)
         (case_sum (\<lambda>(g, ns, b, n). (size n, 1::nat)) (\<lambda>(g, ns, b, n). (size n, 0)))")
     (auto simp: less_Suc_eq_le size_child_le size_hd_le size_last_le size_last_le2)

section \<open>The entry points\<close>

text \<open>\<open>setSBMLDefinitionURLs\<close>, with no extension registered.\<close>

definition setSBMLDefinitionURLs :: "Globals \<Rightarrow> Globals" where
  "setSBMLDefinitionURLs g =
     (if \<not> coreDefinitionsAdded g
      then g\<lparr>definitionURLs := definitionURLs g @ sbmlDefinitions, coreDefinitionsAdded := True\<rparr>
      else g)"

text \<open>
  The exported \<open>readMathML\<close>, which reads the \<open>math\<close> element (or a bare content
  element) at the head of the stream. It always answers a node.
\<close>

definition readMathML_fuel :: "Globals \<Rightarrow> nat \<Rightarrow> XMLInputStream \<Rightarrow> string
    \<Rightarrow> (ASTNode \<times> XMLInputStream) option" where
  "readMathML_fuel g0 fuel stream0 reqd_prefix =
     (let g = setSBMLDefinitionURLs g0;
          stream = skipText stream0;
          node = newASTNode;
          name = tName (peek stream);
          s1 = logIf (reqd_prefix \<noteq> [] \<and> tPrefix (peek stream) \<noteq> reqd_prefix)
                 InvalidMathElement stream
      in if name = ''math'' then
           (let elem = peek s1;
                s2 = consume s1
            in if tIsStart elem \<and> tIsEnd elem then Some (node, s2)
               else
                (let s3 = skipText s2;
                     name1 = tName (peek s3);
                     s4 = logIf (reqd_prefix \<noteq> [] \<and> tPrefix (peek s3) \<noteq> reqd_prefix)
                            InvalidMathElement s3
                 in case (if isMathMLNodeTag name1 \<or> name1 = ''lambda''
                          then readMathML_node g fuel node s4 reqd_prefix
                          else Some (node, logError BadMathMLNodeType s4)) of
                      None \<Rightarrow> None
                    | Some (node1, s5) \<Rightarrow>
                       (let s6 = skipText s5;
                            element1 = peek s6;
                            s7 = (if tName element1 = [] then skipPastEnd element1 s6 else s6);
                            s8 = logIf (\<not> isEndFor element1 elem
                                        \<and> \<not> contains (errorLog s7) (errorId BadMathML))
                                   InvalidMathElement s7
                        in Some (node1, skipPastEnd elem s8))))
         else if name = ''apply'' then
           (let elem = peek s1;
                s2 = consume s1
            in if tIsStart elem \<and> tIsEnd elem then Some (node, s2)
               else (case readMathML_node g fuel node s2 reqd_prefix of
                       None \<Rightarrow> None
                     | Some (node1, s3) \<Rightarrow> Some (node1, skipPastEnd elem s3)))
         else readMathML_node g fuel node s1 reqd_prefix)"

text \<open>
  Every nested call of the reader starts past a token that its caller consumed, so the
  wrapper hands the recursion twice the number of tokens and one as fuel. A run that
  would need more has no answer in \<open>readMathML_fuel\<close>; the wrapper then answers the
  fresh node and the stream as it was.
\<close>

definition readMathML :: "Globals \<Rightarrow> XMLInputStream \<Rightarrow> string \<Rightarrow> ASTNode \<times> XMLInputStream" where
  "readMathML g stream reqd_prefix =
     (case readMathML_fuel g (2 * length (tokens stream) + 1) stream reqd_prefix of
        Some r \<Rightarrow> r
      | None \<Rightarrow> (newASTNode, stream))"

text \<open>
  \<open>writeMathML\<close>: the \<open>math\<close> element with its namespace declaration, the declaration of
  the \<open>sbml\<close> prefix when a number below carries units, and the node.
\<close>

abbreviation SBML_DEFAULT_LEVEL :: nat where "SBML_DEFAULT_LEVEL \<equiv> 3"
abbreviation SBML_DEFAULT_VERSION :: nat where "SBML_DEFAULT_VERSION \<equiv> 2"

definition writeMathML :: "Globals \<Rightarrow> ASTNode option \<Rightarrow> SBMLNamespaces option \<Rightarrow> Written" where
  "writeMathML g node sbmlns =
     seqOut
       [Some [StartElement ''math'',
              WriteAttribute ''xmlns'' ''http://www.w3.org/1998/Math/MathML''],
        case node of None \<Rightarrow> Some []
        | Some n \<Rightarrow>
            seqOut
              [Some (if hasUnits n then
                       [WriteAttribute ''xmlns:sbml''
                          (getSBMLNamespaceURI g
                             (case sbmlns of None \<Rightarrow> SBML_DEFAULT_LEVEL | Some ns \<Rightarrow> nsLevel ns)
                             (case sbmlns of None \<Rightarrow> SBML_DEFAULT_VERSION
                              | Some ns \<Rightarrow> nsVersion ns))]
                     else []),
               writeNode g sbmlns False n],
        Some [EndElement ''math'']]"

text \<open>
  The public functions. A C pointer is an option: \<open>None\<close> is the null pointer.

  \<open>readMathMLFromString\<close> puts the XML declaration before a text that does not start
  with one, reads the tokens of the text with a fresh log and no namespaces, and gives up
  the node when the log holds errors and none of them is number 10218.
\<close>

definition dummy_xml :: string where
  "dummy_xml = ''<?xml version=\"1.0\" encoding=\"UTF-8\"?>''"

definition withProlog :: "string \<Rightarrow> string" where
  "withProlog xml = (if take 14 xml = take 14 dummy_xml then xml else dummy_xml @ xml)"

definition readMathMLFromString :: "Globals \<Rightarrow> string option \<Rightarrow> ASTNode option" where
  "readMathMLFromString g xml =
     (case xml of None \<Rightarrow> None
      | Some x \<Rightarrow>
         (case parseXML g (withProlog x) of
            (toks, errs) \<Rightarrow>
             (case readMathML g \<lparr>tokens = toks, errorLog = errs, sbmlNamespaces = None\<rparr> [] of
                (ast, stream) \<Rightarrow>
                  if getNumErrors (errorLog stream) > 0 then
                    (if \<not> contains (errorLog stream) 10218 then None else Some ast)
                  else Some ast)))"

text \<open>
  \<open>readMathMLFromStringWithNamespaces\<close> does the same with a namespace context of the
  default level and version on the stream (the XML namespaces handed in are added to
  that context and play no part in the reading).
\<close>

definition readMathMLFromStringWithNamespaces :: "Globals \<Rightarrow> string option \<Rightarrow> ASTNode option"
  where
  "readMathMLFromStringWithNamespaces g xml =
     (case xml of None \<Rightarrow> None
      | Some x \<Rightarrow>
         (case parseXML g (withProlog x) of
            (toks, errs) \<Rightarrow>
             (case readMathML g
                     \<lparr>tokens = toks, errorLog = errs,
                        sbmlNamespaces = Some \<lparr>nsLevel = SBML_DEFAULT_LEVEL,
                                                nsVersion = SBML_DEFAULT_VERSION\<rparr>\<rparr> [] of
                (ast, stream) \<Rightarrow>
                  if getNumErrors (errorLog stream) > 0 then
                    (if \<not> contains (errorLog stream) 10218 then None else Some ast)
                  else Some ast)))"

text \<open>
  Modelled from the spec: the text that the output stream makes of what the writer hands
  to it is a function \<open>render\<close> of the calls; it is an argument of the functions that
  answer a string. A writer that dereferences a null pointer answers no string at all:
  the outer \<open>None\<close>.
\<close>

definition writeMathMLWithNamespaceToString :: "Globals \<Rightarrow> (XMLOutput list \<Rightarrow> string)
    \<Rightarrow> ASTNode option \<Rightarrow> SBMLNamespaces option \<Rightarrow> string option option" where
  "writeMathMLWithNamespaceToString g render node sbmlns =
     (if node \<noteq> None \<and> sbmlns \<noteq> None
      then map_option (\<lambda>out. Some (render out)) (writeMathML g node sbmlns)
      else Some None)"

definition writeMathMLToString :: "Globals \<Rightarrow> (XMLOutput list \<Rightarrow> string)
    \<Rightarrow> ASTNode option \<Rightarrow> string option option" where
  "writeMathMLToString g render node =
     writeMathMLWithNamespaceToString g render node
       (Some \<lparr>nsLevel = SBML_DEFAULT_LEVEL, nsVersion = SBML_DEFAULT_VERSION\<rparr>)"

definition writeMathMLToStdString :: "Globals \<Rightarrow> (XMLOutput list \<Rightarrow> string)
    \<Rightarrow> ASTNode option \<Rightarrow> SBMLNamespaces option \<Rightarrow> string option" where
  "writeMathMLToStdString g render node sbmlns =
     (if node = None \<or> sbmlns = None then Some []
      else if node \<noteq> None \<and> sbmlns \<noteq> None
      then map_option render (writeMathML g node sbmlns)
      else Some [])"

definition writeMathMLToStdString_default :: "Globals \<Rightarrow> (XMLOutput list \<Rightarrow> string)
    \<Rightarrow> ASTNode option \<Rightarrow> string option" where
  "writeMathMLToStdString_default g render node =
     writeMathMLToStdString g render node
       (Some \<lparr>nsLevel = SBML_DEFAULT_LEVEL, nsVersion = SBML_DEFAULT_VERSION\<rparr>)"

text \<open>
  Modelled from the spec: the way from the writer's output back to the reader's input.
  The text of the output is read by the XML parser, which hands out one token for a start
  tag with its attributes, one for an end tag, a single token that is both for an element
  without content, and one for text. Namespace declarations are not attributes of a
  token, and an attribute is known by its local name. The white space of the layout is
  left out (the reader skips it between elements).
\<close>

fun takeAttributes :: "XMLOutput list \<Rightarrow> XMLAttributes" where
  "takeAttributes (WriteAttribute n v # out) = (n, v) # takeAttributes out"
| "takeAttributes out = []"

fun dropAttributes :: "XMLOutput list \<Rightarrow> XMLOutput list" where
  "dropAttributes (WriteAttribute n v # out) = dropAttributes out"
| "dropAttributes out = out"

definition localName :: "string \<Rightarrow> string" where
  "localName n = (if CHR '':'' \<in> set n then tl (dropWhile (\<lambda>c. c \<noteq> CHR '':'') n) else n)"

definition isNamespaceDeclaration :: "string \<Rightarrow> bool" where
  "isNamespaceDeclaration n = (n = ''xmlns'' \<or> take 6 n = ''xmlns:'')"

definition tokenAttributes :: "XMLAttributes \<Rightarrow> XMLAttributes" where
  "tokenAttributes atts =
     map (\<lambda>(n, v). (localName n, v)) (filter (\<lambda>(n, v). \<not> isNamespaceDeclaration n) atts)"

definition startToken :: "string \<Rightarrow> XMLAttributes \<Rightarrow> XMLToken" where
  "startToken n atts = \<lparr> tName = n, tPrefix = [], tAttributes = atts, tIsStart = True,
     tIsEnd = False, tIsText = False, tCharacters = [] \<rparr>"

definition endToken :: "string \<Rightarrow> XMLToken" where
  "endToken n = \<lparr> tName = n, tPrefix = [], tAttributes = [], tIsStart = False,
     tIsEnd = True, tIsText = False, tCharacters = [] \<rparr>"

definition emptyToken :: "string \<Rightarrow> XMLAttributes \<Rightarrow> XMLToken" where
  "emptyToken n atts = \<lparr> tName = n, tPrefix = [], tAttributes = atts, tIsStart = True,
     tIsEnd = True, tIsText = False, tCharacters = [] \<rparr>"

definition textToken :: "string \<Rightarrow> XMLToken" where
  "textToken s = \<lparr> tName = [], tPrefix = [], tAttributes = [], tIsStart = False,
     tIsEnd = False, tIsText = True, tCharacters = s \<rparr>"

lemma dropAttributes_length: "length (dropAttributes out) \<le> length out"
  by (induction out rule: dropAttributes.induct) auto

lemma dropAttributes_Cons_length: "dropAttributes out = x # rest \<Longrightarrow> length rest < length out"
  using dropAttributes_length [of out] by simp

function tokensOf :: "XMLOutput list \<Rightarrow> XMLToken list" where
  "tokensOf [] = []"
| "tokensOf (StartElement n # out) =
     (case dropAttributes out of
        EndElement m # rest \<Rightarrow>
          (if m = n then emptyToken n (tokenAttributes (takeAttributes out)) # tokensOf rest
           else startToken n (tokenAttributes (takeAttributes out)) # tokensOf (dropAttributes out))
      | _ \<Rightarrow> startToken n (tokenAttributes (takeAttributes out)) # tokensOf (dropAttributes out))"
| "tokensOf (EndElement n # out) = endToken n # tokensOf out"
| "tokensOf (StartEndElement n # out) =
     emptyToken n (tokenAttributes (takeAttributes out)) # tokensOf (dropAttributes out)"
| "tokensOf (WriteAttribute n v # out) = tokensOf out"
| "tokensOf (WriteText s # out) = textToken s # tokensOf out"
| "tokensOf (WriteXMLNode ts # out) = ts @ tokensOf out"
  by pat_completeness auto
termination
  by (relation "measure length")
     (auto simp: less_Suc_eq_le dropAttributes_length dest: dropAttributes_Cons_length)

section \<open>Concrete inputs\<close>

text \<open>
  A build for the concrete runs below: an \<open>int\<close> of four bytes, a \<open>long\<close> of eight, an
  empty registry before its first use. No run below formats a double, asks for a
  namespace URI or parses a text, so these three answer a fixed text.
\<close>

definition plainGlobals :: Globals where
  "plainGlobals = \<lparr> definitionURLs = [], coreDefinitionsAdded = False, sizeof_int = 4,
     sizeof_long = 8, formatDouble = (\<lambda>d. ''0''), getSBMLNamespaceURI = (\<lambda>l v. []),
     parseXML = (\<lambda>s. ([], [])) \<rparr>"

text \<open>A stream over the given tokens with an empty log and no namespace context.\<close>

definition freshStream :: "XMLToken list \<Rightarrow> XMLInputStream" where
  "freshStream ts = \<lparr>tokens = ts, errorLog = [], sbmlNamespaces = None\<rparr>"

text \<open>
  The tokens of \<open><cn type="...">text</cn>\<close> and of
  \<open><cn type="...">text<sep/>text</cn>\<close>.
\<close>

definition cnTokens :: "string \<Rightarrow> string list \<Rightarrow> XMLToken list" where
  "cnTokens type texts =
     startToken ''cn'' [(''type'', type)]
     # (case texts of
          [a] \<Rightarrow> [textToken a]
        | [a, b] \<Rightarrow> [textToken a, emptyToken ''sep'' [], textToken b]
        | _ \<Rightarrow> [])
     @ [endToken ''cn'']"

text \<open>The integer 5 with the units \<open>mole\<close>.\<close>

definition moles5 :: ASTNode where
  "moles5 = setUnits ''mole'' (setValue_int 5 newASTNode)"

text \<open>
  The lambda element in the words of the specification: every child but the last in a
  \<open>bvar\<close> element of its own and the last child as the body; every child in a \<open>bvar\<close>
  element and no body when the last child is flagged as a bvar. \<open>W\<close> writes a child.
\<close>

definition lambdaElement :: "(ASTNode \<Rightarrow> Written) \<Rightarrow> ASTNode list \<Rightarrow> Written" where
  "lambdaElement W cs =
     seqOut ([Some [StartElement ''lambda'']]
       @ map (\<lambda>c. seqOut [Some [StartElement ''bvar''], W c, Some [EndElement ''bvar'']])
           (if isBvar (last cs) then cs else butlast cs)
       @ (if isBvar (last cs) then [] else [W (last cs)])
       @ [Some [EndElement ''lambda'']])"

text \<open>
  Two lambdas: \<open>lambda(x, sin(x))\<close>, and a lambda whose two children are both flagged as
  bvars, as the reader builds it from a lambda element without a body.
\<close>

definition nameNode :: "string \<Rightarrow> ASTNode" where
  "nameNode x = setName x newASTNode"

definition typedNode :: "ASTNodeType_t \<Rightarrow> ASTNode list \<Rightarrow> ASTNode" where
  "typedNode t cs = ASTNode (dat (setType t newASTNode)) cs"

text \<open>The root of that number, with no degree, and the root of degree and argument.\<close>

definition rootOfMoles :: ASTNode where
  "rootOfMoles = typedNode AST_FUNCTION_ROOT [moles5]"

definition rootOfMoles2 :: ASTNode where
  "rootOfMoles2 = typedNode AST_FUNCTION_ROOT [moles5, moles5]"

definition lambdaWithBody :: ASTNode where
  "lambdaWithBody = typedNode AST_LAMBDA
     [setBvar (nameNode ''x''), typedNode AST_FUNCTION_SIN [nameNode ''x'']]"

definition lambdaWithoutBody :: ASTNode where
  "lambdaWithoutBody = typedNode AST_LAMBDA [setBvar (nameNode ''x''), setBvar (nameNode ''y'')]"

text \<open>
  The number that a text denotes to the eye: white space, an optional sign and decimal
  digits, of any size; \<open>None\<close> for a text without a digit in that place.
\<close>

definition textValue :: "string \<Rightarrow> int option" where
  "textValue text =
     (let s = dropWhile isStreamSpace text;
          ds = takeWhile isDigit (dropSign s)
      in if ds = [] then None
         else Some (if isNegative s then - decimalValue ds else decimalValue ds))"

text \<open>
  A log and a root with the single argument \<open>x\<close>, and the tokens of
  \<open><apply><log/><ci>x</ci></apply>\<close> and \<open><apply><root/><ci>a</ci></apply>\<close>.
\<close>

definition applyTokens :: "string \<Rightarrow> XMLToken list \<Rightarrow> XMLToken list" where
  "applyTokens head args = [startToken ''apply'' [], emptyToken head []] @ args
     @ [endToken ''apply'']"

definition ciTokens :: "string \<Rightarrow> XMLToken list" where
  "ciTokens x = [startToken ''ci'' [], textToken x, endToken ''ci'']"

text \<open>
  The tokens of \<open><csymbol encoding="text" definitionURL="url">text</csymbol>\<close>, and a
  registry that holds the core entries.
\<close>

definition csymbolTokens :: "string \<Rightarrow> string \<Rightarrow> XMLToken list" where
  "csymbolTokens url text =
     [startToken ''csymbol'' [(''encoding'', ''text''), (''definitionURL'', url)],
      textToken text, endToken ''csymbol'']"

definition coreGlobals :: Globals where
  "coreGlobals = setSBMLDefinitionURLs plainGlobals"

text \<open>
  Number texts out of the range of 32 bits: \<open>2147483648\<close> alone, and \<open>1<sep/>-2147483649\<close>;
  each is followed by the end tag of its \<open>cn\<close>.
\<close>

definition bigInteger :: "XMLToken list" where
  "bigInteger = [textToken ''2147483648'', endToken ''cn'']"

definition bigDenominator :: "XMLToken list" where
  "bigDenominator = [textToken ''1'', emptyToken ''sep'' [], textToken ''-2147483649'',
     endToken ''cn'']"

text \<open>The tokens of \<open><apply><cn>5</cn><ci>x</ci></apply>\<close>.\<close>

definition applyNumber :: "XMLToken list" where
  "applyNumber = [startToken ''apply'' [], startToken ''cn'' [], textToken ''5'', endToken ''cn'']
     @ ciTokens ''x'' @ [endToken ''apply'']"

definition applyNumberText :: string where
  "applyNumberText = ''<apply><cn>5</cn><ci>x</ci></apply>''"

text \<open>The log of \<open>x\<close> and the root of \<open>a\<close>, each with its single argument.\<close>

definition logX :: ASTNode where
  "logX = typedNode AST_FUNCTION_LOG [nameNode ''x'']"

definition rootA :: ASTNode where
  "rootA = typedNode AST_FUNCTION_ROOT [nameNode ''a'']"


text \<open>
  A \<open>piece\<close> with one child only, whose number does not read as an integer: the text
  \<open><math xmlns="..."><piecewise><piece><cn type="integer">x</cn></piece></piecewise></math>\<close>
  and its tokens, with a build whose XML parser answers the given tokens and logs nothing.
\<close>

definition onePieceText :: string where
  "onePieceText = ''<math xmlns=\"http://www.w3.org/1998/Math/MathML\"><piecewise><piece>''
     @ ''<cn type=\"integer\">x</cn></piece></piecewise></math>''"

definition onePiece :: "XMLToken list" where
  "onePiece = [startToken ''math'' [], startToken ''piecewise'' [], startToken ''piece'' []]
     @ cnTokens ''integer'' [''x'']
     @ [endToken ''piece'', endToken ''piecewise'', endToken ''math'']"

definition parsedAs :: "XMLToken list \<Rightarrow> Globals" where
  "parsedAs toks = plainGlobals\<lparr>parseXML := (\<lambda>s. (toks, []))\<rparr>"

section \<open>The way through the writer and back\<close>

text \<open>
  The name of the element that \<open>writeOperator\<close> writes for a plus or a times node, and one
  round of the loop of \<open>readMathML\<close> over the children of such a node: \<open>reduceBinary\<close>, then
  \<open>addChild\<close>.
\<close>

definition operatorName :: "ASTNodeType_t \<Rightarrow> string" where
  "operatorName t = (if t = AST_PLUS then ''plus'' else ''times'')"

definition addOperand :: "ASTNode \<Rightarrow> ASTNode \<Rightarrow> ASTNode" where
  "addOperand node child = addChild child (reduceBinary node)"

text \<open>
  The chain of binary nodes over the operands \<open>c1, c2, c3, ...\<close>: the node of \<open>c1\<close> and
  \<open>c2\<close>, then for every further operand a new node of the chain so far and that operand,
  \<open>op(op(op(c1, c2), c3), c4)\<close>.
\<close>

definition leftChain :: "ASTNodeType_t \<Rightarrow> ASTNode list \<Rightarrow> ASTNode" where
  "leftChain t cs = foldl (\<lambda>acc c. typedNode t [acc, c]) (typedNode t (take 2 cs)) (drop 2 cs)"

text \<open>
  The operands that \<open>writeOperatorArgs\<close> writes for a plus or times node, in order: the
  children of a node with more than two children; otherwise every child, a child of the
  node's own type standing for its own operands in turn.
\<close>

function operands :: "ASTNode \<Rightarrow> ASTNode list" where
  "operands (ASTNode d cs) =
     (if length cs \<le> 2
      then concat (map (\<lambda>c. if getType c = mType d then operands c else [c]) cs)
      else cs)"
  by pat_completeness auto
termination
  by (relation "measure size") (auto simp: less_Suc_eq_le size_child_le)

declare operands.simps [simp del]

text \<open>
  What the reader makes of the operator element that the writer puts for a node: a new
  node of the type of the node with its id, class and style. And the chain of binary
  nodes under given data at the root: up to two operands are the children of the root;
  of more, the root holds the chain of all but the last, and the last.
\<close>

definition operatorRoot :: "ASTNode \<Rightarrow> ASTNodeData" where
  "operatorRoot node = (dat newASTNode)\<lparr>mType := getType node, mId := mId (dat node),
     mClass := mClass (dat node), mStyle := mStyle (dat node)\<rparr>"

definition binaryChain :: "ASTNodeData \<Rightarrow> ASTNode list \<Rightarrow> ASTNode" where
  "binaryChain d cs =
     (if length cs \<le> 2 then ASTNode d cs
      else ASTNode d [leftChain (mType d) (butlast cs), last cs])"

text \<open>
  A node comes back from its own output when the writer has an output for it that ends
  with an end tag, the tokens of that output begin with a start tag that the loop over
  the children takes for a child (no text, and not \<open>math\<close>, \<open>piece\<close> or \<open>otherwise\<close>), and
  the reader, with fuel \<open>k\<close> or more, makes the node of these tokens, consumes exactly them
  and logs nothing, whatever follows them and whatever the log holds.
\<close>

definition startsElement :: "XMLToken list \<Rightarrow> bool" where
  "startsElement ts = (case ts of [] \<Rightarrow> False
     | t # _ \<Rightarrow> \<not> tIsText t \<and> tName t \<noteq> ''math'' \<and> tName t \<noteq> ''piece''
                \<and> tName t \<noteq> ''otherwise'')"

definition readsBack :: "Globals \<Rightarrow> SBMLNamespaces option \<Rightarrow> nat \<Rightarrow> XMLToken list \<Rightarrow> ASTNode
    \<Rightarrow> bool" where
  "readsBack g sns k ts c =
     (startsElement ts \<and> tIsStart (hd ts)
      \<and> (\<forall>fuel rest elog. k \<le> fuel \<longrightarrow>
            readMathML_node g fuel newASTNode
              \<lparr>tokens = ts @ rest, errorLog = elog, sbmlNamespaces = sns\<rparr> []
            = Some (c, \<lparr>tokens = rest, errorLog = elog, sbmlNamespaces = sns\<rparr>)))"

definition closedOutput :: "XMLOutput list \<Rightarrow> bool" where
  "closedOutput out = (out \<noteq> [] \<and> (case last out of EndElement m \<Rightarrow> True | _ \<Rightarrow> False))"

definition roundTrips :: "Globals \<Rightarrow> SBMLNamespaces option \<Rightarrow> SBMLNamespaces option \<Rightarrow> nat
    \<Rightarrow> ASTNode \<Rightarrow> bool" where
  "roundTrips g ns sns k c =
     (case writeNode g ns False c of
        None \<Rightarrow> False
      | Some out \<Rightarrow> closedOutput out \<and> readsBack g sns k (tokensOf out) c)"

text \<open>
  The sum of \<open>a\<close>, \<open>b\<close> and \<open>c\<close> as one node with three children and as \<open>a\<close> plus the sum
  of \<open>b\<close> and \<open>c\<close>, and what is written for either.
\<close>

definition flatSum :: ASTNode where
  "flatSum = typedNode AST_PLUS [nameNode ''a'', nameNode ''b'', nameNode ''c'']"

definition nestedSum :: ASTNode where
  "nestedSum = typedNode AST_PLUS
     [nameNode ''a'', typedNode AST_PLUS [nameNode ''b'', nameNode ''c'']]"

definition flatSumOutput :: "XMLOutput list" where
  "flatSumOutput = [StartElement ''apply'', StartElement ''plus'', EndElement ''plus'',
     StartElement ''ci'', WriteText '' a '', EndElement ''ci'',
     StartElement ''ci'', WriteText '' b '', EndElement ''ci'',
     StartElement ''ci'', WriteText '' c '', EndElement ''ci'',
     EndElement ''apply'']"

section \<open>Facts used throughout\<close>

lemmas node_defs = newASTNode_def getType_def getNumChildren_def upd_def isInteger_def
  isReal_def isRational_def isNumber_def isOperator_def isName_def isConstant_def isLambda_def
  isPiecewise_def isUnknown_def setType_def setValue_int_def setValue_double_def
  setValue_rational_def setValue_e_def setUnits_def getUnits_def prependChild_def addChild_def
  unsetUnits_def setName_def getName_def setId_def setClass_def setStyle_def setBvar_def
  isBvar_def setSemanticsFlag_def getSemanticsFlag_def setDefinitionURL_string_def
  setDefinitionURL_attributes_def getDefinitionURL_def getDefinitionURLString_def
  getReal_def isInfinity_def isNegInfinity_def isNaN_def getLeftChild_def getRightChild_def

lemmas stream_defs = isGood_def peek_def consume_def isEndFor_def isSpace_def
  isWhiteSpaceText_def skipText_def skipAllText_def skipPastEnd_def logError_def logIf_def
  contains_def getNumErrors_def eofToken_def readInto_def hasAttribute_def

lemmas number_defs = isStreamSpace_def digitValue_def decimalValue_def isNegative_def
  dropSign_def extractInteger_def scaleDecimal_def extractDouble_def trim_def isDigit_def
  isLetter_def isValidInternalUnitSId_def

lemmas token_defs = startToken_def endToken_def emptyToken_def textToken_def

lemmas writer_defs = writeAttributes_def writeStartEndElement_def writeCSymbol_def writeCI_def
  writeConstant_def writeFunction_name_def writeOperator_name_def writeFunctionLog_def
  writeFunctionRoot_def writeFunction_def writeLambda_def writeOperator_def
  writePiecewise_def writeSemantics_def writeNode_dispatch_def

lemma typeMax_ge: "4 \<le> bytes \<Longrightarrow> 2147483647 \<le> typeMax bytes"
proof -
  assume a: "4 \<le> bytes"
  have "(2::int) ^ 31 \<le> 2 ^ (8 * bytes - 1)"
    by (rule power_increasing) (use a in auto)
  then show ?thesis by (simp add: typeMax_def)
qed

lemma typeMin_le: "4 \<le> bytes \<Longrightarrow> typeMin bytes \<le> - 2147483648"
proof -
  assume a: "4 \<le> bytes"
  have "(2::int) ^ 31 \<le> 2 ^ (8 * bytes - 1)"
    by (rule power_increasing) (use a in auto)
  then show ?thesis by (simp add: typeMin_def)
qed

lemma found_cn: "util_bsearchStringsI MATHML_ELEMENTS ''cn'' < length MATHML_ELEMENTS"
  by (simp add: util_bsearchStringsI_def MATHML_ELEMENTS_def toLower_def)

lemma seqOut_append:
  "seqOut (xs @ ys) = (case seqOut xs of None \<Rightarrow> None
                        | Some a \<Rightarrow> (case seqOut ys of None \<Rightarrow> None | Some b \<Rightarrow> Some (a @ b)))"
  by (induction xs rule: seqOut.induct) (auto split: option.splits)

lemma seqOut_skip: "seqOut (Some [] # ws) = seqOut ws"
  by (simp split: option.split)

section \<open>Numeric fidelity of cn\<close>

text \<open>
  Claim C5. Reading \<open><cn type="integer">12345</cn>\<close> gives an integer node with the
  value 12345 and no children; reading \<open><cn type="rational">12342<sep/>2342342</cn>\<close>
  gives a rational node with numerator 12342 and denominator 2342342; reading
  \<open><cn type="e-notation">12.3<sep/>5</cn>\<close> gives an e-notation node with mantissa 12.3
  and exponent 5. Each run consumes the whole element and logs nothing. This holds on
  every build whose \<open>int\<close> and \<open>long\<close> have four bytes or more.
\<close>

theorem C5_cn_values:
  assumes "4 \<le> sizeof_int g" and "4 \<le> sizeof_long g"
  shows "(\<exists>n. readMathML_node g (Suc fuel) newASTNode
                 (freshStream (cnTokens ''integer'' [''12345''])) [] = Some (n, freshStream [])
             \<and> getType n = AST_INTEGER \<and> mInteger (dat n) = 12345 \<and> mChildren n = [])
       \<and> (\<exists>n. readMathML_node g (Suc fuel) newASTNode
                 (freshStream (cnTokens ''rational'' [''12342'', ''2342342''])) []
               = Some (n, freshStream [])
             \<and> getType n = AST_RATIONAL \<and> mInteger (dat n) = 12342
             \<and> mDenominator (dat n) = 2342342 \<and> mChildren n = [])
       \<and> (\<exists>n. readMathML_node g (Suc fuel) newASTNode
                 (freshStream (cnTokens ''e-notation'' [''12.3'', ''5''])) []
               = Some (n, freshStream [])
             \<and> getType n = AST_REAL_E \<and> mReal (dat n) = Finite (123 / 10)
             \<and> mExponent (dat n) = 5 \<and> mChildren n = [])"
proof -
  note b = typeMax_ge [OF assms(1)] typeMin_le [OF assms(1)]
    typeMax_ge [OF assms(2)] typeMin_le [OF assms(2)]
  have i1: "extractInteger (sizeof_int g) ''12345'' = (12345, False)"
    using b by (simp add: number_defs)
  have i2: "extractInteger (sizeof_int g) ''12342'' = (12342, False)"
    using b by (simp add: number_defs)
  have i3: "extractInteger (sizeof_int g) ''2342342'' = (2342342, False)"
    using b by (simp add: number_defs)
  have i4: "extractInteger (sizeof_long g) ''5'' = (5, False)"
    using b by (simp add: number_defs)
  have d1: "extractDouble ''12.3'' = (Finite (123 / 10), False)"
    by (simp add: number_defs)
  have e: "readMathML_element newASTNode (startToken ''cn'' [(''type'', ty)]) s [] = (newASTNode, s)"
    for ty s
    by (simp add: readMathML_element_def Let_def token_defs found_cn stream_defs)
  have c1: "setTypeCN g newASTNode (startToken ''cn'' [(''type'', ''integer'')])
              (freshStream [textToken ''12345'', endToken ''cn''])
            = (setValue_int 12345 newASTNode, freshStream [endToken ''cn''])"
    by (simp add: setTypeCN_def freshStream_def token_defs i1 stream_defs
        isValidInternalUnitSId_def)
  have c2: "setTypeCN g newASTNode (startToken ''cn'' [(''type'', ''rational'')])
              (freshStream [textToken ''12342'', emptyToken ''sep'' [], textToken ''2342342'',
                            endToken ''cn''])
            = (setValue_rational 12342 2342342 newASTNode, freshStream [endToken ''cn''])"
    by (simp add: setTypeCN_def freshStream_def token_defs i2 i3 stream_defs
        isValidInternalUnitSId_def)
  have n3: "\<not> isInfinity (setValue_e (Finite (123 / 10)) 5 newASTNode)"
       "\<not> isNegInfinity (setValue_e (Finite (123 / 10)) 5 newASTNode)"
    by (simp_all add: node_defs)
  have c3: "setTypeCN g newASTNode (startToken ''cn'' [(''type'', ''e-notation'')])
              (freshStream [textToken ''12.3'', emptyToken ''sep'' [], textToken ''5'',
                            endToken ''cn''])
            = (setValue_e (Finite (123 / 10)) 5 newASTNode, freshStream [endToken ''cn''])"
    using n3
    by (simp add: setTypeCN_def freshStream_def token_defs i4 d1 stream_defs
        isValidInternalUnitSId_def)
  have f: "readMathML_finish (startToken ''cn'' a) n (freshStream [endToken ''cn''])
           = (checkFunctionArgs n, freshStream [])" for a n
    by (simp add: readMathML_finish_def freshStream_def token_defs stream_defs)
  have k: "checkFunctionArgs (setValue_int a newASTNode) = setValue_int a newASTNode"
    "checkFunctionArgs (setValue_rational a c newASTNode) = setValue_rational a c newASTNode"
    "checkFunctionArgs (setValue_e m a newASTNode) = setValue_e m a newASTNode" for a c m
    by (simp_all add: checkFunctionArgs_def node_defs)
  have p: "peek (skipText (freshStream (startToken ''cn'' a # ts))) = startToken ''cn'' a"
          "consume (skipText (freshStream (startToken ''cn'' a # ts))) = freshStream ts" for a ts
    by (simp_all add: freshStream_def token_defs stream_defs)
  have m: "tName (startToken ''cn'' a) = ''cn''" for a by (simp add: token_defs)
  have r1: "readMathML_node g (Suc fuel) newASTNode
              (freshStream (cnTokens ''integer'' [''12345''])) []
            = Some (setValue_int 12345 newASTNode, freshStream [])"
    by (simp add: readMathML_node.simps cnTokens_def p m e setType_element_def c1 f k Let_def)
  have r2: "readMathML_node g (Suc fuel) newASTNode
              (freshStream (cnTokens ''rational'' [''12342'', ''2342342''])) []
            = Some (setValue_rational 12342 2342342 newASTNode, freshStream [])"
    by (simp add: readMathML_node.simps cnTokens_def p m e setType_element_def c2 f k Let_def)
  have r3: "readMathML_node g (Suc fuel) newASTNode
              (freshStream (cnTokens ''e-notation'' [''12.3'', ''5''])) []
            = Some (setValue_e (Finite (123 / 10)) 5 newASTNode, freshStream [])"
    by (simp add: readMathML_node.simps cnTokens_def p m e setType_element_def c3 f k Let_def)
  have v1: "getType (setValue_int 12345 newASTNode) = AST_INTEGER
            \<and> mInteger (dat (setValue_int 12345 newASTNode)) = 12345
            \<and> mChildren (setValue_int 12345 newASTNode) = []"
    by (simp add: node_defs)
  have v2: "getType (setValue_rational 12342 2342342 newASTNode) = AST_RATIONAL
            \<and> mInteger (dat (setValue_rational 12342 2342342 newASTNode)) = 12342
            \<and> mDenominator (dat (setValue_rational 12342 2342342 newASTNode)) = 2342342
            \<and> mChildren (setValue_rational 12342 2342342 newASTNode) = []"
    by (simp add: node_defs)
  have v3: "getType (setValue_e (Finite (123 / 10)) 5 newASTNode) = AST_REAL_E
            \<and> mReal (dat (setValue_e (Finite (123 / 10)) 5 newASTNode)) = Finite (123 / 10)
            \<and> mExponent (dat (setValue_e (Finite (123 / 10)) 5 newASTNode)) = 5
            \<and> mChildren (setValue_e (Finite (123 / 10)) 5 newASTNode) = []"
    by (simp add: node_defs)
  show ?thesis
    using r1 r2 r3 v1 v2 v3 by blast
qed

theorem C5_cn_values_witness:
  "4 \<le> sizeof_int plainGlobals \<and> 4 \<le> sizeof_long plainGlobals
   \<and> (\<exists>n. readMathML_node plainGlobals 1 newASTNode
             (freshStream (cnTokens ''integer'' [''12345''])) [] = Some (n, freshStream [])
          \<and> getType n = AST_INTEGER \<and> mInteger (dat n) = 12345 \<and> mChildren n = [])"
proof -
  have a: "4 \<le> sizeof_int plainGlobals" and b: "4 \<le> sizeof_long plainGlobals"
    by (simp_all add: plainGlobals_def)
  show ?thesis
    using a b C5_cn_values [OF a b, of 0] by simp
qed

section \<open>Units on cn\<close>

lemma units_not_in_writeAttributes:
  "WriteAttribute ''sbml:units'' u \<notin> set (writeAttributes node)"
  by (simp add: writeAttributes_def)

lemma units_not_in_writeENotation:
  "WriteAttribute ''sbml:units'' u \<notin> set (writeENotation g m e)"
  by (simp add: writeENotation_def writeENotation_strings_def Let_def)

lemma units_not_in_writeDouble:
  "WriteAttribute ''sbml:units'' u \<notin> set (writeDouble g v)"
  by (simp add: writeDouble_def Let_def units_not_in_writeENotation)

text \<open>
  For every node that \<open>writeCN\<close> writes as a \<open>cn\<close> element (every node that is not NaN or
  an infinity), the attribute \<open>sbml:units\<close> is written exactly when the units of the node
  are not empty and either \<open>writeCN\<close> is handed no namespace context or the level of the
  context it is handed is 3; and the value written is the units of the node.
\<close>

lemma writeCN_units:
  assumes "\<not> isNaN node"
    and "\<not> (getType node \<noteq> AST_REAL_E \<and> isInfinity node)"
    and "\<not> isNegInfinity node"
  shows "hd (writeCN g sbmlns node) = StartElement ''cn''
     \<and> ((\<exists>u. WriteAttribute ''sbml:units'' u \<in> set (writeCN g sbmlns node))
         \<longleftrightarrow> (getUnits node \<noteq> []
              \<and> (sbmlns = None \<or> (\<exists>ns. sbmlns = Some ns \<and> nsLevel ns = 3))))
     \<and> (\<forall>u. WriteAttribute ''sbml:units'' u \<in> set (writeCN g sbmlns node)
           \<longrightarrow> u = getUnits node)"
  using assms
  by (auto simp add: writeCN_def units_not_in_writeAttributes units_not_in_writeENotation
      units_not_in_writeDouble)

lemma moles5_eq:
  "moles5 = ASTNode ((dat newASTNode)\<lparr>mType := AST_INTEGER, mInteger := 5, mUnits := ''mole''\<rparr>) []"
  by (simp add: moles5_def setUnits_def setValue_int_def setType_def newASTNode_def upd_def
      getType_def isNumber_def isInteger_def isReal_def isOperator_def isValidInternalUnitSId_def
      isLetter_def isDigit_def)

lemma writeCN_units_moles5:
  "\<not> isNaN moles5 \<and> \<not> (getType moles5 \<noteq> AST_REAL_E \<and> isInfinity moles5)
   \<and> \<not> isNegInfinity moles5
   \<and> (\<exists>u. WriteAttribute ''sbml:units'' u \<in> set (writeCN plainGlobals None moles5))
   \<and> (\<exists>u. WriteAttribute ''sbml:units'' u
          \<in> set (writeCN plainGlobals (Some \<lparr>nsLevel = 3, nsVersion = 1\<rparr>) moles5))
   \<and> \<not> (\<exists>u. WriteAttribute ''sbml:units'' u
          \<in> set (writeCN plainGlobals (Some \<lparr>nsLevel = 2, nsVersion = 4\<rparr>) moles5))"
proof -
  have a: "\<not> isNaN moles5" and b: "\<not> (getType moles5 \<noteq> AST_REAL_E \<and> isInfinity moles5)"
    and c: "\<not> isNegInfinity moles5"
    by (simp_all add: moles5_eq isNaN_def isInfinity_def isNegInfinity_def isReal_def
        getType_def newASTNode_def)
  have u: "getUnits moles5 \<noteq> []"
    by (simp add: moles5_eq getUnits_def)
  show ?thesis
    using a b c u
      writeCN_units [OF a b c, of plainGlobals None]
      writeCN_units [OF a b c, of plainGlobals "Some \<lparr>nsLevel = 3, nsVersion = 1\<rparr>"]
      writeCN_units [OF a b c, of plainGlobals "Some \<lparr>nsLevel = 2, nsVersion = 4\<rparr>"]
    by simp
qed

text \<open>
  Claim C7. The context that \<open>writeCN\<close> is handed is not always the one supplied to the
  writer: \<open>writeFunctionRoot\<close> writes the only child of a root without a degree through
  \<open>writeNode(child, stream)\<close>, with no context. So with a context of level 2 supplied, the
  number with units below such a root is written with \<open>sbml:units\<close>, by \<open>writeNode\<close> and by
  \<open>writeMathML\<close>; the same number written on its own, or as the argument of a root with a
  degree, has no \<open>sbml:units\<close> at level 2.
\<close>

theorem C7_units_below_root_ignore_level:
  "writeNode plainGlobals (Some \<lparr>nsLevel = 2, nsVersion = 4\<rparr>) False rootOfMoles
     = Some [StartElement ''apply'', StartElement ''root'', EndElement ''root'',
             StartElement ''cn'', WriteAttribute ''sbml:units'' ''mole'',
             WriteAttribute ''type'' ''integer'', WriteText '' 5 '', EndElement ''cn'',
             EndElement ''apply'']
   \<and> writeMathML plainGlobals (Some rootOfMoles) (Some \<lparr>nsLevel = 2, nsVersion = 4\<rparr>)
     = Some [StartElement ''math'',
             WriteAttribute ''xmlns'' ''http://www.w3.org/1998/Math/MathML'',
             WriteAttribute ''xmlns:sbml'' [],
             StartElement ''apply'', StartElement ''root'', EndElement ''root'',
             StartElement ''cn'', WriteAttribute ''sbml:units'' ''mole'',
             WriteAttribute ''type'' ''integer'', WriteText '' 5 '', EndElement ''cn'',
             EndElement ''apply'', EndElement ''math'']
   \<and> getUnits moles5 = ''mole''
   \<and> writeNode plainGlobals (Some \<lparr>nsLevel = 2, nsVersion = 4\<rparr>) False moles5
     = Some [StartElement ''cn'', WriteAttribute ''type'' ''integer'', WriteText '' 5 '',
             EndElement ''cn'']
   \<and> writeNode plainGlobals (Some \<lparr>nsLevel = 2, nsVersion = 4\<rparr>) False rootOfMoles2
     = Some [StartElement ''apply'', StartElement ''root'', EndElement ''root'',
             StartElement ''degree'',
             StartElement ''cn'', WriteAttribute ''type'' ''integer'', WriteText '' 5 '',
             EndElement ''cn'', EndElement ''degree'',
             StartElement ''cn'', WriteAttribute ''type'' ''integer'', WriteText '' 5 '',
             EndElement ''cn'', EndElement ''apply'']"
  by code_simp

section \<open>The lambda element\<close>

lemma writeLambda_lambdaElement:
  assumes "mChildren node \<noteq> []"
  shows "writeLambda node (map W (mChildren node)) = lambdaElement W (mChildren node)"
proof -
  let ?cs = "mChildren node"
  have n: "?cs ! (length ?cs - 1) = last ?cs"
    using assms by (simp add: last_conv_nth)
  have t: "take (length ?cs - 1) (map W ?cs) = map W (butlast ?cs)"
    by (simp add: butlast_conv_take take_map)
  have w: "map W ?cs ! (length ?cs - 1) = W (last ?cs)"
    using assms n by simp
  show ?thesis
    using assms n t w
    by (simp add: writeLambda_def lambdaElement_def getNumChildren_def Let_def seqOut_append
        seqOut_skip comp_def split: option.split)
qed

lemma writeNode_lambda:
  assumes "isLambda node"
  shows "writeNode g sbmlns inSemantics node =
     (if getSemanticsFlag node \<and> \<not> inSemantics
      then writeSemantics node (writeLambda node (map (writeNode g sbmlns True) (mChildren node)))
      else writeLambda node (map (writeNode g sbmlns inSemantics) (mChildren node)))"
proof (cases node)
  case (ASTNode d cs)
  then have k: "\<not> isNumber (ASTNode d cs)" "\<not> isName (ASTNode d cs)"
    "\<not> isConstant (ASTNode d cs)" "\<not> isOperator (ASTNode d cs)" "isLambda (ASTNode d cs)"
    using assms by (simp_all add: node_defs)
  show ?thesis
    by (simp add: ASTNode writeNode_dispatch_def k getSemanticsFlag_def)
qed

text \<open>
  Claim C8. For every lambda node with at least one child, \<open>writeLambda\<close> writes the
  lambda element as the specification words it: every child but the last in a \<open>bvar\<close>
  element of its own and the last child as the body, and every child in a \<open>bvar\<close>
  element and no body when the last child is flagged as a bvar. This is what
  \<open>writeNode\<close> writes for the node, inside a \<open>semantics\<close> element when the node carries
  the semantics flag and the writer is not inside one already.
\<close>

theorem C8_writeLambda:
  assumes "mChildren node \<noteq> []"
  shows "writeLambda node (map W (mChildren node)) = lambdaElement W (mChildren node)
     \<and> (isLambda node \<longrightarrow>
          writeNode g sbmlns inSemantics node =
            (if getSemanticsFlag node \<and> \<not> inSemantics
             then writeSemantics node
                    (lambdaElement (writeNode g sbmlns True) (mChildren node))
             else lambdaElement (writeNode g sbmlns inSemantics) (mChildren node)))"
  using writeLambda_lambdaElement [OF assms] writeNode_lambda [of node g sbmlns inSemantics]
  by simp

lemma writeNode_nameNode:
  "writeNode g sbmlns b (nameNode x) = Some [StartElement ''ci'', WriteText ('' '' @ x @ '' ''),
     EndElement ''ci'']"
  by (simp add: nameNode_def node_defs writer_defs)

lemma writeNode_bvar_nameNode:
  "writeNode g sbmlns b (setBvar (nameNode x)) =
     Some [StartElement ''ci'', WriteText ('' '' @ x @ '' ''), EndElement ''ci'']"
  by (simp add: nameNode_def node_defs writer_defs)

theorem C8_writeLambda_witness:
  "mChildren lambdaWithBody \<noteq> [] \<and> isLambda lambdaWithBody
   \<and> writeNode plainGlobals None False lambdaWithBody =
       Some [StartElement ''lambda'',
             StartElement ''bvar'', StartElement ''ci'', WriteText '' x '', EndElement ''ci'',
             EndElement ''bvar'',
             StartElement ''apply'', StartElement ''sin'', EndElement ''sin'',
             StartElement ''ci'', WriteText '' x '', EndElement ''ci'', EndElement ''apply'',
             EndElement ''lambda'']
   \<and> mChildren lambdaWithoutBody \<noteq> [] \<and> isLambda lambdaWithoutBody
   \<and> writeNode plainGlobals None False lambdaWithoutBody =
       Some [StartElement ''lambda'',
             StartElement ''bvar'', StartElement ''ci'', WriteText '' x '', EndElement ''ci'',
             EndElement ''bvar'',
             StartElement ''bvar'', StartElement ''ci'', WriteText '' y '', EndElement ''ci'',
             EndElement ''bvar'',
             EndElement ''lambda'']"
proof -
  have a: "mChildren lambdaWithBody \<noteq> []" and b: "mChildren lambdaWithoutBody \<noteq> []"
    by (simp_all add: lambdaWithBody_def lambdaWithoutBody_def typedNode_def)
  have l: "isLambda lambdaWithBody" "isLambda lambdaWithoutBody"
    "\<not> getSemanticsFlag lambdaWithBody" "\<not> getSemanticsFlag lambdaWithoutBody"
    by (simp_all add: lambdaWithBody_def lambdaWithoutBody_def typedNode_def node_defs)
  have s: "writeNode plainGlobals None False (typedNode AST_FUNCTION_SIN [nameNode ''x''])
           = Some [StartElement ''apply'', StartElement ''sin'', EndElement ''sin'',
               StartElement ''ci'', WriteText '' x '', EndElement ''ci'', EndElement ''apply'']"
    by (simp add: typedNode_def node_defs writer_defs MATHML_FUNCTIONS_def
        writeNode_nameNode Let_def)
  have c1: "mChildren lambdaWithBody
            = [setBvar (nameNode ''x''), typedNode AST_FUNCTION_SIN [nameNode ''x'']]"
    and c2: "mChildren lambdaWithoutBody = [setBvar (nameNode ''x''), setBvar (nameNode ''y'')]"
    by (simp_all add: lambdaWithBody_def lambdaWithoutBody_def typedNode_def)
  have nb: "\<not> isBvar (typedNode AST_FUNCTION_SIN [nameNode ''x''])"
    "isBvar (setBvar (nameNode ''y''))"
    by (simp_all add: typedNode_def nameNode_def node_defs)
  show ?thesis
    using a b l
      C8_writeLambda [OF a, of "writeNode plainGlobals None False" plainGlobals None False]
      C8_writeLambda [OF b, of "writeNode plainGlobals None False" plainGlobals None False]
    by (simp add: c1 c2 lambdaElement_def nb s writeNode_bvar_nameNode)
qed

section \<open>Null inputs\<close>

text \<open>
  Claim C10. \<open>readMathMLFromString\<close> of a null pointer answers the null pointer (it
  never reaches the parser or a log); \<open>writeMathMLToStdString\<close> answers the empty string
  when the node or the namespace context is null; \<open>writeMathMLWithNamespaceToString\<close>
  answers the null pointer when the node or the namespace context is null. None of them
  fails there: the two writers answer a value (the outer \<open>Some\<close>).
\<close>

theorem C10_null_inputs:
  "readMathMLFromString g None = None
   \<and> writeMathMLToStdString g render None sbmlns = Some []
   \<and> writeMathMLToStdString g render node None = Some []
   \<and> writeMathMLWithNamespaceToString g render None sbmlns = Some None
   \<and> writeMathMLWithNamespaceToString g render node None = Some None"
  by (simp add: readMathMLFromString_def writeMathMLToStdString_def
      writeMathMLWithNamespaceToString_def)

section \<open>Numbers outside the 32-bit range\<close>

lemma typeMax_small: "bytes \<le> 4 \<Longrightarrow> typeMax bytes \<le> 2147483647"
proof -
  assume a: "bytes \<le> 4"
  have "(2::int) ^ (8 * bytes - 1) \<le> 2 ^ 31"
    by (rule power_increasing) (use a in auto)
  then show ?thesis by (simp add: typeMax_def)
qed

lemma typeMin_small: "bytes \<le> 4 \<Longrightarrow> - 2147483648 \<le> typeMin bytes"
proof -
  assume a: "bytes \<le> 4"
  have "(2::int) ^ (8 * bytes - 1) \<le> 2 ^ 31"
    by (rule power_increasing) (use a in auto)
  then show ?thesis by (simp add: typeMin_def)
qed

lemma extractInteger_textValue:
  assumes "textValue text = Some v"
  shows "extractInteger bytes text =
     (if v > typeMax bytes then (typeMax bytes, True)
      else if v < typeMin bytes then (typeMin bytes, True)
      else (v, False))"
  using assms by (auto simp add: textValue_def extractInteger_def Let_def split: if_splits)

text \<open>An out-of-range text fails the extraction or is caught by the explicit check.\<close>

lemma out_of_range_detected:
  assumes "textValue text = Some v" and "v > SBML_INT_MAX \<or> v < SBML_INT_MIN"
  shows "snd (extractInteger bytes text)
         \<or> (bytes > 4 \<and> (fst (extractInteger bytes text) > SBML_INT_MAX
                          \<or> fst (extractInteger bytes text) < SBML_INT_MIN))"
proof (cases "bytes \<le> 4")
  case True
  then show ?thesis
    using assms typeMax_small [OF True] typeMin_small [OF True]
    by (auto simp add: extractInteger_textValue)
next
  case False
  then show ?thesis
    using assms by (auto simp add: extractInteger_textValue)
qed

lemma getType_setUnits: "getType (setUnits u n) = getType n"
  by (simp add: setUnits_def getType_def upd_def)

lemma getType_setValue_int: "getType (setValue_int v n) = AST_INTEGER"
  by (simp add: setValue_int_def setType_def getType_def upd_def Let_def)

lemma getType_setValue_rational: "getType (setValue_rational a b n) = AST_RATIONAL"
  by (simp add: setValue_rational_def setType_def getType_def upd_def Let_def)

lemma rational_values:
  "mInteger (dat (setValue_rational a b n)) = a"
  "mDenominator (dat (setValue_rational a b n)) = b"
  "mInteger (dat (setUnits u n)) = mInteger (dat n)"
  "mDenominator (dat (setUnits u n)) = mDenominator (dat n)"
  by (simp_all add: setValue_rational_def setUnits_def upd_def)

lemma setTypeCN_integer:
  assumes "readInto (tAttributes element) ''type'' ''real'' = ''integer''"
  shows "setTypeCN g node element stream =
     (let units = readInto (tAttributes element) ''units'' [];
          stream0 = logIf (\<not> isValidInternalUnitSId units) InvalidUnitIdSyntax stream;
          r = extractInteger (sizeof_int g) (tCharacters (peek stream));
          s2 = logIf (snd r \<or> (sizeof_int g > 4 \<and> (fst r > SBML_INT_MAX \<or> fst r < SBML_INT_MIN)))
                 FailedMathMLReadOfInteger (consume stream0);
          n1 = setValue_int (fst r) node
      in (if units \<noteq> [] then setUnits units n1 else n1, s2))"
  using assms
  by (simp add: setTypeCN_def Let_def logIf_def peek_def logError_def case_prod_beta)

lemma setTypeCN_rational:
  assumes "readInto (tAttributes element) ''type'' ''real'' = ''rational''"
  shows "setTypeCN g node element stream =
     (let units = readInto (tAttributes element) ''units'' [];
          stream0 = logIf (\<not> isValidInternalUnitSId units) InvalidUnitIdSyntax stream;
          rn = extractInteger (sizeof_int g) (tCharacters (peek stream));
          s1 = consume stream0;
          hasSep = (tName (peek s1) = ''sep'');
          rd = (if hasSep then extractInteger (sizeof_int g) (tCharacters (peek (consume s1)))
                else (1, False));
          s2 = (if hasSep then consume (consume s1) else s1);
          s3 = logIf (snd rn \<or> snd rd
                      \<or> (sizeof_int g > 4
                          \<and> ((fst rn > SBML_INT_MAX \<or> fst rn < SBML_INT_MIN)
                             \<or> (fst rd > SBML_INT_MAX \<or> fst rd < SBML_INT_MIN))))
                 FailedMathMLReadOfRational s2;
          n1 = setValue_rational (fst rn) (fst rd) node
      in (if units \<noteq> [] then setUnits units n1 else n1, s3))"
  using assms
  by (simp add: setTypeCN_def Let_def logIf_def peek_def logError_def case_prod_beta)

text \<open>
  Claim C9. For a \<open>cn\<close> element of type integer or rational whose text (the
  numerator, or the denominator after \<open>sep\<close>) denotes a value outside the signed
  32-bit range, \<open>setTypeCN\<close> appends the read failure of that type to the log
  (\<open>FailedMathMLReadOfInteger\<close>, \<open>FailedMathMLReadOfRational\<close>), still
  gives the node its type and the values the extraction produced (the integer; for a
  rational the numerator and the denominator, which is 1 without a \<open>sep\<close>), and consumes
  the tokens of the number as it does for a value in range, so that reading goes on
  after it.
\<close>

theorem C9_out_of_range:
  fixes g node element stream
  defines "units \<equiv> readInto (tAttributes element) ''units'' []"
  defines "logged \<equiv> errorLog stream
                     @ (if isValidInternalUnitSId units then [] else [InvalidUnitIdSyntax])"
  defines "result \<equiv> setTypeCN g node element stream"
  shows
   "(readInto (tAttributes element) ''type'' ''real'' = ''integer''
       \<and> textValue (tCharacters (peek stream)) = Some v
       \<and> (v > SBML_INT_MAX \<or> v < SBML_INT_MIN)
     \<longrightarrow> errorLog (snd result) = logged @ [FailedMathMLReadOfInteger]
         \<and> getType (fst result) = AST_INTEGER
         \<and> mInteger (dat (fst result))
             = fst (extractInteger (sizeof_int g) (tCharacters (peek stream)))
         \<and> tokens (snd result) = tl (tokens stream))
  \<and> (readInto (tAttributes element) ''type'' ''real'' = ''rational''
       \<and> textValue (tCharacters (peek stream)) = Some v
       \<and> (v > SBML_INT_MAX \<or> v < SBML_INT_MIN)
     \<longrightarrow> errorLog (snd result) = logged @ [FailedMathMLReadOfRational]
         \<and> getType (fst result) = AST_RATIONAL
         \<and> mInteger (dat (fst result))
             = fst (extractInteger (sizeof_int g) (tCharacters (peek stream)))
         \<and> mDenominator (dat (fst result))
             = (if tName (peek (consume stream)) = ''sep''
                then fst (extractInteger (sizeof_int g)
                            (tCharacters (peek (consume (consume stream)))))
                else 1)
         \<and> tokens (snd result)
             = (if tName (peek (consume stream)) = ''sep'' then tl (tl (tl (tokens stream)))
                else tl (tokens stream)))
  \<and> (readInto (tAttributes element) ''type'' ''real'' = ''rational''
       \<and> tName (peek (consume stream)) = ''sep''
       \<and> textValue (tCharacters (peek (consume (consume stream)))) = Some v
       \<and> (v > SBML_INT_MAX \<or> v < SBML_INT_MIN)
     \<longrightarrow> errorLog (snd result) = logged @ [FailedMathMLReadOfRational]
         \<and> getType (fst result) = AST_RATIONAL
         \<and> mInteger (dat (fst result))
             = fst (extractInteger (sizeof_int g) (tCharacters (peek stream)))
         \<and> mDenominator (dat (fst result))
             = fst (extractInteger (sizeof_int g)
                      (tCharacters (peek (consume (consume stream)))))
         \<and> tokens (snd result) = tl (tl (tl (tokens stream))))"
proof (intro conjI impI)
  have lg: "errorLog (logIf b c s) = errorLog s @ (if b then [c] else [])" for b c s
    by (simp add: logIf_def logError_def)
  have tk: "tokens (logIf b c s) = tokens s" "tokens (consume s) = tl (tokens s)"
    "errorLog (consume s) = errorLog s" "peek (logIf b c s) = peek s" for b c s
    by (simp_all add: logIf_def logError_def consume_def peek_def)
  have pc: "peek (consume (logIf b c s)) = peek (consume s)" for b c s
    by (simp add: logIf_def logError_def consume_def peek_def)
  have pcc: "peek (consume (consume (logIf b c s))) = peek (consume (consume s))" for b c s
    by (simp add: logIf_def logError_def consume_def peek_def)
  {
    assume a: "readInto (tAttributes element) ''type'' ''real'' = ''integer''
       \<and> textValue (tCharacters (peek stream)) = Some v
       \<and> (v > SBML_INT_MAX \<or> v < SBML_INT_MIN)"
    then have ty: "readInto (tAttributes element) ''type'' ''real'' = ''integer''" by simp
    have d: "snd (extractInteger (sizeof_int g) (tCharacters (peek stream)))
         \<or> (sizeof_int g > 4
             \<and> (fst (extractInteger (sizeof_int g) (tCharacters (peek stream))) > SBML_INT_MAX
                \<or> fst (extractInteger (sizeof_int g) (tCharacters (peek stream)))
                    < SBML_INT_MIN))"
      using a out_of_range_detected [of "tCharacters (peek stream)" v "sizeof_int g"] by simp
    show "errorLog (snd result) = logged @ [FailedMathMLReadOfInteger]"
      using d by (simp add: result_def logged_def units_def setTypeCN_integer [OF ty] Let_def
          lg tk)
    show "getType (fst result) = AST_INTEGER"
      by (simp add: result_def setTypeCN_integer [OF ty] Let_def getType_setUnits
          getType_setValue_int)
    show "mInteger (dat (fst result))
             = fst (extractInteger (sizeof_int g) (tCharacters (peek stream)))"
      by (simp add: result_def setTypeCN_integer [OF ty] Let_def setUnits_def
          setValue_int_def upd_def)
    show "tokens (snd result) = tl (tokens stream)"
      by (simp add: result_def setTypeCN_integer [OF ty] Let_def tk)
  }
  {
    assume a: "readInto (tAttributes element) ''type'' ''real'' = ''rational''
       \<and> textValue (tCharacters (peek stream)) = Some v
       \<and> (v > SBML_INT_MAX \<or> v < SBML_INT_MIN)"
    then have ty: "readInto (tAttributes element) ''type'' ''real'' = ''rational''" by simp
    have d: "snd (extractInteger (sizeof_int g) (tCharacters (peek stream)))
         \<or> (sizeof_int g > 4
             \<and> (fst (extractInteger (sizeof_int g) (tCharacters (peek stream))) > SBML_INT_MAX
                \<or> fst (extractInteger (sizeof_int g) (tCharacters (peek stream)))
                    < SBML_INT_MIN))"
      using a out_of_range_detected [of "tCharacters (peek stream)" v "sizeof_int g"] by simp
    show "errorLog (snd result) = logged @ [FailedMathMLReadOfRational]"
      using d by (auto simp add: result_def logged_def units_def setTypeCN_rational [OF ty]
          Let_def lg tk)
    show "getType (fst result) = AST_RATIONAL"
      by (simp add: result_def setTypeCN_rational [OF ty] Let_def getType_setUnits
          getType_setValue_rational)
    show "mInteger (dat (fst result))
             = fst (extractInteger (sizeof_int g) (tCharacters (peek stream)))"
      by (simp add: result_def setTypeCN_rational [OF ty] Let_def rational_values tk)
    show "mDenominator (dat (fst result))
             = (if tName (peek (consume stream)) = ''sep''
                then fst (extractInteger (sizeof_int g)
                            (tCharacters (peek (consume (consume stream)))))
                else 1)"
      by (simp add: result_def setTypeCN_rational [OF ty] Let_def rational_values tk pc pcc)
    show "tokens (snd result)
             = (if tName (peek (consume stream)) = ''sep'' then tl (tl (tl (tokens stream)))
                else tl (tokens stream))"
      by (simp add: result_def setTypeCN_rational [OF ty] Let_def tk pc)
  }
  {
    assume a: "readInto (tAttributes element) ''type'' ''real'' = ''rational''
       \<and> tName (peek (consume stream)) = ''sep''
       \<and> textValue (tCharacters (peek (consume (consume stream)))) = Some v
       \<and> (v > SBML_INT_MAX \<or> v < SBML_INT_MIN)"
    then have ty: "readInto (tAttributes element) ''type'' ''real'' = ''rational''"
      and sep: "tName (peek (consume stream)) = ''sep''" by simp_all
    have d: "snd (extractInteger (sizeof_int g) (tCharacters (peek (consume (consume stream)))))
         \<or> (sizeof_int g > 4
             \<and> (fst (extractInteger (sizeof_int g)
                       (tCharacters (peek (consume (consume stream))))) > SBML_INT_MAX
                \<or> fst (extractInteger (sizeof_int g)
                       (tCharacters (peek (consume (consume stream))))) < SBML_INT_MIN))"
      using a out_of_range_detected [of "tCharacters (peek (consume (consume stream)))" v
          "sizeof_int g"] by simp
    show "errorLog (snd result) = logged @ [FailedMathMLReadOfRational]"
      using d sep by (auto simp add: result_def logged_def units_def
          setTypeCN_rational [OF ty] Let_def lg tk pc pcc)
    show "getType (fst result) = AST_RATIONAL"
      by (simp add: result_def setTypeCN_rational [OF ty] Let_def getType_setUnits
          getType_setValue_rational)
    show "mInteger (dat (fst result))
             = fst (extractInteger (sizeof_int g) (tCharacters (peek stream)))"
      by (simp add: result_def setTypeCN_rational [OF ty] Let_def rational_values tk)
    show "mDenominator (dat (fst result))
             = fst (extractInteger (sizeof_int g)
                      (tCharacters (peek (consume (consume stream)))))"
      using sep
      by (simp add: result_def setTypeCN_rational [OF ty] Let_def rational_values tk pc pcc)
    show "tokens (snd result) = tl (tl (tl (tokens stream)))"
      using sep by (simp add: result_def setTypeCN_rational [OF ty] Let_def tk pc)
  }
qed


theorem C9_out_of_range_witness:
  "textValue (tCharacters (peek (freshStream bigInteger))) = Some 2147483648
   \<and> errorLog (snd (setTypeCN plainGlobals newASTNode (startToken ''cn'' [(''type'', ''integer'')])
       (freshStream bigInteger))) = [FailedMathMLReadOfInteger]
   \<and> getType (fst (setTypeCN plainGlobals newASTNode (startToken ''cn'' [(''type'', ''integer'')])
       (freshStream bigInteger))) = AST_INTEGER
   \<and> mInteger (dat (fst (setTypeCN plainGlobals newASTNode
       (startToken ''cn'' [(''type'', ''integer'')]) (freshStream bigInteger)))) = 2147483647
   \<and> errorLog (snd (setTypeCN plainGlobals newASTNode
       (startToken ''cn'' [(''type'', ''rational'')]) (freshStream bigInteger)))
      = [FailedMathMLReadOfRational]
   \<and> mInteger (dat (fst (setTypeCN plainGlobals newASTNode
       (startToken ''cn'' [(''type'', ''rational'')]) (freshStream bigInteger)))) = 2147483647
   \<and> mDenominator (dat (fst (setTypeCN plainGlobals newASTNode
       (startToken ''cn'' [(''type'', ''rational'')]) (freshStream bigInteger)))) = 1
   \<and> textValue (tCharacters (peek (consume (consume (freshStream bigDenominator)))))
      = Some (- 2147483649)
   \<and> errorLog (snd (setTypeCN plainGlobals newASTNode
       (startToken ''cn'' [(''type'', ''rational'')]) (freshStream bigDenominator)))
      = [FailedMathMLReadOfRational]
   \<and> mInteger (dat (fst (setTypeCN plainGlobals newASTNode
       (startToken ''cn'' [(''type'', ''rational'')]) (freshStream bigDenominator)))) = 1
   \<and> mDenominator (dat (fst (setTypeCN plainGlobals newASTNode
       (startToken ''cn'' [(''type'', ''rational'')]) (freshStream bigDenominator))))
      = - 2147483648
   \<and> tokens (snd (setTypeCN plainGlobals newASTNode
       (startToken ''cn'' [(''type'', ''rational'')]) (freshStream bigDenominator)))
      = [endToken ''cn'']"
proof -
  let ?ei = "startToken ''cn'' [(''type'', ''integer'')]"
  let ?er = "startToken ''cn'' [(''type'', ''rational'')]"
  have ti: "readInto (tAttributes ?ei) ''type'' ''real'' = ''integer''"
    and tr: "readInto (tAttributes ?er) ''type'' ''real'' = ''rational''"
    and ui: "readInto (tAttributes ?ei) ''units'' [] = []"
    and ur: "readInto (tAttributes ?er) ''units'' [] = []"
    by (simp_all add: startToken_def readInto_def)
  have v: "isValidInternalUnitSId []" by (simp add: isValidInternalUnitSId_def)
  have p1: "tCharacters (peek (freshStream bigInteger)) = ''2147483648''"
    and p2: "tName (peek (consume (freshStream bigDenominator))) = ''sep''"
    and p3: "tCharacters (peek (consume (consume (freshStream bigDenominator))))
             = ''-2147483649''"
    and p4: "tl (tl (tl (tokens (freshStream bigDenominator)))) = [endToken ''cn'']"
    and p5: "errorLog (freshStream ts) = []" for ts
    by (simp_all add: freshStream_def bigInteger_def bigDenominator_def token_defs peek_def
        consume_def)
  have v1: "textValue ''2147483648'' = Some 2147483648"
    and v2: "textValue ''-2147483649'' = Some (- 2147483649)"
    by (simp_all add: textValue_def number_defs)
  have x: "extractInteger (sizeof_int plainGlobals) ''2147483648'' = (2147483647, True)"
    by (simp add: plainGlobals_def number_defs typeMax_def typeMin_def)
  have x1: "extractInteger (sizeof_int plainGlobals) ''1'' = (1, False)"
    and x2: "extractInteger (sizeof_int plainGlobals) ''-2147483649'' = (- 2147483648, True)"
    by (simp_all add: plainGlobals_def number_defs typeMax_def typeMin_def)
  have p6: "tName (peek (consume (freshStream bigInteger))) \<noteq> ''sep''"
    and p7: "tCharacters (peek (freshStream bigDenominator)) = ''1''"
    by (simp_all add: freshStream_def bigInteger_def bigDenominator_def token_defs peek_def
        consume_def)
  note i1 = C9_out_of_range [of ?ei "freshStream bigInteger" 2147483648 plainGlobals newASTNode,
      THEN conjunct1, rule_format]
  note i2 = C9_out_of_range [of ?er "freshStream bigInteger" 2147483648 plainGlobals newASTNode,
      THEN conjunct2, THEN conjunct1, rule_format]
  note i3 = C9_out_of_range [of ?er "freshStream bigDenominator" "- 2147483649" plainGlobals
      newASTNode, THEN conjunct2, THEN conjunct2, rule_format]
  have a1: "readInto (tAttributes ?ei) ''type'' ''real'' = ''integer''
       \<and> textValue (tCharacters (peek (freshStream bigInteger))) = Some 2147483648
       \<and> ((2147483648::int) > SBML_INT_MAX \<or> (2147483648::int) < SBML_INT_MIN)"
    by (simp add: ti p1 v1)
  have a2: "readInto (tAttributes ?er) ''type'' ''real'' = ''rational''
       \<and> textValue (tCharacters (peek (freshStream bigInteger))) = Some 2147483648
       \<and> ((2147483648::int) > SBML_INT_MAX \<or> (2147483648::int) < SBML_INT_MIN)"
    by (simp add: tr p1 v1)
  have a3: "readInto (tAttributes ?er) ''type'' ''real'' = ''rational''
       \<and> tName (peek (consume (freshStream bigDenominator))) = ''sep''
       \<and> textValue (tCharacters (peek (consume (consume (freshStream bigDenominator)))))
           = Some (- 2147483649)
       \<and> ((- 2147483649::int) > SBML_INT_MAX \<or> (- 2147483649::int) < SBML_INT_MIN)"
    by (simp add: tr p2 p3 v2)
  show ?thesis
    using i1 [OF a1] i2 [OF a2] i3 [OF a3]
    by (simp add: ui ur v p1 p2 p3 p4 p5 p6 p7 v1 v2 x x1 x2)
qed

section \<open>A number at the head of an apply\<close>

text \<open>
  In the static \<open>readMathML\<close>: when the element read is a start tag \<open>apply\<close> and the first
  child read into the node is a number, it logs \<open>BadMathML\<close> and returns at once: the node
  is the number alone, and the stream is the one left after that first child, with only
  the error added, so no further child of the \<open>apply\<close> is read.
\<close>

lemma readMathML_node_number_head:
  assumes "tName (peek (skipText stream)) = ''apply''"
    and "tIsStart (peek (skipText stream))" and "\<not> tIsEnd (peek (skipText stream))"
    and "readMathML_element node (peek (skipText stream)) (consume (skipText stream))
           reqd_prefix = (node1, stream2)"
    and "readMathML_node g fuel node1 (readMathML_applyNext stream2) reqd_prefix
           = Some (head, stream3)"
    and "isNumber head"
  shows "readMathML_node g (Suc fuel) node stream reqd_prefix
           = Some (head, logError BadMathML stream3)"
proof -
  have n: "\<not> isName head"
    using assms(6) by (auto simp add: isName_def isNumber_def isInteger_def isReal_def)
  have h: "readMathML_applyHead head stream3 = (True, head, logError BadMathML stream3)"
    using assms(6) n by (simp add: readMathML_applyHead_def Let_def)
  show ?thesis
    using assms(1-5) h by (simp add: readMathML_node.simps Let_def)
qed

lemma readMathML_node_number_head_applyNumber:
  "tName (peek (skipText (freshStream applyNumber))) = ''apply''
   \<and> tIsStart (peek (skipText (freshStream applyNumber)))
   \<and> \<not> tIsEnd (peek (skipText (freshStream applyNumber)))
   \<and> isNumber (setValue_double (Finite 5) newASTNode)
   \<and> readMathML_node plainGlobals (Suc 1) newASTNode (freshStream applyNumber) []
       = Some (setValue_double (Finite 5) newASTNode,
               logError BadMathML (freshStream (ciTokens ''x'' @ [endToken ''apply''])))"
proof -
  let ?s = "freshStream applyNumber"
  let ?rest = "[startToken ''cn'' [], textToken ''5'', endToken ''cn'']
     @ ciTokens ''x'' @ [endToken ''apply'']"
  have p: "peek (skipText ?s) = startToken ''apply'' []"
    and c: "consume (skipText ?s) = freshStream ?rest"
    by (simp_all add: applyNumber_def freshStream_def token_defs stream_defs)
  have a1: "tName (peek (skipText ?s)) = ''apply''" and a2: "tIsStart (peek (skipText ?s))"
    and a3: "\<not> tIsEnd (peek (skipText ?s))"
    by (simp_all add: p token_defs)
  have f: "util_bsearchStringsI MATHML_ELEMENTS ''apply'' < length MATHML_ELEMENTS"
    by (simp add: util_bsearchStringsI_def MATHML_ELEMENTS_def toLower_def)
  have a4: "readMathML_element newASTNode (peek (skipText ?s)) (consume (skipText ?s)) []
            = (newASTNode, freshStream ?rest)"
    by code_simp
  have a5: "readMathML_node plainGlobals 1 newASTNode
              (readMathML_applyNext (freshStream ?rest)) []
            = Some (setValue_double (Finite 5) newASTNode,
                    freshStream (ciTokens ''x'' @ [endToken ''apply'']))"
    by code_simp
  have a6: "isNumber (setValue_double (Finite 5) newASTNode)"
    by (simp add: node_defs)
  show ?thesis
    using a1 a2 a3 a6 readMathML_node_number_head [OF a1 a2 a3 a4 a5 a6] by blast
qed

text \<open>
  Claim C6. The exported \<open>readMathML\<close> has a branch of its own for an \<open>apply\<close> that is the
  first element of the stream: it consumes the start tag, reads the head with the static
  reader as an element of its own and skips past the end tag, with no test for a number.
  On \<open><apply><cn>5</cn><ci>x</ci></apply>\<close> nothing is logged and the node is the number 5,
  which \<open>readMathMLFromString\<close> answers; the static reader on the same tokens logs
  \<open>BadMathML\<close>.
\<close>

theorem C6_first_apply_accepts_number:
  "readMathML plainGlobals (freshStream applyNumber) []
     = (setValue_double (Finite 5) newASTNode, freshStream [])
   \<and> readMathMLFromString (parsedAs applyNumber) (Some applyNumberText)
     = Some (setValue_double (Finite 5) newASTNode)
   \<and> readMathML_node plainGlobals 2 newASTNode (freshStream applyNumber) []
     = Some (setValue_double (Finite 5) newASTNode,
             logError BadMathML (freshStream (ciTokens ''x'' @ [endToken ''apply''])))"
  by code_simp

section \<open>The default argument of log and root\<close>

lemma defaultArgument:
  "setUnits ''dimensionless'' (setValue_int k newASTNode)
   = ASTNode ((dat newASTNode)\<lparr>mType := AST_INTEGER, mInteger := k,
                                mUnits := ''dimensionless''\<rparr>) []"
proof -
  have v: "isValidInternalUnitSId ''dimensionless''"
    by (simp add: isValidInternalUnitSId_def isLetter_def isDigit_def)
  show ?thesis
    using v by (simp add: setUnits_def setValue_int_def setType_def newASTNode_def upd_def
        getType_def isNumber_def isInteger_def isReal_def isOperator_def)
qed

text \<open>
  Claim C3. At the end of \<open>readMathML\<close>, a node of type log or root that holds exactly
  one child gets a new first child: an integer node, 10 for log and 2 for root, with the
  units \<open>dimensionless\<close> and no children of its own. The node then has two children, the
  new one first.
\<close>

theorem C3_default_argument:
  assumes "mChildren node = [c]"
    and "getType node = AST_FUNCTION_LOG \<or> getType node = AST_FUNCTION_ROOT"
  shows "\<exists>dflt. fst (readMathML_finish elem node stream) = checkFunctionArgs node
           \<and> checkFunctionArgs node = ASTNode (dat node) [dflt, c]
           \<and> getType dflt = AST_INTEGER
           \<and> mInteger (dat dflt) = (if getType node = AST_FUNCTION_LOG then 10 else 2)
           \<and> getUnits dflt = ''dimensionless''
           \<and> mChildren dflt = []"
proof -
  have f: "fst (readMathML_finish elem node stream) = checkFunctionArgs node"
    by (simp add: readMathML_finish_def Let_def)
  show ?thesis
    using assms f
    by (cases node)
      (auto simp add: checkFunctionArgs_def defaultArgument getNumChildren_def prependChild_def
        getType_def getUnits_def)
qed

theorem C3_default_argument_witness:
  "mChildren logX = [nameNode ''x''] \<and> getType logX = AST_FUNCTION_LOG
   \<and> mChildren rootA = [nameNode ''a''] \<and> getType rootA = AST_FUNCTION_ROOT
   \<and> (\<exists>dflt. checkFunctionArgs logX = ASTNode (dat logX) [dflt, nameNode ''x'']
          \<and> getType dflt = AST_INTEGER \<and> mInteger (dat dflt) = 10
          \<and> getUnits dflt = ''dimensionless'' \<and> mChildren dflt = [])
   \<and> (\<exists>dflt. checkFunctionArgs rootA = ASTNode (dat rootA) [dflt, nameNode ''a'']
          \<and> getType dflt = AST_INTEGER \<and> mInteger (dat dflt) = 2
          \<and> getUnits dflt = ''dimensionless'' \<and> mChildren dflt = [])
   \<and> readMathML_node plainGlobals 3 newASTNode
        (freshStream (applyTokens ''log'' (ciTokens ''x''))) []
      = Some (checkFunctionArgs logX, freshStream [])
   \<and> readMathML_node plainGlobals 3 newASTNode
        (freshStream (applyTokens ''root'' (ciTokens ''a''))) []
      = Some (checkFunctionArgs rootA, freshStream [])"
proof -
  have l: "mChildren logX = [nameNode ''x'']" and lt: "getType logX = AST_FUNCTION_LOG"
    and r: "mChildren rootA = [nameNode ''a'']" and rt: "getType rootA = AST_FUNCTION_ROOT"
    by (simp_all add: logX_def rootA_def typedNode_def setType_def getType_def newASTNode_def
        upd_def isOperator_def isNumber_def isInteger_def isReal_def)
  have rl: "readMathML_node plainGlobals 3 newASTNode
        (freshStream (applyTokens ''log'' (ciTokens ''x''))) []
      = Some (checkFunctionArgs logX, freshStream [])"
    by code_simp
  have rr: "readMathML_node plainGlobals 3 newASTNode
        (freshStream (applyTokens ''root'' (ciTokens ''a''))) []
      = Some (checkFunctionArgs rootA, freshStream [])"
    by code_simp
  have il: "\<exists>dflt. checkFunctionArgs logX = ASTNode (dat logX) [dflt, nameNode ''x'']
          \<and> getType dflt = AST_INTEGER \<and> mInteger (dat dflt) = 10
          \<and> getUnits dflt = ''dimensionless'' \<and> mChildren dflt = []"
    using C3_default_argument [OF l, of "endToken ''apply''" "freshStream []"] lt by auto
  have ir: "\<exists>dflt. checkFunctionArgs rootA = ASTNode (dat rootA) [dflt, nameNode ''a'']
          \<and> getType dflt = AST_INTEGER \<and> mInteger (dat dflt) = 2
          \<and> getUnits dflt = ''dimensionless'' \<and> mChildren dflt = []"
    using C3_default_argument [OF r, of "endToken ''apply''" "freshStream []"] rt by auto
  show ?thesis
    using l lt r rt il ir rl rr by blast
qed

section \<open>The kind of a csymbol\<close>

lemma setTypeCI_csymbol:
  assumes "tName element = ''csymbol''"
  shows "setTypeCI g node element stream =
     (let url = readInto (tAttributes element) ''definitionURL'' [];
          type = registry_getType g url;
          name = trim (tCharacters (peek stream))
      in if sbmlNamespaces stream = None \<and> type = AST_UNKNOWN then
           (setName name (setDefinitionURL_string url (setType AST_CSYMBOL_FUNCTION node)),
            consume stream)
         else if type = AST_UNKNOWN \<or> \<not> isValidCSymbol (sbmlNamespaces stream) type then
           (setName name node, consume (logError BadCsymbolDefinitionURLValue stream))
         else
           (setName name (if type = AST_CSYMBOL_FUNCTION \<or> type > AST_UNKNOWN
                          then setDefinitionURL_string url (setType type node)
                          else setType type node), consume stream))"
  using assms by (simp add: setTypeCI_def Let_def peek_def logError_def)

lemma getType_setType: "getType (setType t n) = t"
  by (simp add: setType_def getType_def upd_def Let_def)

lemma getType_setDefinitionURL_string: "getType (setDefinitionURL_string u n) = getType n"
  by (simp add: setDefinitionURL_string_def getType_def upd_def)

lemma getType_setName:
  "AST_NAME \<le> getType n \<Longrightarrow> getType n \<noteq> AST_UNKNOWN \<Longrightarrow> getType (setName x n) = getType n"
  by (auto simp add: setName_def unsetUnits_def getType_def upd_def Let_def isOperator_def
      isNumber_def isInteger_def isReal_def isUnknown_def)

lemma getName_setName: "getName (setName x n) = Some x"
  by (simp add: setName_def getName_def upd_def Let_def)

lemma getDefinitionURLString_setName:
  "getDefinitionURLString (setName x n) = getDefinitionURLString n"
  by (simp add: setName_def unsetUnits_def getDefinitionURLString_def upd_def Let_def)

lemma getDefinitionURLString_set:
  "getDefinitionURLString (setDefinitionURL_string u n) = u"
  by (simp add: setDefinitionURL_string_def getDefinitionURLString_def upd_def readInto_def)

lemma errorLog_consume: "errorLog (consume s) = errorLog s"
  by (simp add: consume_def)

text \<open>
  Claim C4. For a \<open>csymbol\<close> element, with the kind the registry gives for its definition
  URL: a known kind that is valid for the level of the stream becomes the type of the
  node, the trimmed text that follows becomes its name, and nothing is logged (so the
  time URL gives a node of type \<open>AST_NAME_TIME\<close> named by its text); an unknown URL on a
  stream with a namespace context logs \<open>BadCsymbolDefinitionURLValue\<close>; an unknown URL on
  a stream without one gives a node of type \<open>AST_CSYMBOL_FUNCTION\<close> that keeps the URL
  as its definition URL, and nothing is logged.
\<close>

theorem C4_csymbol:
  assumes "tName element = ''csymbol''"
  shows
   "(registry_getType g (readInto (tAttributes element) ''definitionURL'' []) = t
      \<and> t \<noteq> AST_UNKNOWN \<and> isValidCSymbol (sbmlNamespaces stream) t \<and> AST_NAME \<le> t
     \<longrightarrow> getType (fst (setTypeCI g node element stream)) = t
         \<and> getName (fst (setTypeCI g node element stream))
             = Some (trim (tCharacters (peek stream)))
         \<and> errorLog (snd (setTypeCI g node element stream)) = errorLog stream)
  \<and> (registry_getType g (readInto (tAttributes element) ''definitionURL'' []) = AST_UNKNOWN
      \<and> sbmlNamespaces stream \<noteq> None
     \<longrightarrow> errorLog (snd (setTypeCI g node element stream))
           = errorLog stream @ [BadCsymbolDefinitionURLValue])
  \<and> (registry_getType g (readInto (tAttributes element) ''definitionURL'' []) = AST_UNKNOWN
      \<and> sbmlNamespaces stream = None
     \<longrightarrow> getType (fst (setTypeCI g node element stream)) = AST_CSYMBOL_FUNCTION
         \<and> getDefinitionURLString (fst (setTypeCI g node element stream))
             = readInto (tAttributes element) ''definitionURL'' []
         \<and> errorLog (snd (setTypeCI g node element stream)) = errorLog stream)"
proof (intro conjI impI)
  note s = setTypeCI_csymbol [OF assms]
  {
    assume a: "registry_getType g (readInto (tAttributes element) ''definitionURL'' []) = t
      \<and> t \<noteq> AST_UNKNOWN \<and> isValidCSymbol (sbmlNamespaces stream) t \<and> AST_NAME \<le> t"
    show "getType (fst (setTypeCI g node element stream)) = t"
      using a by (simp add: s Let_def getType_setName getType_setType
          getType_setDefinitionURL_string)
    show "getName (fst (setTypeCI g node element stream))
             = Some (trim (tCharacters (peek stream)))"
      using a by (simp add: s Let_def getName_setName)
    show "errorLog (snd (setTypeCI g node element stream)) = errorLog stream"
      using a by (simp add: s Let_def errorLog_consume)
  }
  {
    assume a: "registry_getType g (readInto (tAttributes element) ''definitionURL'' [])
        = AST_UNKNOWN \<and> sbmlNamespaces stream \<noteq> None"
    show "errorLog (snd (setTypeCI g node element stream))
           = errorLog stream @ [BadCsymbolDefinitionURLValue]"
      using a by (simp add: s Let_def errorLog_consume logError_def)
  }
  {
    assume a: "registry_getType g (readInto (tAttributes element) ''definitionURL'' [])
        = AST_UNKNOWN \<and> sbmlNamespaces stream = None"
    show "getType (fst (setTypeCI g node element stream)) = AST_CSYMBOL_FUNCTION"
      using a by (simp add: s Let_def getType_setName getType_setType
          getType_setDefinitionURL_string)
    show "getDefinitionURLString (fst (setTypeCI g node element stream))
             = readInto (tAttributes element) ''definitionURL'' []"
      using a by (simp add: s Let_def getDefinitionURLString_setName
          getDefinitionURLString_set)
    show "errorLog (snd (setTypeCI g node element stream)) = errorLog stream"
      using a by (simp add: s Let_def errorLog_consume)
  }
qed

theorem C4_csymbol_witness:
  "tName (startToken ''csymbol'' [(''encoding'', ''text''), (''definitionURL'', URL_TIME)])
     = ''csymbol''
   \<and> registry_getType coreGlobals URL_TIME = AST_NAME_TIME
   \<and> isValidCSymbol None AST_NAME_TIME
   \<and> getType (fst (setTypeCI coreGlobals newASTNode
         (startToken ''csymbol'' [(''encoding'', ''text''), (''definitionURL'', URL_TIME)])
         (freshStream [textToken '' t '', endToken ''csymbol'']))) = AST_NAME_TIME
   \<and> getName (fst (setTypeCI coreGlobals newASTNode
         (startToken ''csymbol'' [(''encoding'', ''text''), (''definitionURL'', URL_TIME)])
         (freshStream [textToken '' t '', endToken ''csymbol'']))) = Some ''t''
   \<and> errorLog (snd (setTypeCI coreGlobals newASTNode
         (startToken ''csymbol'' [(''encoding'', ''text''), (''definitionURL'', URL_TIME)])
         (freshStream [textToken '' t '', endToken ''csymbol'']))) = []
   \<and> registry_getType coreGlobals ''http://example.org/f'' = AST_UNKNOWN
   \<and> errorLog (snd (setTypeCI coreGlobals newASTNode
         (startToken ''csymbol'' [(''encoding'', ''text''),
            (''definitionURL'', ''http://example.org/f'')])
         ((freshStream [textToken ''f'', endToken ''csymbol''])
            \<lparr>sbmlNamespaces := Some \<lparr>nsLevel = 3, nsVersion = 1\<rparr>\<rparr>)))
       = [BadCsymbolDefinitionURLValue]
   \<and> getType (fst (setTypeCI coreGlobals newASTNode
         (startToken ''csymbol'' [(''encoding'', ''text''),
            (''definitionURL'', ''http://example.org/f'')])
         (freshStream [textToken ''f'', endToken ''csymbol'']))) = AST_CSYMBOL_FUNCTION
   \<and> getDefinitionURLString (fst (setTypeCI coreGlobals newASTNode
         (startToken ''csymbol'' [(''encoding'', ''text''),
            (''definitionURL'', ''http://example.org/f'')])
         (freshStream [textToken ''f'', endToken ''csymbol''])))
       = ''http://example.org/f''
   \<and> errorLog (snd (setTypeCI coreGlobals newASTNode
         (startToken ''csymbol'' [(''encoding'', ''text''),
            (''definitionURL'', ''http://example.org/f'')])
         (freshStream [textToken ''f'', endToken ''csymbol'']))) = []"
proof -
  let ?time = "startToken ''csymbol'' [(''encoding'', ''text''), (''definitionURL'', URL_TIME)]"
  let ?other = "startToken ''csymbol'' [(''encoding'', ''text''),
            (''definitionURL'', ''http://example.org/f'')]"
  let ?s = "freshStream [textToken '' t '', endToken ''csymbol'']"
  let ?f = "freshStream [textToken ''f'', endToken ''csymbol'']"
  let ?l3 = "?f\<lparr>sbmlNamespaces := Some \<lparr>nsLevel = 3, nsVersion = 1\<rparr>\<rparr>"
  have n: "tName ?time = ''csymbol''" "tName ?other = ''csymbol''"
    by (simp_all add: startToken_def)
  have u: "readInto (tAttributes ?time) ''definitionURL'' [] = URL_TIME"
    "readInto (tAttributes ?other) ''definitionURL'' [] = ''http://example.org/f''"
    by (simp_all add: startToken_def readInto_def)
  have k: "registry_getType coreGlobals URL_TIME = AST_NAME_TIME"
    "registry_getType coreGlobals ''http://example.org/f'' = AST_UNKNOWN"
    by (simp_all add: registry_getType_def coreGlobals_def setSBMLDefinitionURLs_def
        plainGlobals_def sbmlDefinitions_def URL_TIME_def URL_DELAY_def URL_AVOGADRO_def)
  have v: "isValidCSymbol None AST_NAME_TIME"
    by (simp add: isValidCSymbol_def)
  have p: "trim (tCharacters (peek ?s)) = ''t''"
    by (simp add: freshStream_def peek_def textToken_def trim_def isSpace_def)
  have e: "errorLog ?s = []" "errorLog ?f = []" "errorLog ?l3 = []"
    "sbmlNamespaces ?s = None" "sbmlNamespaces ?f = None" "sbmlNamespaces ?l3 \<noteq> None"
    by (simp_all add: freshStream_def)
  note i1 = C4_csymbol [OF n(1), of coreGlobals AST_NAME_TIME ?s newASTNode,
      THEN conjunct1, rule_format]
  note i2 = C4_csymbol [OF n(2), of coreGlobals AST_NAME_TIME ?l3 newASTNode,
      THEN conjunct2, THEN conjunct1, rule_format]
  note i3 = C4_csymbol [OF n(2), of coreGlobals AST_NAME_TIME ?f newASTNode,
      THEN conjunct2, THEN conjunct2, rule_format]
  have a1: "registry_getType coreGlobals (readInto (tAttributes ?time) ''definitionURL'' [])
       = AST_NAME_TIME \<and> AST_NAME_TIME \<noteq> AST_UNKNOWN
       \<and> isValidCSymbol (sbmlNamespaces ?s) AST_NAME_TIME \<and> AST_NAME \<le> AST_NAME_TIME"
    using v by (simp add: u k e)
  have a2: "registry_getType coreGlobals (readInto (tAttributes ?other) ''definitionURL'' [])
       = AST_UNKNOWN \<and> sbmlNamespaces ?l3 \<noteq> None"
    using e(6) by (simp add: u k)
  have a3: "registry_getType coreGlobals (readInto (tAttributes ?other) ''definitionURL'' [])
       = AST_UNKNOWN \<and> sbmlNamespaces ?f = None"
    by (simp add: u k e)
  show ?thesis
    using n(1) k v i1 [OF a1] i2 [OF a2] i3 [OF a3]
    by (simp add: u p e)
qed

section \<open>What the entry point gives up\<close>

text \<open>
  Claim C2. \<open>readMathMLFromString\<close> gives up the tree when the log holds errors and none
  of them is number 10218; it does not look for an error that is not number 10218. On the
  text of \<open>onePiece\<close> the reader logs the failed read of the integer (number 99221) and
  then the wrong number of children of the \<open>piece\<close> (number 10218), and both entry points
  answer the tree although the log holds an error other than 10218.
\<close>

theorem C2_tolerated_code_hides_errors:
  "map errorId (errorLog (snd (readMathML (parsedAs onePiece) (freshStream onePiece) [])))
     = [99221, 10218]
   \<and> readMathMLFromString (parsedAs onePiece) (Some onePieceText)
     = Some (typedNode AST_FUNCTION_PIECEWISE [setValue_int 0 newASTNode])
   \<and> readMathMLFromStringWithNamespaces (parsedAs onePiece) (Some onePieceText)
     = Some (typedNode AST_FUNCTION_PIECEWISE [setValue_int 0 newASTNode])"
  by code_simp

section \<open>Plus and times with more than two children\<close>

lemma mType_setType: "mType (dat (setType t n)) = t"
  by (simp add: setType_def getType_def upd_def Let_def)

lemma mChildren_setType: "mChildren (setType t n) = mChildren n"
  by (simp add: setType_def upd_def Let_def)

lemma typedNode_facts:
  "getType (typedNode t cs) = t" "mChildren (typedNode t cs) = cs"
  by (simp_all add: typedNode_def getType_def mType_setType)

lemma setType_newASTNode: "setType t newASTNode = typedNode t []"
  using mChildren_setType [of t newASTNode]
  by (cases "setType t newASTNode") (simp add: typedNode_def newASTNode_def)

lemma typedNode_dat: "ASTNode (dat (typedNode t [])) cs = typedNode t cs"
  by (simp add: typedNode_def)

lemma addOperand_facts:
  "dat (addOperand node c) = dat node"
  "getType (addOperand node c) = getType node"
  by (simp_all add: addOperand_def addChild_def reduceBinary_def prependChild_def Let_def
      getType_def)

lemma getType_foldl_addOperand: "getType (foldl addOperand acc cs) = getType acc"
  by (induction cs arbitrary: acc) (simp_all add: addOperand_facts)

lemma dat_foldl_addOperand: "dat (foldl addOperand acc cs) = dat acc"
  by (induction cs arbitrary: acc) (simp_all add: addOperand_facts)

lemma addOperand_typedNode:
  "addOperand (typedNode t []) c = typedNode t [c]"
  "addOperand (typedNode t [c1]) c = typedNode t [c1, c]"
  "addOperand (typedNode t [c1, c2]) c = typedNode t [typedNode t [c1, c2], c]"
  by (simp_all add: addOperand_def addChild_def reduceBinary_def prependChild_def Let_def
      getNumChildren_def typedNode_def getType_def mType_setType)

lemma leftChain_snoc:
  "2 \<le> length cs \<Longrightarrow> leftChain t (cs @ [c]) = typedNode t [leftChain t cs, c]"
  by (simp add: leftChain_def)

lemma leftChain_two: "leftChain t [c1, c2] = typedNode t [c1, c2]"
  by (simp add: leftChain_def)

lemma leftChain_children:
  assumes "t = AST_PLUS \<or> t = AST_TIMES" and "2 \<le> length cs"
  shows "length (mChildren (leftChain t cs)) = 2"
  using assms(2)
proof (induction cs rule: rev_induct)
  case Nil
  then show ?case by simp
next
  case (snoc c cs)
  show ?case
  proof (cases "2 \<le> length cs")
    case True
    then show ?thesis by (simp add: leftChain_snoc typedNode_facts)
  next
    case False
    with snoc.prems have "length cs = 1" by simp
    then obtain c1 where "cs = [c1]" by (cases cs) auto
    then show ?thesis by (simp add: leftChain_two typedNode_facts)
  qed
qed

lemma foldl_addOperand_leftChain:
  assumes "t = AST_PLUS \<or> t = AST_TIMES" and "2 \<le> length cs"
  shows "foldl addOperand (typedNode t []) cs = leftChain t cs"
  using assms(2)
proof (induction cs rule: rev_induct)
  case Nil
  then show ?case by simp
next
  case (snoc c cs)
  show ?case
  proof (cases "2 \<le> length cs")
    case True
    have two: "length (mChildren (leftChain t cs)) = 2"
      by (rule leftChain_children [OF assms(1) True])
    then obtain a b where ab: "mChildren (leftChain t cs) = [a, b]"
      by (cases "mChildren (leftChain t cs)") (auto simp add: length_Suc_conv)
    have d: "dat (leftChain t cs) = dat (typedNode t [])"
      using snoc.IH [OF True] dat_foldl_addOperand [of "typedNode t []" cs] by simp
    have l: "leftChain t cs = typedNode t [a, b]"
      using ab d typedNode_dat [of t "[a, b]"]
      by (cases "leftChain t cs") simp
    show ?thesis
      using snoc.IH [OF True] True
      by (simp add: leftChain_snoc) (simp add: l addOperand_typedNode)
  next
    case False
    with snoc.prems have "length cs = 1" by simp
    then obtain c1 where "cs = [c1]" by (cases cs) auto
    then show ?thesis
      by (simp add: leftChain_two addOperand_typedNode)
  qed
qed

lemma startsElement_append: "startsElement ts \<Longrightarrow> startsElement (ts @ us)"
  by (cases ts) (simp_all add: startsElement_def)

lemma startsElement_operands:
  assumes "list_all2 (readsBack g sns k) tss cs"
  shows "startsElement (concat tss @ endToken ''apply'' # rest)"
proof (cases tss)
  case Nil
  then show ?thesis by (simp add: startsElement_def endToken_def)
next
  case (Cons ts tss')
  then obtain c cs' where "cs = c # cs'" and "readsBack g sns k ts c"
    using assms by (auto simp add: list_all2_Cons1)
  then have "startsElement ts" by (simp add: readsBack_def)
  then show ?thesis using Cons by (simp add: startsElement_append)
qed

lemma skipText_startsElement:
  "startsElement ts \<Longrightarrow>
   skipText \<lparr>tokens = ts, errorLog = elog, sbmlNamespaces = sns\<rparr>
     = \<lparr>tokens = ts, errorLog = elog, sbmlNamespaces = sns\<rparr>"
  by (cases ts) (simp_all add: startsElement_def skipText_def isWhiteSpaceText_def)

lemma afterChild_operand:
  assumes "startsElement ts" and "tName elem = ''apply''"
  shows "readMathML_afterChild elem node c True
           \<lparr>tokens = ts, errorLog = elog, sbmlNamespaces = sns\<rparr>
         = (False, addChild c node, \<lparr>tokens = ts, errorLog = elog, sbmlNamespaces = sns\<rparr>)"
proof -
  obtain t ts' where ts: "ts = t # ts'" using assms(1) by (cases ts) (auto simp add: startsElement_def)
  have n: "tName t \<noteq> ''math''" "tName t \<noteq> ''piece''" "tName t \<noteq> ''otherwise''"
    using assms(1) by (simp_all add: ts startsElement_def)
  show ?thesis
    using n assms(2)
    by (simp add: readMathML_afterChild_def skipText_startsElement [OF assms(1)] Let_def
        logIf_def) (simp add: ts peek_def)
qed

lemma readChildren_operands:
  assumes "list_all2 (readsBack g sns k) tss cs"
    and "getType acc = AST_PLUS \<or> getType acc = AST_TIMES"
    and "tName elem = ''apply''" and "tIsStart elem"
    and "k + length cs + 1 \<le> fuel"
  shows "readChildren g fuel elem acc
           \<lparr>tokens = concat tss @ endToken ''apply'' # rest, errorLog = elog,
              sbmlNamespaces = sns\<rparr> []
         = Some (foldl addOperand acc cs,
                 \<lparr>tokens = endToken ''apply'' # rest, errorLog = elog, sbmlNamespaces = sns\<rparr>)"
  using assms(1,2,5)
proof (induction tss cs arbitrary: acc fuel rule: list_all2_induct)
  case Nil
  then obtain f where f: "fuel = Suc f" by (cases fuel) auto
  show ?case
    using assms(3,4)
    by (simp add: f readChildren.simps isGood_def peek_def isEndFor_def endToken_def)
next
  case (Cons ts tss c cs)
  let ?R = "concat tss @ endToken ''apply'' # rest"
  let ?S = "\<lparr>tokens = ts @ ?R, errorLog = elog, sbmlNamespaces = sns\<rparr>"
  let ?SR = "\<lparr>tokens = ?R, errorLog = elog, sbmlNamespaces = sns\<rparr>"
  from Cons.prems obtain f where f: "fuel = Suc f" and fk: "k \<le> f"
    and fr: "k + length cs + 1 \<le> f" by (cases fuel) auto
  have se: "startsElement ts" and st: "tIsStart (hd ts)"
    using Cons.hyps(1) by (simp_all add: readsBack_def)
  obtain t ts' where ts: "ts = t # ts'" using se by (cases ts) (auto simp add: startsElement_def)
  have g1: "isGood ?S" by (simp add: isGood_def ts)
  have pk: "peek ?S = t" by (simp add: peek_def ts)
  have e1: "\<not> isEndFor t elem" using st by (simp add: isEndFor_def ts)
  have m: "tName t \<noteq> ''math''" using se by (simp add: ts startsElement_def)
  have sk: "skipText ?S = ?S"
    using skipText_startsElement [OF startsElement_append [OF se], of ?R elog sns] by simp
  have rd: "readMathML_node g f newASTNode ?S [] = Some (c, ?SR)"
    using Cons.hyps(1) fk by (simp add: readsBack_def)
  have af: "readMathML_afterChild elem (reduceBinary acc) c True ?SR
            = (False, addOperand acc c, ?SR)"
    using afterChild_operand [OF startsElement_operands [OF Cons.hyps(2)] assms(3)]
    by (simp add: addOperand_def)
  have ty: "getType (addOperand acc c) = AST_PLUS \<or> getType (addOperand acc c) = AST_TIMES"
    using Cons.prems(1) by (simp add: addOperand_facts)
  have ih: "readChildren g f elem (addOperand acc c) ?SR []
            = Some (foldl addOperand (addOperand acc c) cs,
                 \<lparr>tokens = endToken ''apply'' # rest, errorLog = elog, sbmlNamespaces = sns\<rparr>)"
    by (rule Cons.IH [OF ty fr])
  have "readChildren g (Suc f) elem acc ?S [] = readChildren g f elem (addOperand acc c) ?SR []"
    using Cons.prems(1) g1 e1 m
    by (subst readChildren.simps) (auto simp add: pk sk Let_def logIf_def rd af)
  then show ?case by (simp add: f ih)
qed

lemma readMathML_element_plain:
  assumes "tAttributes e = []"
    and "util_bsearchStringsI MATHML_ELEMENTS (tName e) < length MATHML_ELEMENTS"
  shows "readMathML_element node e stream [] = (node, stream)"
  using assms by (simp add: readMathML_element_def Let_def logIf_def readInto_def)

lemma index_plus: "util_bsearchStringsI MATHML_ELEMENTS ''plus'' = 55"
  by code_simp

lemma index_times: "util_bsearchStringsI MATHML_ELEMENTS ''times'' = 66"
  by code_simp

lemma type_plus: "MATHML_TYPES ! 55 = AST_PLUS"
  by code_simp

lemma type_times: "MATHML_TYPES ! 66 = AST_TIMES"
  by code_simp

lemma length_elements: "length MATHML_ELEMENTS = 69"
  by code_simp

lemma found_apply: "util_bsearchStringsI MATHML_ELEMENTS ''apply'' < length MATHML_ELEMENTS"
  by code_simp

lemma found_operator:
  assumes "t = AST_PLUS \<or> t = AST_TIMES"
  shows "util_bsearchStringsI MATHML_ELEMENTS (operatorName t) < length MATHML_ELEMENTS"
    and "MATHML_TYPES ! util_bsearchStringsI MATHML_ELEMENTS (operatorName t) = t"
  using assms
  by (auto simp add: operatorName_def index_plus index_times type_plus type_times
      length_elements)

lemma operatorName_other:
  assumes "t = AST_PLUS \<or> t = AST_TIMES"
  shows "operatorName t \<noteq> ''math''" "operatorName t \<noteq> ''apply''"
    "operatorName t \<noteq> ''lambda''" "operatorName t \<noteq> ''piecewise''"
    "operatorName t \<noteq> ''bvar''" "operatorName t \<noteq> ''degree''"
    "operatorName t \<noteq> ''logbase''" "operatorName t \<noteq> ''piece''"
    "operatorName t \<noteq> ''otherwise''" "operatorName t \<noteq> ''semantics''"
    "operatorName t \<noteq> ''ci''" "operatorName t \<noteq> ''csymbol''"
    "operatorName t \<noteq> ''cn''" "operatorName t \<noteq> ''notanumber''"
    "operatorName t \<noteq> ''infinity''"
  using assms by (auto simp add: operatorName_def)

lemma closedOutput_attributes:
  assumes "closedOutput out"
  shows "dropAttributes (out @ b) = dropAttributes out @ b
       \<and> takeAttributes (out @ b) = takeAttributes out
       \<and> closedOutput (dropAttributes out)"
  using assms
proof (induction out rule: dropAttributes.induct)
  case (1 n v out)
  then have "closedOutput out"
    by (cases out) (auto simp add: closedOutput_def)
  with 1 show ?case by simp
qed (simp_all add: closedOutput_def)

lemma closedOutput_tl:
  "closedOutput (x # out) \<Longrightarrow> out = [] \<or> closedOutput out"
  by (cases out) (auto simp add: closedOutput_def)

lemma tokensOf_append:
  assumes "a = [] \<or> closedOutput a"
  shows "tokensOf (a @ b) = tokensOf a @ tokensOf b"
  using assms
proof (induction "length a" arbitrary: a rule: less_induct)
  case less
  show ?case
  proof (cases a)
    case Nil
    then show ?thesis by simp
  next
    case (Cons x out)
    then have ca: "closedOutput (x # out)" using less.prems by simp
    note tl = closedOutput_tl [OF ca]
    have ih: "tokensOf (out @ b) = tokensOf out @ tokensOf b"
      using less.hyps [of out] tl Cons by auto
    show ?thesis
    proof (cases x)
      case (StartElement n)
      have c: "closedOutput out"
        using ca tl by (auto simp add: closedOutput_def StartElement)
      note at = closedOutput_attributes [OF c, of b]
      obtain y rest where d: "dropAttributes out = y # rest"
        using at by (cases "dropAttributes out") (auto simp add: closedOutput_def)
      have cd: "closedOutput (y # rest)" using at d by simp
      have l: "length (y # rest) \<le> length out"
        using dropAttributes_length [of out] d by simp
      have i1: "tokensOf (rest @ b) = tokensOf rest @ tokensOf b"
        using less.hyps [of rest] closedOutput_tl [OF cd] l Cons by auto
      have i2: "tokensOf ((y # rest) @ b) = tokensOf (y # rest) @ tokensOf b"
        using less.hyps [of "y # rest"] cd l Cons by auto
      show ?thesis
        using at i1 i2
        by (cases y) (simp_all add: Cons StartElement d)
    next
      case (EndElement n)
      then show ?thesis using ih by (simp add: Cons)
    next
      case (StartEndElement n)
      have c: "closedOutput out"
        using ca tl by (auto simp add: closedOutput_def StartEndElement)
      note at = closedOutput_attributes [OF c, of b]
      have "tokensOf (dropAttributes out @ b) = tokensOf (dropAttributes out) @ tokensOf b"
        using less.hyps [of "dropAttributes out"] at dropAttributes_length [of out] Cons
        by auto
      then show ?thesis using at by (simp add: Cons StartEndElement)
    next
      case (WriteAttribute n v)
      then show ?thesis using ih by (simp add: Cons)
    next
      case (WriteText t)
      then show ?thesis using ih by (simp add: Cons)
    next
      case (WriteXMLNode ts)
      then show ?thesis using ih by (simp add: Cons)
    qed
  qed
qed

lemma tokensOf_concat:
  assumes "\<forall>out\<in>set outs. closedOutput out"
  shows "tokensOf (concat outs @ b) = concat (map tokensOf outs) @ tokensOf b"
  using assms by (induction outs) (simp_all add: tokensOf_append)

lemma dat_typedNode:
  assumes "t = AST_PLUS \<or> t = AST_TIMES"
  shows "dat (typedNode t cs) = (dat newASTNode)\<lparr>mType := t\<rparr>"
  using assms
  by (auto simp add: typedNode_def setType_def getType_def newASTNode_def upd_def
      isOperator_def isNumber_def isInteger_def isReal_def)

lemma seqOut_map_Some:
  assumes "\<forall>c\<in>set cs. w c \<noteq> None"
  shows "seqOut (map w cs) = Some (concat (map (\<lambda>c. the (w c)) cs))"
  using assms by (induction cs) auto

lemma getType_leftChain:
  assumes "t = AST_PLUS \<or> t = AST_TIMES" and "2 \<le> length cs"
  shows "getType (leftChain t cs) = t"
  using foldl_addOperand_leftChain [OF assms] getType_foldl_addOperand [of "typedNode t []" cs]
  by (simp add: typedNode_facts)

lemma found_ci: "util_bsearchStringsI MATHML_ELEMENTS ''ci'' < length MATHML_ELEMENTS"
  by code_simp

lemma readMathML_node_ci:
  "readMathML_node g (Suc f) newASTNode
     \<lparr>tokens = startToken ''ci'' [] # textToken s # endToken ''ci'' # rest, errorLog = elog,
        sbmlNamespaces = sns\<rparr> []
   = Some (nameNode (trim s), \<lparr>tokens = rest, errorLog = elog, sbmlNamespaces = sns\<rparr>)"
proof -
  define e where "e = startToken ''ci'' []"
  let ?T = "textToken s # endToken ''ci'' # rest"
  let ?S = "\<lparr>tokens = e # ?T, errorLog = elog, sbmlNamespaces = sns\<rparr>"
  let ?S1 = "\<lparr>tokens = ?T, errorLog = elog, sbmlNamespaces = sns\<rparr>"
  let ?S2 = "\<lparr>tokens = endToken ''ci'' # rest, errorLog = elog, sbmlNamespaces = sns\<rparr>"
  let ?S3 = "\<lparr>tokens = rest, errorLog = elog, sbmlNamespaces = sns\<rparr>"
  have e: "tName e = ''ci''" "tIsStart e" "\<not> tIsEnd e" "\<not> tIsText e" "tAttributes e = []"
    by (simp_all add: e_def startToken_def)
  have sk: "skipText ?S = ?S" by (simp add: skipText_def isWhiteSpaceText_def e)
  have pk: "peek ?S = e" by (simp add: peek_def)
  have cs: "consume ?S = ?S1" by (simp add: consume_def)
  have el: "readMathML_element newASTNode e ?S1 [] = (newASTNode, ?S1)"
    by (rule readMathML_element_plain) (simp_all add: e found_ci)
  have ci: "setTypeCI g newASTNode e ?S1 = (nameNode (trim s), ?S2)"
    by (simp add: setTypeCI_def e hasAttribute_def Let_def peek_def textToken_def consume_def
        nameNode_def)
  have se: "setType_element g newASTNode e ?S1 = (nameNode (trim s), ?S2)"
    by (simp add: setType_element_def Let_def e ci)
  have ck: "checkFunctionArgs (nameNode (trim s)) = nameNode (trim s)"
    by (simp add: checkFunctionArgs_def getNumChildren_def nameNode_def setName_def
        unsetUnits_def upd_def newASTNode_def Let_def)
  have en: "isEndFor (endToken ''ci'') e"
    by (simp add: isEndFor_def endToken_def e)
  have fi: "readMathML_finish e (nameNode (trim s)) ?S2 = (nameNode (trim s), ?S3)"
    by (simp add: readMathML_finish_def Let_def ck e skipPastEnd_def en)
  show ?thesis
    unfolding e_def [symmetric]
    by (subst readMathML_node.simps) (simp add: sk pk cs e Let_def el se fi)
qed

lemma roundTrips_nameNode:
  assumes "trim ('' '' @ x @ '' '') = x"
  shows "roundTrips g ns sns 1 (nameNode x)"
proof -
  define s where "s = '' '' @ x @ '' ''"
  have tr: "trim s = x" using assms by (simp add: s_def)
  have w: "writeNode g ns False (nameNode x)
           = Some [StartElement ''ci'', WriteText s, EndElement ''ci'']"
    unfolding s_def by (rule writeNode_nameNode)
  have t: "tokensOf [StartElement ''ci'', WriteText s, EndElement ''ci'']
           = [startToken ''ci'' [], textToken s, endToken ''ci'']"
    by (simp add: tokenAttributes_def)
  have "readMathML_node g fuel newASTNode
          \<lparr>tokens = [startToken ''ci'' [], textToken s, endToken ''ci''] @ rest,
             errorLog = elog, sbmlNamespaces = sns\<rparr> []
        = Some (nameNode x, \<lparr>tokens = rest, errorLog = elog, sbmlNamespaces = sns\<rparr>)"
    if "1 \<le> fuel" for fuel rest elog
  proof -
    from that obtain f where "fuel = Suc f" by (cases fuel) auto
    then show ?thesis
      using readMathML_node_ci [of g f s rest elog sns] tr by simp
  qed
  then have r: "readsBack g sns 1 [startToken ''ci'' [], textToken s, endToken ''ci'']
                  (nameNode x)"
    by (simp add: readsBack_def startsElement_def startToken_def)
  have c: "closedOutput [StartElement ''ci'', WriteText s, EndElement ''ci'']"
    by (simp add: closedOutput_def)
  show ?thesis
    unfolding roundTrips_def w using c r by (simp add: tokenAttributes_def)
qed

lemma seqOut_single: "seqOut [w] = w"
  by (cases w) simp_all

lemma seqOut_pair: "seqOut [seqOut ws, seqOut vs] = seqOut (ws @ vs)"
  by (cases "seqOut ws"; cases "seqOut vs") (simp_all add: seqOut_append)

lemma seqOut_Some_Nil: "seqOut [w, Some []] = w"
  by (cases w) simp_all

lemma writeOperatorArgs_operands:
  assumes "getType n = AST_PLUS \<or> getType n = AST_TIMES"
  shows "writeOperatorArgs g ns b n = seqOut (map (writeNode g ns b) (operands n))"
  using assms
proof (induction n rule: operands.induct)
  case (1 d cs)
  let ?w = "writeNode g ns b"
  let ?O = "\<lambda>c. if getType c = mType d then operands c else [c]"
  have t: "mType d = AST_PLUS \<or> mType d = AST_TIMES"
    using 1(2) by (simp add: getType_def)
  have arg: "(if getType c = mType d then writeOperatorArgs g ns b c else ?w c)
             = seqOut (map ?w (?O c))" if "c \<in> set cs" and "length cs \<le> 2" for c
  proof (cases "getType c = mType d")
    case True
    then show ?thesis using 1(1) [OF that(2) that(1) True] t by simp
  next
    case False
    then show ?thesis by (simp add: seqOut_single)
  qed
  show ?case
  proof (cases "length cs \<le> 2")
    case False
    then show ?thesis using t by (auto simp add: operands.simps)
  next
    case True
    then consider "cs = []" | c where "cs = [c]" | l r where "cs = [l, r]"
      by (cases cs; cases "tl cs"; cases "tl (tl cs)") auto
    then show ?thesis
    proof cases
      case 1
      then show ?thesis using t by (auto simp add: operands.simps)
    next
      case (2 c)
      have "writeOperatorArgs g ns b (ASTNode d [c]) = seqOut [seqOut (map ?w (?O c)), Some []]"
        using t arg [of c] 2 by (auto simp del: seqOut.simps)
      then show ?thesis
        by (simp add: 2 operands.simps seqOut_Some_Nil del: seqOut.simps)
    next
      case (3 l r)
      have "writeOperatorArgs g ns b (ASTNode d [l, r])
            = seqOut [seqOut (map ?w (?O l)), seqOut (map ?w (?O r))]"
        using t arg [of l] arg [of r] 3 by (auto simp del: seqOut.simps)
      then show ?thesis
        by (simp add: 3 operands.simps seqOut_pair del: seqOut.simps)
    qed
  qed
qed

lemma writeNode_operator_operands:
  assumes "getType n = AST_PLUS \<or> getType n = AST_TIMES" and "\<not> getSemanticsFlag n"
  shows "writeNode g ns False n =
     seqOut [Some ([StartElement ''apply'', StartElement (operatorName (getType n))]
                   @ writeAttributes n @ [EndElement (operatorName (getType n))]),
             seqOut (map (writeNode g ns False) (operands n)),
             Some [EndElement ''apply'']]"
proof -
  obtain d cs where n: "n = ASTNode d cs" by (cases n)
  have k: "\<not> isNumber n" "\<not> isName n" "\<not> isConstant n" "isOperator n"
    using assms(1)
    by (auto simp add: isNumber_def isInteger_def isReal_def isName_def isConstant_def
        isOperator_def)
  have f: "\<not> mSemanticsFlag d" using assms(2) by (simp add: n getSemanticsFlag_def)
  have w: "writeOperator_name n
           = [StartElement (operatorName (getType n))] @ writeAttributes n
             @ [EndElement (operatorName (getType n))]"
    using assms(1)
    by (auto simp add: writeOperator_name_def writeStartEndElement_def operatorName_def)
  have a: "writeOperatorArgs g ns False n = seqOut (map (writeNode g ns False) (operands n))"
    by (rule writeOperatorArgs_operands [OF assms(1)])
  have "writeNode g ns False (ASTNode d cs)
        = writeOperator (ASTNode d cs) (writeOperatorArgs g ns False (ASTNode d cs))"
    using k by (subst writeNode.simps) (simp add: f writeNode_dispatch_def n)
  then show ?thesis
    using a w by (simp add: n writeOperator_def del: seqOut.simps)
qed

lemma takeAttributes_writeAttributes:
  "takeAttributes (writeAttributes n @ EndElement m # out) = takeAttributes (writeAttributes n)"
  "dropAttributes (writeAttributes n @ EndElement m # out) = EndElement m # out"
  by (simp_all add: writeAttributes_def)

lemma tokensOf_operator_attributes:
  assumes "\<forall>out\<in>set outs. closedOutput out"
  shows "tokensOf ([StartElement ''apply'', StartElement m] @ writeAttributes n
                    @ [EndElement m] @ concat outs @ [EndElement ''apply''])
         = startToken ''apply'' []
           # emptyToken m (tokenAttributes (takeAttributes (writeAttributes n)))
           # concat (map tokensOf outs) @ [endToken ''apply'']"
  using tokensOf_concat [OF assms, of "[EndElement ''apply'']"]
  by (simp add: takeAttributes_writeAttributes) (simp add: tokenAttributes_def)

lemma attributes_read:
  "readInto (tokenAttributes (takeAttributes (writeAttributes n))) ''id'' [] = mId (dat n)"
  "readInto (tokenAttributes (takeAttributes (writeAttributes n))) ''class'' [] = mClass (dat n)"
  "readInto (tokenAttributes (takeAttributes (writeAttributes n))) ''style'' [] = mStyle (dat n)"
  "readInto (tokenAttributes (takeAttributes (writeAttributes n))) ''encoding'' [] = []"
  "readInto (tokenAttributes (takeAttributes (writeAttributes n))) ''type'' [] = []"
  "readInto (tokenAttributes (takeAttributes (writeAttributes n))) ''definitionURL'' [] = []"
  "readInto (tokenAttributes (takeAttributes (writeAttributes n))) ''units'' [] = []"
  by (simp_all add: writeAttributes_def tokenAttributes_def localName_def
      isNamespaceDeclaration_def readInto_def)

lemma readMathML_element_attributes:
  assumes "tAttributes e = tokenAttributes (takeAttributes (writeAttributes n))"
    and "util_bsearchStringsI MATHML_ELEMENTS (tName e) < length MATHML_ELEMENTS"
  shows "readMathML_element newASTNode e stream []
         = (ASTNode ((dat newASTNode)\<lparr>mId := mId (dat n), mClass := mClass (dat n),
                                      mStyle := mStyle (dat n)\<rparr>) [], stream)"
  using assms(2)
  by (simp add: readMathML_element_def Let_def logIf_def assms(1) attributes_read)
    (simp add: setId_def setClass_def setStyle_def upd_def newASTNode_def)

lemma readMathML_node_operatorElement:
  assumes "getType n = AST_PLUS \<or> getType n = AST_TIMES"
  shows "readMathML_node g (Suc f) newASTNode
           \<lparr>tokens = emptyToken (operatorName (getType n))
                         (tokenAttributes (takeAttributes (writeAttributes n))) # ts,
              errorLog = elog, sbmlNamespaces = sns\<rparr> []
         = Some (ASTNode (operatorRoot n) [],
                 \<lparr>tokens = ts, errorLog = elog, sbmlNamespaces = sns\<rparr>)"
proof -
  define t where "t = getType n"
  define e where "e = emptyToken (operatorName t)
                        (tokenAttributes (takeAttributes (writeAttributes n)))"
  define n3 where "n3 = ASTNode ((dat newASTNode)\<lparr>mId := mId (dat n), mClass := mClass (dat n),
                                      mStyle := mStyle (dat n)\<rparr>) []"
  let ?S = "\<lparr>tokens = e # ts, errorLog = elog, sbmlNamespaces = sns\<rparr>"
  let ?S1 = "\<lparr>tokens = ts, errorLog = elog, sbmlNamespaces = sns\<rparr>"
  let ?root = "ASTNode (operatorRoot n) []"
  have t: "t = AST_PLUS \<or> t = AST_TIMES" using assms by (simp add: t_def)
  have e: "tName e = operatorName t" "tIsEnd e" "\<not> tIsText e"
    "tAttributes e = tokenAttributes (takeAttributes (writeAttributes n))"
    by (simp_all add: e_def emptyToken_def)
  note no = operatorName_other [OF t]
  have sk: "skipText ?S = ?S" by (simp add: skipText_def isWhiteSpaceText_def e)
  have pk: "peek ?S = e" by (simp add: peek_def)
  have cs: "consume ?S = ?S1" by (simp add: consume_def)
  have el: "readMathML_element newASTNode e ?S1 [] = (n3, ?S1)"
    unfolding n3_def
    by (rule readMathML_element_attributes) (simp_all add: e found_operator [OF t])
  have st: "setType t n3 = ?root"
    using t
    by (auto simp add: n3_def setType_def getType_def newASTNode_def upd_def isOperator_def
        isNumber_def isInteger_def isReal_def operatorRoot_def t_def)
  have se: "setType_element g n3 e ?S1 = (?root, ?S1)"
    by (simp add: setType_element_def Let_def e no setTypeOther_def found_operator [OF t] st)
  have gt: "getType ?root = t" by (simp add: getType_def operatorRoot_def t_def)
  have nl: "getType ?root \<noteq> AST_FUNCTION_LOG" "getType ?root \<noteq> AST_FUNCTION_ROOT"
    using t by (auto simp add: gt)
  have ck: "checkFunctionArgs ?root = ?root"
    by (simp add: checkFunctionArgs_def nl)
  have fi: "readMathML_finish e ?root ?S1 = (?root, ?S1)"
    by (simp add: readMathML_finish_def Let_def ck e no skipPastEnd_def)
  show ?thesis
    unfolding t_def [symmetric] e_def [symmetric]
    by (subst readMathML_node.simps) (simp add: sk pk cs e no Let_def el se fi)
qed

lemma readMathML_node_operands:
  assumes "getType n = AST_PLUS \<or> getType n = AST_TIMES"
    and "list_all2 (readsBack g sns k) tss cs"
    and "k + length cs + 2 \<le> fuel"
  shows "readMathML_node g fuel newASTNode
           \<lparr>tokens = startToken ''apply'' []
                       # emptyToken (operatorName (getType n))
                           (tokenAttributes (takeAttributes (writeAttributes n)))
                       # concat tss @ endToken ''apply'' # rest,
              errorLog = elog, sbmlNamespaces = sns\<rparr> []
         = Some (foldl addOperand (ASTNode (operatorRoot n) []) cs,
                 \<lparr>tokens = rest, errorLog = elog, sbmlNamespaces = sns\<rparr>)"
proof -
  define e where "e = startToken ''apply'' []"
  define p where "p = emptyToken (operatorName (getType n))
                        (tokenAttributes (takeAttributes (writeAttributes n)))"
  define root where "root = ASTNode (operatorRoot n) []"
  let ?R = "concat tss @ endToken ''apply'' # rest"
  let ?S = "\<lparr>tokens = e # p # ?R, errorLog = elog, sbmlNamespaces = sns\<rparr>"
  let ?S1 = "\<lparr>tokens = p # ?R, errorLog = elog, sbmlNamespaces = sns\<rparr>"
  let ?S2 = "\<lparr>tokens = ?R, errorLog = elog, sbmlNamespaces = sns\<rparr>"
  let ?S3 = "\<lparr>tokens = endToken ''apply'' # rest, errorLog = elog, sbmlNamespaces = sns\<rparr>"
  let ?S4 = "\<lparr>tokens = rest, errorLog = elog, sbmlNamespaces = sns\<rparr>"
  let ?node = "foldl addOperand root cs"
  from assms(3) obtain f f' where f: "fuel = Suc f" "f = Suc f'"
    and fk: "k + length cs + 1 \<le> f"
    by (cases fuel; cases "fuel - 1") auto
  have e: "tName e = ''apply''" "tIsStart e" "\<not> tIsEnd e" "\<not> tIsText e" "tAttributes e = []"
    by (simp_all add: e_def startToken_def)
  have p: "tName p = operatorName (getType n)" "\<not> tIsText p"
    by (simp_all add: p_def emptyToken_def)
  have sk: "skipText ?S = ?S" by (simp add: skipText_def isWhiteSpaceText_def e)
  have pk: "peek ?S = e" by (simp add: peek_def)
  have cs: "consume ?S = ?S1" by (simp add: consume_def)
  have el: "readMathML_element newASTNode e ?S1 [] = (newASTNode, ?S1)"
    by (rule readMathML_element_plain) (simp_all add: e found_apply)
  have an: "readMathML_applyNext ?S1 = ?S1"
    by (simp add: readMathML_applyNext_def Let_def skipText_def
        isWhiteSpaceText_def p peek_def logIf_def operatorName_other [OF assms(1)])
  have hd: "readMathML_node g f newASTNode ?S1 [] = Some (root, ?S2)"
    unfolding f(2) p_def root_def by (rule readMathML_node_operatorElement [OF assms(1)])
  have gr: "getType root = getType n"
    by (simp add: root_def getType_def operatorRoot_def)
  have ty: "getType root = AST_PLUS \<or> getType root = AST_TIMES"
    using assms(1) by (simp add: gr)
  have nn: "\<not> isName root" "\<not> isNumber root"
    "getType root \<noteq> AST_CONSTANT_TRUE"
    "getType root \<noteq> AST_CONSTANT_FALSE"
    "getType root \<noteq> AST_CONSTANT_PI"
    "getType root \<noteq> AST_CONSTANT_E"
    "getType root \<noteq> AST_FUNCTION_PIECEWISE"
    using ty
    by (auto simp add: isName_def isNumber_def isInteger_def isReal_def)
  have ah: "readMathML_applyHead root ?S2 = (False, root, ?S2)"
    by (simp add: readMathML_applyHead_def Let_def nn)
  have rc: "readChildren g f e root ?S2 [] = Some (?node, ?S3)"
    by (rule readChildren_operands [OF assms(2) ty e(1) e(2) fk])
  have gt: "getType ?node = getType n"
    by (simp add: getType_foldl_addOperand gr)
  have nl: "getType ?node \<noteq> AST_FUNCTION_LOG" "getType ?node \<noteq> AST_FUNCTION_ROOT"
    using assms(1) by (auto simp add: gt)
  have ck: "checkFunctionArgs ?node = ?node"
    by (simp add: checkFunctionArgs_def nl)
  have en: "isEndFor (endToken ''apply'') e"
    by (simp add: isEndFor_def endToken_def e)
  have fi: "readMathML_finish e ?node ?S3 = (?node, ?S4)"
    by (simp add: readMathML_finish_def Let_def ck e skipPastEnd_def en)
  show ?thesis
    unfolding e_def [symmetric] p_def [symmetric] root_def [symmetric] f(1)
    by (subst readMathML_node.simps) (simp add: sk pk cs e Let_def el an hd ah rc fi)
qed

lemma addOperand_data:
  assumes "mType d = mType d'"
  shows "addOperand (ASTNode d cs) c = ASTNode d (mChildren (addOperand (ASTNode d' cs) c))"
  using assms
  by (simp add: addOperand_def addChild_def reduceBinary_def prependChild_def Let_def
      getNumChildren_def getType_def)

lemma foldl_addOperand_data:
  assumes "mType d = mType d'"
  shows "foldl addOperand (ASTNode d cs0) cs
         = ASTNode d (mChildren (foldl addOperand (ASTNode d' cs0) cs))"
proof (induction cs arbitrary: cs0)
  case Nil
  then show ?case by simp
next
  case (Cons c cs)
  have a: "addOperand (ASTNode d cs0) c = ASTNode d (mChildren (addOperand (ASTNode d' cs0) c))"
    by (rule addOperand_data [OF assms])
  have b: "addOperand (ASTNode d' cs0) c = ASTNode d' (mChildren (addOperand (ASTNode d' cs0) c))"
    by (rule addOperand_data) simp
  show ?case
    using Cons.IH [of "mChildren (addOperand (ASTNode d' cs0) c)"]
    by (simp only: foldl_Cons a) (simp add: b [symmetric])
qed

lemma mChildren_leftChain:
  assumes "2 \<le> length cs"
  shows "mChildren (leftChain t cs)
         = (if length cs = 2 then cs else [leftChain t (butlast cs), last cs])"
proof (cases "length cs = 2")
  case True
  then obtain c1 c2 where "cs = [c1, c2]"
    by (cases cs; cases "tl cs") auto
  then show ?thesis by (simp add: leftChain_two typedNode_facts)
next
  case False
  with assms have b: "2 \<le> length (butlast cs)" and n: "cs \<noteq> []" by auto
  have "leftChain t (butlast cs @ [last cs]) = typedNode t [leftChain t (butlast cs), last cs]"
    by (rule leftChain_snoc [OF b])
  then show ?thesis using False n by (simp add: typedNode_facts)
qed

lemma foldl_addOperand_binaryChain:
  assumes "mType d = AST_PLUS \<or> mType d = AST_TIMES"
  shows "foldl addOperand (ASTNode d []) cs = binaryChain d cs"
proof (cases "2 \<le> length cs")
  case True
  have t: "mType d = mType (dat (typedNode (mType d) []))"
    using typedNode_facts(1) [of "mType d" "[]"] by (simp add: getType_def)
  have "foldl addOperand (ASTNode d []) cs
        = ASTNode d (mChildren (foldl addOperand (typedNode (mType d) []) cs))"
    using foldl_addOperand_data [OF t, of "[]" cs] by (simp add: typedNode_dat)
  also have "\<dots> = ASTNode d (mChildren (leftChain (mType d) cs))"
    using foldl_addOperand_leftChain [OF assms True] by simp
  finally show ?thesis
    using True by (auto simp add: binaryChain_def mChildren_leftChain)
next
  case False
  then consider "cs = []" | c where "cs = [c]"
    by (cases cs; cases "tl cs") auto
  then show ?thesis
    by cases
      (simp_all add: binaryChain_def addOperand_def addChild_def reduceBinary_def
        getNumChildren_def)
qed

lemma operands_leftChain:
  assumes "t = AST_PLUS \<or> t = AST_TIMES"
    and "2 \<le> length cs" and "\<forall>c\<in>set cs. getType c \<noteq> t"
  shows "operands (leftChain t cs) = cs"
  using assms(2,3)
proof (induction cs rule: rev_induct)
  case Nil
  then show ?case by simp
next
  case (snoc c cs)
  have c: "getType c \<noteq> t" using snoc.prems(2) by simp
  show ?case
  proof (cases "2 \<le> length cs")
    case True
    have ih: "operands (leftChain t cs) = cs" using snoc.IH [OF True] snoc.prems(2) by simp
    have g: "getType (leftChain t cs) = t"
      by (rule getType_leftChain [OF assms(1) True])
    show ?thesis
      using c
      by (simp add: leftChain_snoc [OF True] typedNode_def operands.simps mType_setType g ih)
  next
    case False
    with snoc.prems have "length cs = 1" by simp
    then obtain c1 where c1: "cs = [c1]" by (cases cs) auto
    have c': "getType c1 \<noteq> t" using snoc.prems(2) c1 by simp
    show ?thesis
      using c c'
      by (simp add: c1 leftChain_two typedNode_def operands.simps mType_setType)
  qed
qed

lemma operands_binaryChain:
  assumes "mType d = AST_PLUS \<or> mType d = AST_TIMES"
    and "\<forall>c\<in>set cs. getType c \<noteq> mType d"
  shows "operands (binaryChain d cs) = cs"
proof (cases "length cs \<le> 2")
  case True
  have "concat (map (\<lambda>c. if getType c = mType d then operands c else [c]) cs) = cs"
    using assms(2) by (induction cs) auto
  then show ?thesis using True by (simp add: binaryChain_def operands.simps)
next
  case False
  then have b: "2 \<le> length (butlast cs)" and n: "cs \<noteq> []" by auto
  have nb: "\<forall>c\<in>set (butlast cs). getType c \<noteq> mType d"
    using assms(2) by (auto dest: in_set_butlastD)
  have l: "getType (last cs) \<noteq> mType d" using assms(2) n by simp
  have g: "getType (leftChain (mType d) (butlast cs)) = mType d"
    by (rule getType_leftChain [OF assms(1) b])
  have o: "operands (leftChain (mType d) (butlast cs)) = butlast cs"
    by (rule operands_leftChain [OF assms(1) b nb])
  show ?thesis
    using False l n by (simp add: binaryChain_def operands.simps g o)
qed

lemma operands_flat: "2 < length (mChildren n) \<Longrightarrow> operands n = mChildren n"
  by (cases n) (simp add: operands.simps)

lemma operands_flat_then_chain:
  assumes "getType node = AST_PLUS \<or> getType node = AST_TIMES"
    and "\<not> getSemanticsFlag node"
    and "\<forall>c\<in>set (operands node). roundTrips g ns sns k c"
  shows "\<exists>out. writeNode g ns False node = Some out
       \<and> out = [StartElement ''apply'', StartElement (operatorName (getType node))]
                 @ writeAttributes node @ [EndElement (operatorName (getType node))]
                 @ concat (map (\<lambda>c. the (writeNode g ns False c)) (operands node))
                 @ [EndElement ''apply'']
       \<and> (\<forall>fuel rest elog. k + length (operands node) + 2 \<le> fuel \<longrightarrow>
             readMathML_node g fuel newASTNode
               \<lparr>tokens = tokensOf out @ rest, errorLog = elog, sbmlNamespaces = sns\<rparr> []
             = Some (binaryChain (operatorRoot node) (operands node),
                     \<lparr>tokens = rest, errorLog = elog, sbmlNamespaces = sns\<rparr>))
       \<and> getNumChildren (binaryChain (operatorRoot node) (operands node)) \<le> 2
       \<and> ((\<forall>c\<in>set (operands node). getType c \<noteq> getType node) \<longrightarrow>
             writeNode g ns False (binaryChain (operatorRoot node) (operands node)) = Some out)"
proof -
  let ?w = "writeNode g ns False"
  let ?ops = "operands node"
  let ?outs = "map (\<lambda>c. the (?w c)) ?ops"
  let ?name = "operatorName (getType node)"
  let ?out = "[StartElement ''apply'', StartElement ?name] @ writeAttributes node
              @ [EndElement ?name] @ concat ?outs @ [EndElement ''apply'']"
  let ?chain = "binaryChain (operatorRoot node) ?ops"
  have rt: "?w c \<noteq> None \<and> closedOutput (the (?w c))
            \<and> readsBack g sns k (tokensOf (the (?w c))) c" if "c \<in> set ?ops" for c
    using assms(3) that by (auto simp add: roundTrips_def split: option.splits)
  have args: "seqOut (map ?w ?ops) = Some (concat ?outs)"
    by (rule seqOut_map_Some) (use rt in auto)
  have wr: "?w node = Some ?out"
    by (simp add: writeNode_operator_operands [OF assms(1,2)] args del: seqOut.simps) simp
  have cl: "\<forall>out\<in>set ?outs. closedOutput out" using rt by auto
  have tk: "tokensOf ?out = startToken ''apply'' []
              # emptyToken ?name (tokenAttributes (takeAttributes (writeAttributes node)))
              # concat (map tokensOf ?outs) @ [endToken ''apply'']"
    by (rule tokensOf_operator_attributes [OF cl])
  have la: "list_all2 (readsBack g sns k) (map tokensOf ?outs) ?ops"
    using rt by (simp add: list_all2_map1 list_all2_same)
  have mt: "mType (operatorRoot node) = AST_PLUS \<or> mType (operatorRoot node) = AST_TIMES"
    using assms(1) by (simp add: operatorRoot_def)
  have rd: "readMathML_node g fuel newASTNode
               \<lparr>tokens = tokensOf ?out @ rest, errorLog = elog, sbmlNamespaces = sns\<rparr> []
             = Some (?chain, \<lparr>tokens = rest, errorLog = elog, sbmlNamespaces = sns\<rparr>)"
    if "k + length ?ops + 2 \<le> fuel" for fuel rest elog
  proof -
    have len: "k + length ?ops + 2 \<le> fuel" by (rule that)
    have e: "tokensOf ?out @ rest = startToken ''apply'' []
               # emptyToken ?name (tokenAttributes (takeAttributes (writeAttributes node)))
               # concat (map tokensOf ?outs) @ endToken ''apply'' # rest"
      by (simp only: tk) simp
    show ?thesis
      unfolding e
      using readMathML_node_operands [OF assms(1) la len, of rest elog]
        foldl_addOperand_binaryChain [OF mt, of ?ops]
      by simp
  qed
  have nc: "getNumChildren ?chain \<le> 2"
    by (simp add: binaryChain_def getNumChildren_def)
  have ch: "?w ?chain = Some ?out" if ne: "\<forall>c\<in>set ?ops. getType c \<noteq> getType node"
  proof -
    have ne': "\<forall>c\<in>set ?ops. getType c \<noteq> mType (operatorRoot node)"
      using ne by (simp add: operatorRoot_def)
    have o: "operands ?chain = ?ops"
      by (rule operands_binaryChain [OF mt ne'])
    have d: "dat ?chain = operatorRoot node"
      by (simp add: binaryChain_def)
    have gt: "getType ?chain = getType node"
      by (simp add: getType_def d) (simp add: operatorRoot_def getType_def)
    have sf: "\<not> getSemanticsFlag ?chain"
      by (simp add: getSemanticsFlag_def d) (simp add: operatorRoot_def newASTNode_def)
    have wa: "writeAttributes ?chain = writeAttributes node"
      by (simp add: writeAttributes_def d) (simp add: operatorRoot_def)
    have ty: "getType ?chain = AST_PLUS \<or> getType ?chain = AST_TIMES"
      using assms(1) by (simp add: gt)
    show ?thesis
      by (simp add: writeNode_operator_operands [OF ty sf] o gt wa args del: seqOut.simps)
        simp
  qed
  show ?thesis
    using wr rd nc ch by blast
qed

text \<open>
  Claim C1, as the code has it. The operands of a plus or times node are what
  \<open>writeOperatorArgs\<close> writes for it, each through \<open>writeNode\<close> and in order: all its children
  when it holds more than two, and otherwise its children, with a child of the node's own
  type replaced by that child's operands in turn. This holds for every plus or times
  node. For such a node that carries no semantics flag and whose operands each come back
  from their own output: the writer puts the outputs of the operands, in order, under one
  \<open>apply\<close> after the operator; the reader makes of the tokens of that output the chain of
  binary nodes \<open>op(op(o1, o2), o3) ...\<close> of the same type over the operands (with the id,
  class and style of the node at its root), which has no more than two children; and
  when no operand is itself of that type, the writer puts the same output for that chain.
  So a node with more than two children does not come back as it was, nested binary
  nodes, nested to the left or to the right, are written flat and come back as the chain
  nested to the left, and that chain is what the way through the writer and the reader
  leaves unchanged.
\<close>

theorem C1_operands_flat_then_chain:
  assumes "getType node = AST_PLUS \<or> getType node = AST_TIMES"
  shows "writeOperatorArgs g ns b node = seqOut (map (writeNode g ns b) (operands node))
     \<and> (2 < length (mChildren node) \<longrightarrow> operands node = mChildren node)
     \<and> (\<not> getSemanticsFlag node \<and> (\<forall>c\<in>set (operands node). roundTrips g ns sns k c) \<longrightarrow>
          (\<exists>out. writeNode g ns False node = Some out
             \<and> out = [StartElement ''apply'', StartElement (operatorName (getType node))]
                       @ writeAttributes node @ [EndElement (operatorName (getType node))]
                       @ concat (map (\<lambda>c. the (writeNode g ns False c)) (operands node))
                       @ [EndElement ''apply'']
             \<and> (\<forall>fuel rest elog. k + length (operands node) + 2 \<le> fuel \<longrightarrow>
                   readMathML_node g fuel newASTNode
                     \<lparr>tokens = tokensOf out @ rest, errorLog = elog, sbmlNamespaces = sns\<rparr> []
                   = Some (binaryChain (operatorRoot node) (operands node),
                           \<lparr>tokens = rest, errorLog = elog, sbmlNamespaces = sns\<rparr>))
             \<and> getNumChildren (binaryChain (operatorRoot node) (operands node)) \<le> 2
             \<and> ((\<forall>c\<in>set (operands node). getType c \<noteq> getType node) \<longrightarrow>
                   writeNode g ns False (binaryChain (operatorRoot node) (operands node))
                   = Some out)))"
proof -
  have w: "writeOperatorArgs g ns b node = seqOut (map (writeNode g ns b) (operands node))"
    by (rule writeOperatorArgs_operands [OF assms])
  have f: "2 < length (mChildren node) \<longrightarrow> operands node = mChildren node"
    by (simp add: operands_flat)
  have r: "\<exists>out. writeNode g ns False node = Some out
             \<and> out = [StartElement ''apply'', StartElement (operatorName (getType node))]
                       @ writeAttributes node @ [EndElement (operatorName (getType node))]
                       @ concat (map (\<lambda>c. the (writeNode g ns False c)) (operands node))
                       @ [EndElement ''apply'']
             \<and> (\<forall>fuel rest elog. k + length (operands node) + 2 \<le> fuel \<longrightarrow>
                   readMathML_node g fuel newASTNode
                     \<lparr>tokens = tokensOf out @ rest, errorLog = elog, sbmlNamespaces = sns\<rparr> []
                   = Some (binaryChain (operatorRoot node) (operands node),
                           \<lparr>tokens = rest, errorLog = elog, sbmlNamespaces = sns\<rparr>))
             \<and> getNumChildren (binaryChain (operatorRoot node) (operands node)) \<le> 2
             \<and> ((\<forall>c\<in>set (operands node). getType c \<noteq> getType node) \<longrightarrow>
                   writeNode g ns False (binaryChain (operatorRoot node) (operands node))
                   = Some out)"
    if "\<not> getSemanticsFlag node \<and> (\<forall>c\<in>set (operands node). roundTrips g ns sns k c)"
    using that operands_flat_then_chain [OF assms, of g ns sns k] by blast
  show ?thesis
    using w f r by blast
qed

theorem C1_operands_flat_then_chain_witness:
  "roundTrips plainGlobals None None 1 (nameNode ''a'')
   \<and> roundTrips plainGlobals None None 1 (nameNode ''b'')
   \<and> roundTrips plainGlobals None None 1 (nameNode ''c'')
   \<and> getType flatSum = AST_PLUS \<and> \<not> getSemanticsFlag flatSum
   \<and> getType nestedSum = AST_PLUS \<and> \<not> getSemanticsFlag nestedSum
   \<and> operands flatSum = [nameNode ''a'', nameNode ''b'', nameNode ''c'']
   \<and> operands nestedSum = [nameNode ''a'', nameNode ''b'', nameNode ''c'']
   \<and> writeNode plainGlobals None False flatSum = Some flatSumOutput
   \<and> writeNode plainGlobals None False nestedSum = Some flatSumOutput
   \<and> readMathML_node plainGlobals 6 newASTNode (freshStream (tokensOf flatSumOutput)) []
       = Some (typedNode AST_PLUS [typedNode AST_PLUS [nameNode ''a'', nameNode ''b''],
                                   nameNode ''c''], freshStream [])
   \<and> writeNode plainGlobals None False
         (typedNode AST_PLUS [typedNode AST_PLUS [nameNode ''a'', nameNode ''b''],
                              nameNode ''c'']) = Some flatSumOutput"
proof -
  let ?cs = "[nameNode ''a'', nameNode ''b'', nameNode ''c'']"
  let ?chain = "typedNode AST_PLUS [typedNode AST_PLUS [nameNode ''a'', nameNode ''b''],
                                    nameNode ''c'']"
  have tr: "trim ('' '' @ ''a'' @ '' '') = ''a''" "trim ('' '' @ ''b'' @ '' '') = ''b''"
    "trim ('' '' @ ''c'' @ '' '') = ''c''"
    by (simp_all add: trim_def isSpace_def)
  have r: "roundTrips plainGlobals None None 1 (nameNode ''a'')"
    "roundTrips plainGlobals None None 1 (nameNode ''b'')"
    "roundTrips plainGlobals None None 1 (nameNode ''c'')"
    by (rule roundTrips_nameNode, rule tr)+
  have ty: "getType (nameNode ''a'') = AST_NAME" "getType (nameNode ''b'') = AST_NAME"
    "getType (nameNode ''c'') = AST_NAME"
    by (simp_all add: nameNode_def node_defs)
  have f1: "getType flatSum = AST_PLUS" and n1: "getType nestedSum = AST_PLUS"
    by (simp_all add: flatSum_def nestedSum_def typedNode_facts)
  have f2: "\<not> getSemanticsFlag flatSum" and n2: "\<not> getSemanticsFlag nestedSum"
    by (simp_all add: flatSum_def nestedSum_def getSemanticsFlag_def dat_typedNode
        newASTNode_def)
  have f3: "operands flatSum = ?cs"
    by (simp add: flatSum_def typedNode_def operands.simps)
  have n3: "operands nestedSum = ?cs"
    by (simp add: nestedSum_def typedNode_def operands.simps mType_setType getType_def
        ty [unfolded getType_def])
  have a3: "\<forall>c\<in>set ?cs. roundTrips plainGlobals None None 1 c" using r by simp
  have a4: "\<forall>c\<in>set ?cs. getType c \<noteq> AST_PLUS" using ty by simp
  have rf: "operatorRoot flatSum = dat (typedNode AST_PLUS [])"
    and rn: "operatorRoot nestedSum = dat (typedNode AST_PLUS [])"
    by (simp_all add: operatorRoot_def flatSum_def nestedSum_def typedNode_facts dat_typedNode
        newASTNode_def)
  have wa: "writeAttributes flatSum = []" "writeAttributes nestedSum = []"
    by (simp_all add: writeAttributes_def flatSum_def nestedSum_def dat_typedNode
        newASTNode_def)
  have bc: "binaryChain (dat (typedNode AST_PLUS [])) ?cs = ?chain"
    by (simp add: binaryChain_def leftChain_two typedNode_dat
        typedNode_facts [unfolded getType_def])
  have o: "[StartElement ''apply'', StartElement (operatorName AST_PLUS)] @ []
           @ [EndElement (operatorName AST_PLUS)]
           @ concat (map (\<lambda>c. the (writeNode plainGlobals None False c)) ?cs)
           @ [EndElement ''apply''] = flatSumOutput"
    by (simp add: writeNode_nameNode operatorName_def flatSumOutput_def)
  have a3f: "\<not> getSemanticsFlag flatSum
             \<and> (\<forall>c\<in>set (operands flatSum). roundTrips plainGlobals None None 1 c)"
    and a3n: "\<not> getSemanticsFlag nestedSum
             \<and> (\<forall>c\<in>set (operands nestedSum). roundTrips plainGlobals None None 1 c)"
    using f2 n2 a3 by (simp_all add: f3 n3)
  from C1_operands_flat_then_chain [OF disjI1 [OF f1], of plainGlobals None False None 1,
      THEN conjunct2, THEN conjunct2, rule_format, OF a3f]
  have w: "writeNode plainGlobals None False flatSum = Some flatSumOutput"
    and rd: "\<And>fuel rest elog. 1 + length ?cs + 2 \<le> fuel \<Longrightarrow>
             readMathML_node plainGlobals fuel newASTNode
               \<lparr>tokens = tokensOf flatSumOutput @ rest, errorLog = elog,
                  sbmlNamespaces = None\<rparr> []
             = Some (?chain, \<lparr>tokens = rest, errorLog = elog, sbmlNamespaces = None\<rparr>)"
    and ch: "writeNode plainGlobals None False ?chain = Some flatSumOutput"
    unfolding f3 f1 wa rf bc o using a3 a4 by blast+
  from C1_operands_flat_then_chain [OF disjI1 [OF n1], of plainGlobals None False None 1,
      THEN conjunct2, THEN conjunct2, rule_format, OF a3n]
  have wn: "writeNode plainGlobals None False nestedSum = Some flatSumOutput"
    unfolding n3 n1 wa rn bc o using a3 by blast
  have r6: "readMathML_node plainGlobals 6 newASTNode (freshStream (tokensOf flatSumOutput)) []
       = Some (?chain, freshStream [])"
    using rd [of 6 "[]" "[]"] by (simp add: freshStream_def del: tokensOf.simps)
  show ?thesis
    using r f1 f2 n1 n2 f3 n3 w wn r6 ch by blast
qed

text \<open>
  Claim C1, as it is worded, fails on the sum of \<open>a\<close>, \<open>b\<close> and \<open>c\<close> held as one node with
  three children: the output is flat, and reading it gives the node of the sum of \<open>a\<close> and
  \<open>b\<close>, and \<open>c\<close>, which is not the node that was written.
\<close>

theorem C1_flat_node_not_fixed:
  "writeMathML plainGlobals (Some flatSum) None
     = Some ([StartElement ''math'',
              WriteAttribute ''xmlns'' ''http://www.w3.org/1998/Math/MathML'']
             @ flatSumOutput @ [EndElement ''math''])
   \<and> fst (readMathML plainGlobals
            (freshStream (tokensOf ([StartElement ''math'',
               WriteAttribute ''xmlns'' ''http://www.w3.org/1998/Math/MathML'']
               @ flatSumOutput @ [EndElement ''math'']))) [])
     = typedNode AST_PLUS [typedNode AST_PLUS [nameNode ''a'', nameNode ''b''], nameNode ''c'']
   \<and> fst (readMathML plainGlobals
            (freshStream (tokensOf ([StartElement ''math'',
               WriteAttribute ''xmlns'' ''http://www.w3.org/1998/Math/MathML'']
               @ flatSumOutput @ [EndElement ''math'']))) []) \<noteq> flatSum
   \<and> getNumChildren flatSum = 3"
  by code_simp

end
